theory Spec2Isabelle
  imports Main "HOL-Library.Sublist"
begin

section \<open>JavaScript strings and numbers\<close>

text \<open>
  Strings are lists of characters. The model covers ASCII text: the white space of
  \<^verbatim>\<open>String.prototype.trim\<close> and of the regular-expression class \<^verbatim>\<open>\s\<close> is
  tab, line feed, vertical tab, form feed, carriage return and space; the non-ASCII
  white space of ECMAScript (U+00A0, U+FEFF, the Unicode space separators, U+2028,
  U+2029) is outside the character type, and \<^verbatim>\<open>toLowerCase\<close> changes the letters
  A to Z only. Numbers that the program only counts with or
  parses from digits are integers; the rounding of IEEE doubles beyond \<open>2^53\<close> is not
  modelled.
\<close>

definition isWhiteSpace :: "char \<Rightarrow> bool" where
  "isWhiteSpace c \<longleftrightarrow>
     c = CHR 0x09 \<or> c = CHR 0x0A \<or> c = CHR 0x0B \<or> c = CHR 0x0C \<or> c = CHR 0x0D \<or> c = CHR 0x20"

definition isLineTerminator :: "char \<Rightarrow> bool" where
  \<comment> \<open>the characters that \<^verbatim>\<open>.\<close> does not match\<close>
  "isLineTerminator c \<longleftrightarrow> c = CHR 0x0A \<or> c = CHR 0x0D"

definition isDigit :: "char \<Rightarrow> bool" where
  \<comment> \<open>\<^verbatim>\<open>\d\<close>\<close>
  "isDigit c \<longleftrightarrow> (48::nat) \<le> of_char c \<and> of_char c \<le> (57::nat)"

definition trim :: "string \<Rightarrow> string" where
  "trim s = rev (dropWhile isWhiteSpace (rev (dropWhile isWhiteSpace s)))"

definition toLowerChar :: "char \<Rightarrow> char" where
  "toLowerChar c =
     (if (65::nat) \<le> of_char c \<and> of_char c \<le> (90::nat) then char_of (of_char c + (32::nat)) else c)"

definition toLowerCase :: "string \<Rightarrow> string" where
  "toLowerCase s = map toLowerChar s"

definition startsWith :: "string \<Rightarrow> string \<Rightarrow> bool" where
  "startsWith s p \<longleftrightarrow> take (length p) s = p"

definition digitChar :: "nat \<Rightarrow> char" where
  "digitChar d = char_of (48 + d)"

function showNat :: "nat \<Rightarrow> string" where
  "showNat n = (if n < 10 then [digitChar n] else showNat (n div 10) @ [digitChar (n mod 10)])"
  by pat_completeness auto
termination
  by (relation "measure id") auto

declare showNat.simps [simp del]

definition String_int :: "int \<Rightarrow> string" where
  \<comment> \<open>\<^verbatim>\<open>String(n)\<close> and \<^verbatim>\<open>`${n}`\<close> for an integral number\<close>
  "String_int i = (if i < 0 then CHR ''-'' # showNat (nat (- i)) else showNat (nat i))"

definition digitVal :: "char \<Rightarrow> nat" where
  "digitVal c = of_char c - 48"

definition parseInt10 :: "string \<Rightarrow> int" where
  \<comment> \<open>\<^verbatim>\<open>parseInt(s, 10)\<close> on a string of decimal digits: the exact value, which is what
      JavaScript gives up to \<open>2^53\<close>; the double that a longer number is rounded to is
      not modelled\<close>
  "parseInt10 ds = int (foldl (\<lambda>acc c. 10 * acc + digitVal c) 0 ds)"


section \<open>Styled text\<close>

text \<open>
  The content of a text widget is a list of chunks, each with a bold flag, an optional
  foreground colour and a text, as the \<^verbatim>\<open>t\<close> template of the widget library builds
  it; a plain string is one chunk, the empty string no chunk.
\<close>

datatype Chunk = Chunk bool "string option" string

type_synonym StyledText = "Chunk list"

definition plain :: "string \<Rightarrow> StyledText" where
  "plain s = (if s = [] then [] else [Chunk False None s])"

definition lit :: "string \<Rightarrow> Chunk" where
  "lit s = Chunk False None s"

definition fg :: "string \<Rightarrow> string \<Rightarrow> Chunk" where
  "fg colour s = Chunk False (Some colour) s"

fun bold :: "Chunk \<Rightarrow> Chunk" where
  "bold (Chunk b c s) = Chunk True c s"

definition errorColour :: string where "errorColour = ''#e06c75''"
definition mutedColour :: string where "mutedColour = ''#808080''"
definition okColour :: string where "okColour = ''#7fd88f''"
definition warnColour :: string where "warnColour = ''#f5a742''"
definition accentColour :: string where "accentColour = ''#fab283''"

definition statusContent :: "string \<Rightarrow> bool \<Rightarrow> StyledText" where
  \<comment> \<open>the content that the \<^verbatim>\<open>showStatus(message, error)\<close> methods set\<close>
  "statusContent message err = (if err then [fg errorColour message] else [fg mutedColour message])"

definition styledString :: "StyledText \<Rightarrow> string" where
  \<comment> \<open>the characters on the screen\<close>
  "styledString st = concat (map (\<lambda>c. case c of Chunk b col s \<Rightarrow> s) st)"


section \<open>Fuzzy file filter (views/files.ts)\<close>

text \<open>
  \<^verbatim>\<open>fuzzyMatch\<close> walks the lower-cased text with index \<open>i\<close> and advances the query
  index \<open>qi\<close> on every character that equals the next query character; the loop stops
  at the end of the text or of the query.
\<close>

function fuzzyLoop :: "string \<Rightarrow> string \<Rightarrow> nat \<Rightarrow> nat \<Rightarrow> nat" where
  "fuzzyLoop lower q i qi =
     (if i < length lower \<and> qi < length q
      then fuzzyLoop lower q (i + 1) (if lower ! i = q ! qi then qi + 1 else qi)
      else qi)"
  by pat_completeness auto
termination
  by (relation "measure (\<lambda>(lower, q, i, qi). length lower - i)") auto

declare fuzzyLoop.simps [simp del]

definition fuzzyMatch :: "string \<Rightarrow> string \<Rightarrow> bool" where
  "fuzzyMatch query text =
     (let lower = toLowerCase text; q = toLowerCase query
      in fuzzyLoop lower q 0 0 = length q)"

record FileEntry =
  fe_size :: string
  fe_date :: string
  fe_uri :: string
  fe_path :: string

record SelectOption =
  so_name :: string
  so_description :: string
  so_value :: string

record FilesView =
  fv_input :: string
  fv_allFiles :: "FileEntry list"
  fv_statusText :: StyledText
  fv_options :: "SelectOption list"

definition fileOption :: "FileEntry \<Rightarrow> SelectOption" where
  "fileOption f =
     \<lparr>so_name = fe_path f, so_description = fe_size f @ ''  '' @ fe_date f, so_value = fe_uri f\<rparr>"

definition applyFilter :: "FilesView \<Rightarrow> FilesView" where
  "applyFilter v =
     (let query = trim (fv_input v);
          filtered = (if query \<noteq> [] then filter (\<lambda>f. fuzzyMatch query (fe_path f)) (fv_allFiles v)
                      else fv_allFiles v)
      in v\<lparr>fv_statusText :=
              (if query \<noteq> []
               then [fg okColour (showNat (length filtered) @ ''/'' @ showNat (length (fv_allFiles v))
                                  @ '' files'')]
               else [fg okColour (showNat (length (fv_allFiles v)) @ '' files'')]),
            fv_options := map fileOption filtered\<rparr>)"


section \<open>Preview page (app.ts: escapeHtml, buildPreviewHtml)\<close>

definition replaceAll :: "char \<Rightarrow> string \<Rightarrow> string \<Rightarrow> string" where
  \<comment> \<open>\<^verbatim>\<open>s.replace(/c/g, r)\<close> for a one-character pattern\<close>
  "replaceAll c r s = concat (map (\<lambda>x. if x = c then r else [x]) s)"

definition escapeHtml :: "string \<Rightarrow> string" where
  "escapeHtml s =
     replaceAll (CHR 0x22) ''&quot;''
       (replaceAll (CHR ''>'') ''&gt;''
         (replaceAll (CHR ''<'') ''&lt;''
           (replaceAll (CHR ''&'') ''&amp;'' s)))"

definition htmlEntity :: "char \<Rightarrow> string" where
  "htmlEntity c =
     (if c = CHR ''&'' then ''&amp;''
      else if c = CHR ''<'' then ''&lt;''
      else if c = CHR ''>'' then ''&gt;''
      else if c = CHR 0x22 then ''&quot;''
      else [c])"

definition isMarkupChar :: "char \<Rightarrow> bool" where
  "isMarkupChar c \<longleftrightarrow> c = CHR ''<'' \<or> c = CHR ''>'' \<or> c = CHR 0x22"

fun join :: "string \<Rightarrow> string list \<Rightarrow> string" where
  \<comment> \<open>\<^verbatim>\<open>Array.prototype.join\<close>\<close>
  "join sep [] = []"
| "join sep [x] = x"
| "join sep (x # y # ys) = x @ sep @ join sep (y # ys)"

text \<open>
  A value of the parsed front matter: a string, or anything else together with the text
  that \<^verbatim>\<open>String(v)\<close> gives for it.
\<close>

datatype jsval = JString string | JOther string

fun String_js :: "jsval \<Rightarrow> string" where
  "String_js (JString s) = s"
| "String_js (JOther s) = s"

definition lastSegment :: "string \<Rightarrow> string" where
  \<comment> \<open>\<^verbatim>\<open>filePath.split("/").pop()\<close>\<close>
  "lastSegment p = rev (takeWhile (\<lambda>c. c \<noteq> CHR ''/'') (rev p))"

definition stripMd :: "string \<Rightarrow> string" where
  \<comment> \<open>\<^verbatim>\<open>.replace(/\.md$/i, "")\<close>\<close>
  "stripMd s =
     (if 3 \<le> length s \<and> toLowerCase (drop (length s - 3) s) = ''.md''
      then take (length s - 3) s else s)"

definition afterFence :: "string \<Rightarrow> string" where
  \<comment> \<open>the tail \<^verbatim>\<open>\r?\n?\<close> of the front-matter pattern, read after the closing dashes\<close>
  "afterFence r =
     (let r1 = (case r of c # cs \<Rightarrow> if c = CHR 0x0D then cs else r | [] \<Rightarrow> r)
      in (case r1 of c # cs \<Rightarrow> if c = CHR 0x0A then cs else r1 | [] \<Rightarrow> r1))"

definition closeFence :: "string \<Rightarrow> string option" where
  \<comment> \<open>\<^verbatim>\<open>\r?\n---\r?\n?\<close> at the head of the string; the rest after the match\<close>
  "closeFence r =
     (if startsWith r (CHR 0x0D # CHR 0x0A # ''---'') then Some (afterFence (drop 5 r))
      else if startsWith r (CHR 0x0A # ''---'') then Some (afterFence (drop 4 r))
      else None)"

fun lazyBody :: "string \<Rightarrow> string \<Rightarrow> (string \<times> string) option" where
  \<comment> \<open>\<^verbatim>\<open>([\s\S]*?)\<close>: the shortest capture after which the closing fence matches\<close>
  "lazyBody acc [] = (case closeFence [] of Some rest \<Rightarrow> Some (rev acc, rest) | None \<Rightarrow> None)"
| "lazyBody acc (c # cs) =
     (case closeFence (c # cs) of
        Some rest \<Rightarrow> Some (rev acc, rest)
      | None \<Rightarrow> lazyBody (c # acc) cs)"

definition matchFrontmatter :: "string \<Rightarrow> (string \<times> string) option" where
  \<comment> \<open>\<^verbatim>\<open>body.match(/^---\r?\n([\s\S]*?)\r?\n---\r?\n?/)\<close>: the capture and
      \<^verbatim>\<open>body.slice(fmMatch[0].length)\<close>\<close>
  "matchFrontmatter body =
     (if startsWith body (''---'' @ [CHR 0x0D, CHR 0x0A]) then lazyBody [] (drop 5 body)
      else if startsWith body (''---'' @ [CHR 0x0A]) then lazyBody [] (drop 4 body)
      else None)"

definition renderEntry :: "string \<times> jsval \<Rightarrow> string" where
  "renderEntry e =
     ''<dt>'' @ escapeHtml (fst e) @ ''</dt><dd>'' @ escapeHtml (String_js (snd e)) @ ''</dd>''"

definition frontmatterHtml :: "(string \<times> jsval) list \<Rightarrow> string" where
  \<open>frontmatterHtml entries =
     (if entries \<noteq> []
      then ''<div class="frontmatter"><dl>'' @ join [] (map renderEntry entries) @ ''</dl></div>''
      else [])\<close>

definition pageStyle :: "string list" where
  \<open>pageStyle =
    [''  body { font-family: -apple-system, BlinkMacSystemFont, "Segoe UI", Helvetica, Arial, sans-serif; max-width: 800px; margin: 0 auto; padding: 2rem; line-height: 1.6; color: #24292f; }'',
     ''  h1 { border-bottom: 1px solid #d0d7de; padding-bottom: 0.3em; }'',
     ''  .frontmatter { background: #f6f8fa; border: 1px solid #d0d7de; border-radius: 6px; padding: 1rem; margin-bottom: 1.5rem; }'',
     ''  .frontmatter dl { margin: 0; display: grid; grid-template-columns: auto 1fr; gap: 0.25rem 1rem; }'',
     ''  .frontmatter dt { font-weight: 600; color: #57606a; }'',
     ''  .frontmatter dd { margin: 0; }'',
     ''  img { max-width: 100%; }'',
     ''  pre { background: #f6f8fa; border-radius: 6px; padding: 1rem; overflow-x: auto; }'',
     ''  code { background: #f6f8fa; border-radius: 3px; padding: 0.2em 0.4em; font-size: 85%; }'',
     ''  pre code { background: none; padding: 0; }'',
     ''  blockquote { border-left: 4px solid #d0d7de; margin: 0; padding: 0 1rem; color: #57606a; }'',
     ''  table { border-collapse: collapse; width: 100%; }'',
     ''  th, td { border: 1px solid #d0d7de; padding: 0.5rem; text-align: left; }'',
     ''  th { background: #f6f8fa; }'']\<close>

definition pageScript :: "string list" where
  "pageScript =
    [''  let lastVersion = '' @ [CHR 0x27, CHR 0x27] @ '';'',
     ''  setInterval(async () => {'',
     ''    try {'',
     ''      const res = await fetch('' @ [CHR 0x27] @ ''/version'' @ [CHR 0x27] @ '');'',
     ''      const v = await res.text();'',
     ''      if (lastVersion && v !== lastVersion) location.reload();'',
     ''      lastVersion = v;'',
     ''    } catch {}'',
     ''  }, 500);'']"

definition pageTemplate :: "string \<Rightarrow> string \<Rightarrow> string \<Rightarrow> string" where
  \<comment> \<open>the template literal that \<^verbatim>\<open>buildPreviewHtml\<close> returns\<close>
  \<open>pageTemplate title fmHtml htmlBody =
     join [CHR 0x0A]
      ([''<!DOCTYPE html>'',
        ''<html><head>'',
        ''<meta charset="utf-8">'',
        ''<meta name="viewport" content="width=device-width, initial-scale=1">'',
        ''<title>'' @ escapeHtml title @ ''</title>'',
        ''<style>''] @ pageStyle @
       [''</style>'',
        ''</head><body>'',
        ''<h1>'' @ escapeHtml title @ ''</h1>'',
        fmHtml,
        htmlBody,
        ''<script>''] @ pageScript @
       [''</script>'',
        ''</body></html>''])\<close>

text \<open>
  \<^verbatim>\<open>YAML.parse\<close> and \<^verbatim>\<open>marked.parse\<close> are library code and are parameters.
  \<open>yamlParse\<close> gives \<open>None\<close> when the parser throws or yields \<^verbatim>\<open>null\<close> (the
  \<^verbatim>\<open>try\<close> block then changes nothing), and otherwise the entries of the parsed
  object, in the order of \<^verbatim>\<open>Object.entries\<close>.
\<close>

definition fmTitle :: "(string \<times> jsval) list \<Rightarrow> string option" where
  \<comment> \<open>\<^verbatim>\<open>fm.title && typeof fm.title === "string"\<close>\<close>
  "fmTitle fm =
     (case map_of fm ''title'' of
        Some (JString t) \<Rightarrow> if t \<noteq> [] then Some t else None
      | _ \<Rightarrow> None)"

definition buildPreviewHtml ::
  "(string \<Rightarrow> (string \<times> jsval) list option) \<Rightarrow> (string \<Rightarrow> string) \<Rightarrow> string \<Rightarrow> string \<Rightarrow> string" where
  "buildPreviewHtml yamlParse markedParse rawContent filePath =
     (let title0 = stripMd (lastSegment filePath) in
      case matchFrontmatter rawContent of
        None \<Rightarrow> pageTemplate title0 [] (markedParse rawContent)
      | Some (cap, body) \<Rightarrow>
          (case yamlParse cap of
             None \<Rightarrow> pageTemplate title0 [] (markedParse body)
           | Some fm \<Rightarrow>
               pageTemplate (case fmTitle fm of Some t \<Rightarrow> t | None \<Rightarrow> title0)
                 (frontmatterHtml (filter (\<lambda>e. fst e \<noteq> ''title'') fm))
                 (markedParse body)))"


section \<open>The qmd subprocess (qmd-cli.ts and mcp-client.ts: run)\<close>

text \<open>
  What one run of the \<^verbatim>\<open>qmd\<close> program did: the text of its two pipes and its exit
  code. A thrown error is the left summand of the result; it is an \<^verbatim>\<open>Error\<close> or one
  of the error classes that the library functions throw.
\<close>

record ProcResult =
  stdout :: string
  stderr :: string
  exitCode :: int

datatype jsError = Error string | SyntaxError string | TypeError string | URIError string

definition run_cli :: "ProcResult \<Rightarrow> jsError + string" where
  \<comment> \<open>\<^verbatim>\<open>run\<close> of qmd-cli.ts\<close>
  "run_cli proc =
     (let text = stdout proc; errText = stderr proc in
      if exitCode proc \<noteq> 0
      then Inl (Error (if trim errText \<noteq> [] then trim errText
                       else ''qmd exited with code '' @ String_int (exitCode proc)))
      else Inr text)"

definition run_mcp :: "string list \<Rightarrow> ProcResult \<Rightarrow> jsError + string" where
  \<comment> \<open>\<^verbatim>\<open>run\<close> of mcp-client.ts\<close>
  "run_mcp args proc =
     (let text = stdout proc; code = exitCode proc in
      if code \<noteq> 0
      then Inl (Error (''qmd '' @ join '' '' args @ '' failed ('' @ String_int code @ ''): ''
                       @ stderr proc))
      else Inr text)"

definition contains :: "string \<Rightarrow> string \<Rightarrow> bool" where
  \<comment> \<open>\<^verbatim>\<open>s.includes(t)\<close>\<close>
  "contains s t \<longleftrightarrow> (\<exists>i \<in> set (upt 0 (Suc (length s))). take (length t) (drop i s) = t)"


section \<open>Search results (mcp-client.ts)\<close>

record 's SearchResult =
  sr_docid :: string
  sr_file :: string
  sr_title :: string
  sr_score :: 's
  sr_context :: "string option"
  sr_snippet :: string

text \<open>
  \<^verbatim>\<open>JSON.parse\<close> is a parameter: it returns the parsed results or throws. The score of a
  result is a floating-point number and stays abstract.
\<close>

definition parseSearchOutput ::
  "(string \<Rightarrow> jsError + 's SearchResult list) \<Rightarrow> string \<Rightarrow> jsError + 's SearchResult list" where
  "parseSearchOutput jsonParse output =
     (let trimmed = trim output in
      if trimmed = [] \<or> \<not> startsWith trimmed ''['' then Inr []
      else jsonParse trimmed)"

record SearchOpts =
  opt_limit :: "int option"
  opt_collection :: "string option"

definition searchArgs :: "string \<Rightarrow> string \<Rightarrow> SearchOpts \<Rightarrow> string list" where
  "searchArgs cmd query opts =
     [cmd, query, ''--json'', ''-n'', String_int (case opt_limit opts of Some n \<Rightarrow> n | None \<Rightarrow> 20)]
     @ (case opt_collection opts of
          Some c \<Rightarrow> if c \<noteq> [] then [''-c'', c] else []
        | None \<Rightarrow> [])"

definition searchWith ::
  "string \<Rightarrow> (string list \<Rightarrow> ProcResult) \<Rightarrow> (string \<Rightarrow> jsError + 's SearchResult list) \<Rightarrow>
   string \<Rightarrow> SearchOpts \<Rightarrow> jsError + 's SearchResult list" where
  \<comment> \<open>the common body of the three search methods; \<open>qmd args\<close> is what the
      subprocess does when started with \<open>args\<close>\<close>
  "searchWith cmd qmd jsonParse query opts =
     (let args = searchArgs cmd query opts in
      case run_mcp args (qmd args) of
        Inl e \<Rightarrow> Inl e
      | Inr output \<Rightarrow> parseSearchOutput jsonParse output)"

definition search ::
  "(string list \<Rightarrow> ProcResult) \<Rightarrow> (string \<Rightarrow> jsError + 's SearchResult list) \<Rightarrow>
   string \<Rightarrow> SearchOpts \<Rightarrow> jsError + 's SearchResult list" where
  "search = searchWith ''search''"

definition vectorSearch ::
  "(string list \<Rightarrow> ProcResult) \<Rightarrow> (string \<Rightarrow> jsError + 's SearchResult list) \<Rightarrow>
   string \<Rightarrow> SearchOpts \<Rightarrow> jsError + 's SearchResult list" where
  "vectorSearch = searchWith ''vsearch''"

definition deepSearch ::
  "(string list \<Rightarrow> ProcResult) \<Rightarrow> (string \<Rightarrow> jsError + 's SearchResult list) \<Rightarrow>
   string \<Rightarrow> SearchOpts \<Rightarrow> jsError + 's SearchResult list" where
  "deepSearch = searchWith ''query''"

definition getDocument :: "(string list \<Rightarrow> ProcResult) \<Rightarrow> string \<Rightarrow> jsError + string" where
  \<comment> \<open>\<^verbatim>\<open>getDocument(file, { lineNumbers: false })\<close>\<close>
  "getDocument qmd file = (let args = [''get'', file] in run_mcp args (qmd args))"


section \<open>Collection list (qmd-cli.ts: listCollections)\<close>

record Collection =
  col_name :: string
  col_uri :: string
  col_path :: string
  col_pattern :: string
  col_files :: int
  col_updated :: string

text \<open>
  An entry of the \<^verbatim>\<open>collections\<close> table of the configuration file; its path may be
  missing.
\<close>

record CollConfig =
  cc_path :: "string option"
  cc_pattern :: string

text \<open>
  What \<^verbatim>\<open>loadQmdConfig\<close> returns. The parsed document is cast to the configuration
  type and not checked: \<open>NullConfig\<close> is a document that parsed to \<^verbatim>\<open>null\<close> (an
  empty file), \<open>Config None\<close> a document without a \<^verbatim>\<open>collections\<close> table (no such
  key, or the key without a value), \<open>Config (Some t)\<close> a document with the table \<open>t\<close>.
\<close>

datatype QmdConfig = NullConfig | Config "(string \<rightharpoonup> CollConfig) option"

definition defaultConfig :: QmdConfig where
  \<comment> \<open>\<^verbatim>\<open>{ collections: {} }\<close>\<close>
  "defaultConfig = Config (Some Map.empty)"

definition loadQmdConfig ::
  "(string \<Rightarrow> jsError + string) \<Rightarrow> (string \<Rightarrow> jsError + QmdConfig) \<Rightarrow> string \<Rightarrow> QmdConfig" where
  \<comment> \<open>the \<^verbatim>\<open>try\<close> block of \<^verbatim>\<open>loadQmdConfig\<close>; \<open>configPath\<close> is the path of
      \<^verbatim>\<open>qmd/index.yml\<close> under the configuration directory of the environment, and
      \<open>yamlParse\<close> is \<^verbatim>\<open>YAML.parse\<close>\<close>
  "loadQmdConfig fileText yamlParse configPath =
     (case fileText configPath of
        Inl e \<Rightarrow> defaultConfig
      | Inr content \<Rightarrow>
          (case yamlParse content of
             Inl e \<Rightarrow> defaultConfig
           | Inr doc \<Rightarrow> doc))"

definition nullAccess :: jsError where
  \<comment> \<open>reading a property of \<^verbatim>\<open>null\<close>; the wording of the message is the engine's\<close>
  "nullAccess = TypeError ''null is not an object''"

definition undefinedAccess :: jsError where
  \<comment> \<open>reading a property of \<^verbatim>\<open>undefined\<close> or of a \<^verbatim>\<open>null\<close> table\<close>
  "undefinedAccess = TypeError ''undefined is not an object''"

definition collectionsEntry :: "QmdConfig \<Rightarrow> string \<Rightarrow> jsError + CollConfig option" where
  \<comment> \<open>\<^verbatim>\<open>config.collections[name]\<close>\<close>
  "collectionsEntry config name =
     (case config of
        NullConfig \<Rightarrow> Inl nullAccess
      | Config None \<Rightarrow> Inl undefinedAccess
      | Config (Some table) \<Rightarrow> Inr (table name))"

text \<open>
  \<^verbatim>\<open>output.split(/\n(?=\S)/)\<close>: the text is cut at every line feed that is followed by a
  character other than white space; the line feed is dropped.
\<close>

fun splitAcc :: "string \<Rightarrow> string \<Rightarrow> string list" where
  "splitAcc acc [] = [rev acc]"
| "splitAcc acc [c] = [rev (c # acc)]"
| "splitAcc acc (c # d # cs) =
     (if c = CHR 0x0A \<and> \<not> isWhiteSpace d then rev acc # splitAcc [] (d # cs)
      else splitAcc (c # acc) (d # cs))"

definition splitBlocks :: "string \<Rightarrow> string list" where
  "splitBlocks out = splitAcc [] out"

text \<open>
  \<^verbatim>\<open>block.match(/^(\S+)\s+\(qmd:\/\/(\S+?)\/?\)/)\<close>. The first group takes the longest
  run of characters other than white space at the start of the block, since the white space
  that must follow cannot start inside that run; the white space is likewise taken whole,
  since an opening parenthesis must follow it. The second group is lazy: it takes one
  character other than white space and then one more at a time until \<^verbatim>\<open>\/?\)\<close>
  matches what follows.
\<close>

definition closeParen :: "string \<Rightarrow> bool" where
  \<comment> \<open>\<^verbatim>\<open>\/?\)\<close> at the head of the string\<close>
  "closeParen r \<longleftrightarrow> startsWith r ''/)'' \<or> startsWith r '')''"

fun lazyUri :: "string \<Rightarrow> string \<Rightarrow> string option" where
  "lazyUri acc [] = (if closeParen [] then Some (rev acc) else None)"
| "lazyUri acc (c # cs) =
     (if closeParen (c # cs) then Some (rev acc)
      else if isWhiteSpace c then None
      else lazyUri (c # acc) cs)"

definition headerMatch :: "string \<Rightarrow> (string \<times> string) option" where
  \<comment> \<open>the two groups \<^verbatim>\<open>headerMatch[1]\<close> and \<^verbatim>\<open>headerMatch[2]\<close>\<close>
  "headerMatch block =
     (let name = takeWhile (\<lambda>c. \<not> isWhiteSpace c) block;
          r1 = dropWhile (\<lambda>c. \<not> isWhiteSpace c) block;
          ws = takeWhile isWhiteSpace r1;
          r2 = dropWhile isWhiteSpace r1
      in if name = [] \<or> ws = [] \<or> \<not> startsWith r2 ''(qmd://'' then None
         else (case drop 7 r2 of
                 [] \<Rightarrow> None
               | c # cs \<Rightarrow>
                   if isWhiteSpace c then None
                   else (case lazyUri [c] cs of
                           None \<Rightarrow> None
                         | Some cap \<Rightarrow> Some (name, cap))))"

text \<open>
  A pattern without \<^verbatim>\<open>^\<close> is tried at every position from the left; the first
  position where it matches wins.
\<close>

fun findFirst :: "(string \<Rightarrow> 'a option) \<Rightarrow> string \<Rightarrow> 'a option" where
  "findFirst m [] = m []"
| "findFirst m (c # cs) = (case m (c # cs) of Some r \<Rightarrow> Some r | None \<Rightarrow> findFirst m cs)"

text \<open>
  \<^verbatim>\<open>\s+(.+)\<close>: the white space is greedy and gives characters back one at a time
  until the character after it exists and is not a line terminator; the group then runs
  to the end of the line.
\<close>

fun backtrackWs :: "nat \<Rightarrow> string \<Rightarrow> string option" where
  "backtrackWs 0 r = None"
| "backtrackWs (Suc k) r =
     (case drop (Suc k) r of
        [] \<Rightarrow> backtrackWs k r
      | c # cs \<Rightarrow>
          if \<not> isLineTerminator c then Some (takeWhile (\<lambda>x. \<not> isLineTerminator x) (c # cs))
          else backtrackWs k r)"

definition wsDotPlus :: "string \<Rightarrow> string option" where
  "wsDotPlus r = backtrackWs (length (takeWhile isWhiteSpace r)) r"

definition wsDigits :: "string \<Rightarrow> string option" where
  \<comment> \<open>\<^verbatim>\<open>\s+(\d+)\<close>\<close>
  "wsDigits r =
     (let ws = takeWhile isWhiteSpace r;
          ds = takeWhile isDigit (dropWhile isWhiteSpace r)
      in if ws = [] \<or> ds = [] then None else Some ds)"

definition labelled :: "string \<Rightarrow> (string \<Rightarrow> 'a option) \<Rightarrow> string \<Rightarrow> 'a option" where
  \<comment> \<open>a literal label followed by the rest of a pattern, at the head of the string\<close>
  "labelled label rest s = (if startsWith s label then rest (drop (length label) s) else None)"

definition patternMatch :: "string \<Rightarrow> string option" where
  \<comment> \<open>\<^verbatim>\<open>block.match(/Pattern:\s+(.+)/)\<close>, group 1\<close>
  "patternMatch block = findFirst (labelled ''Pattern:'' wsDotPlus) block"

definition filesMatch :: "string \<Rightarrow> string option" where
  \<comment> \<open>\<^verbatim>\<open>block.match(/Files:\s+(\d+)/)\<close>, group 1\<close>
  "filesMatch block = findFirst (labelled ''Files:'' wsDigits) block"

definition updatedMatch :: "string \<Rightarrow> string option" where
  \<comment> \<open>\<^verbatim>\<open>block.match(/Updated:\s+(.+)/)\<close>, group 1\<close>
  "updatedMatch block = findFirst (labelled ''Updated:'' wsDotPlus) block"

text \<open>
  The loop over the blocks pushes one record for each block with a header and skips the
  others. The configuration is read for a block only after its header has matched; the
  error of that access leaves the loop and the function.
\<close>

fun blocksLoop :: "QmdConfig \<Rightarrow> Collection list \<Rightarrow> string list \<Rightarrow> jsError + Collection list" where
  "blocksLoop config collections [] = Inr collections"
| "blocksLoop config collections (block # blocks) =
     (case headerMatch block of
        None \<Rightarrow> blocksLoop config collections blocks
      | Some (name, cap) \<Rightarrow>
          (case collectionsEntry config name of
             Inl e \<Rightarrow> Inl e
           | Inr collConfig \<Rightarrow>
               blocksLoop config
                 (collections @
                   [\<lparr>col_name = name,
                     col_uri = ''qmd://'' @ cap @ ''/'',
                     col_path = (case collConfig of
                                   Some cc \<Rightarrow> (case cc_path cc of Some p \<Rightarrow> p | None \<Rightarrow> [])
                                 | None \<Rightarrow> []),
                     col_pattern = (case patternMatch block of Some p \<Rightarrow> trim p | None \<Rightarrow> ''**/*.md''),
                     col_files = parseInt10 (case filesMatch block of Some ds \<Rightarrow> ds | None \<Rightarrow> ''0''),
                     col_updated = (case updatedMatch block of Some u \<Rightarrow> trim u | None \<Rightarrow> ''unknown'')\<rparr>])
                 blocks))"

definition parseCollections :: "QmdConfig \<Rightarrow> string \<Rightarrow> jsError + Collection list" where
  "parseCollections config out = blocksLoop config [] (splitBlocks out)"

definition listCollections ::
  "(string list \<Rightarrow> ProcResult) \<Rightarrow> QmdConfig \<Rightarrow> jsError + Collection list" where
  \<comment> \<open>\<open>config\<close> is what \<^verbatim>\<open>loadQmdConfig()\<close> gave\<close>
  "listCollections qmd config =
     (case run_cli (qmd [''collection'', ''list'']) of
        Inl e \<Rightarrow> Inl e
      | Inr out \<Rightarrow> parseCollections config out)"

text \<open>
  What the specification says of the record made from one block, for a configuration
  with the table \<open>table\<close>: the name and the URI of the header, the path of the
  configuration file or the empty string, and for the pattern, the file count and the time
  of the last update the value found in the block or the default.
\<close>

definition describes :: "(string \<rightharpoonup> CollConfig) \<Rightarrow> string \<Rightarrow> Collection \<Rightarrow> bool" where
  "describes table block c =
     (case headerMatch block of
        None \<Rightarrow> False
      | Some (name, cap) \<Rightarrow>
          col_name c = name \<and> col_uri c = ''qmd://'' @ cap @ ''/''
          \<and> col_path c = (case table name of
                             None \<Rightarrow> []
                           | Some cc \<Rightarrow> (case cc_path cc of None \<Rightarrow> [] | Some p \<Rightarrow> p))
          \<and> (case patternMatch block of None \<Rightarrow> col_pattern c = ''**/*.md'' | Some p \<Rightarrow> col_pattern c = trim p)
          \<and> (case filesMatch block of None \<Rightarrow> col_files c = 0 | Some ds \<Rightarrow> col_files c = parseInt10 ds)
          \<and> 0 \<le> col_files c
          \<and> (case updatedMatch block of None \<Rightarrow> col_updated c = ''unknown'' | Some u \<Rightarrow> col_updated c = trim u))"

fun cutFree :: "string \<Rightarrow> bool" where
  \<comment> \<open>no line feed in the string is followed by a character other than white space\<close>
  "cutFree [] = True"
| "cutFree [c] = True"
| "cutFree (c # d # cs) = (\<not> (c = CHR 0x0A \<and> \<not> isWhiteSpace d) \<and> cutFree (d # cs))"

text \<open>A sample of the subprocess: two collections after a heading line.\<close>

definition sampleListOutput :: string where
  "sampleListOutput =
     ''Collections (2):'' @ [CHR 0x0A, CHR 0x0A]
     @ ''docs (qmd://docs/)'' @ [CHR 0x0A]
     @ ''  Pattern:  **/*.md'' @ [CHR 0x0A]
     @ ''  Files:    12'' @ [CHR 0x0A]
     @ ''  Updated:  2 days ago'' @ [CHR 0x0A, CHR 0x0A]
     @ ''notes (qmd://notes)'' @ [CHR 0x0A]"

definition sampleQmd :: "string list \<Rightarrow> ProcResult" where
  "sampleQmd args =
     (if args = [''collection'', ''list'']
      then \<lparr>stdout = sampleListOutput, stderr = [], exitCode = 0\<rparr>
      else \<lparr>stdout = [], stderr = ''boom'' @ [CHR 0x0A], exitCode = 1\<rparr>)"

definition sampleTable :: "string \<rightharpoonup> CollConfig" where
  "sampleTable = [''docs'' \<mapsto> \<lparr>cc_path = Some ''/home/u/docs'', cc_pattern = ''**/*.md''\<rparr>]"

definition sampleConfig :: QmdConfig where
  "sampleConfig = Config (Some sampleTable)"

text \<open>
  Three states of the configuration file: there and empty, there with a document that has
  no \<^verbatim>\<open>collections\<close> key, and missing. \<^verbatim>\<open>YAML.parse\<close> gives \<^verbatim>\<open>null\<close> for an empty
  document and an object for a mapping.
\<close>

definition sampleConfigPath :: string where
  "sampleConfigPath = ''/home/u/.config/qmd/index.yml''"

definition emptyFile :: "string \<Rightarrow> jsError + string" where
  "emptyFile p = Inr []"

definition otherFile :: "string \<Rightarrow> jsError + string" where
  "otherFile p = Inr ''global_context: notes''"

definition missingFile :: "string \<Rightarrow> jsError + string" where
  "missingFile p = Inl (Error ''ENOENT: no such file or directory'')"

definition sampleYamlParse :: "string \<Rightarrow> jsError + QmdConfig" where
  "sampleYamlParse s =
     (if s = [] then Inr NullConfig
      else if s = ''global_context: notes'' then Inr (Config None)
      else Inr sampleConfig)"



section \<open>Widgets and views\<close>

text \<open>
  The widget tree, the layout and the footer help line are presentation only and are not
  part of the model. Exactly one widget has the keyboard focus: \<^verbatim>\<open>w.focus()\<close> moves
  it to \<open>w\<close>, and \<^verbatim>\<open>w.focused\<close> asks whether it is there.
\<close>

datatype Widget =
    CollectionsSelect | SearchInput | SearchResults | DocumentContainer
  | AddPathInput | AddNameInput | AddPatternInput | AddCompletionSelect
  | RenameInput | DeleteSelect

type_synonym Focus = "Widget option"

definition errString :: "jsError \<Rightarrow> string" where
  \<comment> \<open>\<^verbatim>\<open>`${err}`\<close>: the name of the error class and the message\<close>
  "errString e =
     (case e of
        Error m \<Rightarrow> ''Error: '' @ m
      | SyntaxError m \<Rightarrow> ''SyntaxError: '' @ m
      | TypeError m \<Rightarrow> ''TypeError: '' @ m
      | URIError m \<Rightarrow> ''URIError: '' @ m)"

record SelectWidget =
  sel_options :: "SelectOption list"
  sel_index :: nat

definition getSelectedOption :: "SelectWidget \<Rightarrow> SelectOption option" where
  "getSelectedOption w =
     (if sel_index w < length (sel_options w) then Some (sel_options w ! sel_index w) else None)"


subsection \<open>views/add-collection.ts\<close>

datatype Task = CompletePath | OpenInEditor | OpenPreview | RunEmbed

record AddCollectionView =
  av_pathInput :: string
  av_nameInput :: string
  av_patternInput :: string
  av_statusText :: StyledText
  av_focusedField :: nat
  av_completionVisible :: bool
  av_completionOptions :: "SelectOption list"
  av_completionDir :: string
  av_hasOnComplete :: bool

text \<open>
  \<^verbatim>\<open>submit\<close> returns the view, the focus and the arguments of the \<^verbatim>\<open>onComplete\<close>
  call it made, if it made one.
\<close>

definition add_submit ::
  "AddCollectionView \<Rightarrow> Focus \<Rightarrow> AddCollectionView \<times> Focus \<times> (string \<times> string \<times> string) option" where
  "add_submit v focus =
     (let path = trim (av_pathInput v);
          name = trim (av_nameInput v);
          pattern = (if trim (av_patternInput v) \<noteq> [] then trim (av_patternInput v) else ''**/*.md'')
      in if path = []
         then (v\<lparr>av_statusText := [fg errorColour ''Path is required.'']\<rparr>, Some AddPathInput, None)
         else if name = []
         then (v\<lparr>av_statusText := [fg errorColour ''Name is required.'']\<rparr>, Some AddNameInput, None)
         else (v, focus, if av_hasOnComplete v then Some (path, name, pattern) else None))"

definition add_onEnter ::
  "AddCollectionView \<Rightarrow> Focus \<Rightarrow> AddCollectionView \<times> Focus \<times> (string \<times> string \<times> string) option" where
  \<comment> \<open>the ENTER listener of the three inputs\<close>
  "add_onEnter v focus = (if av_completionVisible v then (v, focus, None) else add_submit v focus)"

definition add_showStatus :: "AddCollectionView \<Rightarrow> string \<Rightarrow> bool \<Rightarrow> AddCollectionView" where
  "add_showStatus v message err = v\<lparr>av_statusText := statusContent message err\<rparr>"

definition add_hideCompletions :: "AddCollectionView \<Rightarrow> AddCollectionView" where
  "add_hideCompletions v =
     (if av_completionVisible v
      then v\<lparr>av_completionVisible := False, av_completionOptions := [], av_statusText := []\<rparr>
      else v\<lparr>av_statusText := []\<rparr>)"

definition add_inputs :: "Widget list" where
  "add_inputs = [AddPathInput, AddNameInput, AddPatternInput]"

definition add_focusNext :: "AddCollectionView \<Rightarrow> AddCollectionView \<times> Focus" where
  "add_focusNext v =
     (let f = (av_focusedField v + 1) mod 3
      in (v\<lparr>av_focusedField := f\<rparr>, Some (add_inputs ! f)))"

definition add_focusFirst :: "AddCollectionView \<Rightarrow> AddCollectionView \<times> Focus" where
  "add_focusFirst v = (v\<lparr>av_focusedField := 0\<rparr>, Some AddPathInput)"

definition add_handleTab :: "AddCollectionView \<Rightarrow> Focus \<Rightarrow> AddCollectionView \<times> Focus \<times> Task list" where
  \<comment> \<open>up to the first \<^verbatim>\<open>await\<close>; the path completion itself is the task \<open>CompletePath\<close>\<close>
  "add_handleTab v focus =
     (if av_completionVisible v
      then (case add_focusNext (add_hideCompletions v) of (v', f) \<Rightarrow> (v', f, []))
      else if av_focusedField v = 0 \<and> focus = Some AddPathInput
      then (v, focus, if av_pathInput v \<noteq> [] then [CompletePath] else [])
      else (case add_focusNext v of (v', f) \<Rightarrow> (v', f, [])))"

definition add_handleEscape :: "AddCollectionView \<Rightarrow> Focus \<Rightarrow> AddCollectionView \<times> Focus \<times> bool" where
  "add_handleEscape v focus =
     (if av_completionVisible v then (add_hideCompletions v, Some AddPathInput, True)
      else (v, focus, False))"

definition add_reset :: "AddCollectionView \<Rightarrow> AddCollectionView" where
  "add_reset v =
     add_hideCompletions
       (v\<lparr>av_pathInput := [], av_nameInput := [], av_patternInput := [],
          av_statusText := [], av_focusedField := 0\<rparr>)"


subsection \<open>views/rename-collection.ts, views/confirm-delete.ts\<close>

record RenameCollectionView =
  rv_currentCollection :: "Collection option"
  rv_currentNameText :: StyledText
  rv_newNameInput :: string
  rv_statusText :: StyledText
  rv_hasOnComplete :: bool

definition rename_submit :: "RenameCollectionView \<Rightarrow> RenameCollectionView \<times> (string \<times> string) option" where
  "rename_submit v =
     (let newName = trim (rv_newNameInput v)
      in if newName = []
         then (v\<lparr>rv_statusText := [fg errorColour ''Name is required.'']\<rparr>, None)
         else (case rv_currentCollection v of
                 None \<Rightarrow> (v, None)
               | Some c \<Rightarrow> (v, if rv_hasOnComplete v then Some (col_name c, newName) else None)))"

definition rename_showStatus :: "RenameCollectionView \<Rightarrow> string \<Rightarrow> bool \<Rightarrow> RenameCollectionView" where
  "rename_showStatus v message err = v\<lparr>rv_statusText := statusContent message err\<rparr>"

definition rename_show :: "RenameCollectionView \<Rightarrow> Collection \<Rightarrow> RenameCollectionView" where
  "rename_show v c =
     v\<lparr>rv_currentCollection := Some c, rv_currentNameText := [lit ''  '', bold (lit (col_name c))],
       rv_newNameInput := [], rv_statusText := []\<rparr>"

definition rename_reset :: "RenameCollectionView \<Rightarrow> RenameCollectionView" where
  "rename_reset v =
     v\<lparr>rv_currentCollection := None, rv_currentNameText := [],
       rv_newNameInput := [], rv_statusText := []\<rparr>"

record ConfirmDeleteView =
  cd_currentCollection :: "Collection option"
  cd_messageText :: StyledText

definition delete_show :: "ConfirmDeleteView \<Rightarrow> Collection \<Rightarrow> ConfirmDeleteView" where
  \<open>delete_show v c =
     v\<lparr>cd_currentCollection := Some c,
       cd_messageText := [lit ''Delete collection '',
                          bold (fg errorColour ([CHR 0x22] @ col_name c @ [CHR 0x22])), lit ''?'']\<rparr>\<close>

datatype DeleteChoice = ConfirmCall string | CancelCall

definition delete_onItemSelected :: "ConfirmDeleteView \<Rightarrow> string \<Rightarrow> DeleteChoice" where
  \<comment> \<open>the ITEM_SELECTED listener: which callback it calls\<close>
  "delete_onItemSelected v value =
     (case cd_currentCollection v of
        Some c \<Rightarrow> if value = ''yes'' then ConfirmCall (col_name c) else CancelCall
      | None \<Rightarrow> CancelCall)"


subsection \<open>views/detail.ts, views/collections.ts\<close>

record DetailView =
  dv_titleText :: StyledText
  dv_patternText :: StyledText
  dv_filesText :: StyledText
  dv_updatedText :: StyledText
  dv_statusText :: StyledText

definition detail_show :: "DetailView \<Rightarrow> Collection \<Rightarrow> DetailView" where
  "detail_show v c =
     v\<lparr>dv_titleText := [bold (fg accentColour (col_name c)), lit '' '',
                        fg mutedColour (''('' @ col_uri c @ '')'')],
       dv_patternText := [fg mutedColour ''Pattern:'', lit ''  '', lit (col_pattern c)],
       dv_filesText := [fg mutedColour ''Files:'', lit ''    '', lit (String_int (col_files c))],
       dv_updatedText := [fg mutedColour ''Updated:'', lit ''  '', lit (col_updated c)]\<rparr>"

definition totalFiles :: "Collection list \<Rightarrow> int" where
  "totalFiles cols = foldl (\<lambda>sum c. sum + col_files c) 0 cols"

definition detail_showAll :: "DetailView \<Rightarrow> Collection list \<Rightarrow> DetailView" where
  "detail_showAll v cols =
     v\<lparr>dv_titleText := [bold (fg accentColour ''All Collections'')],
       dv_patternText := [fg mutedColour ''Collections:'', lit ''  '', lit (showNat (length cols))],
       dv_filesText := [fg mutedColour ''Total files:'', lit ''  '', lit (String_int (totalFiles cols))],
       dv_updatedText := []\<rparr>"

definition detail_showStatus :: "DetailView \<Rightarrow> string \<Rightarrow> bool \<Rightarrow> DetailView" where
  "detail_showStatus v message err = v\<lparr>dv_statusText := statusContent message err\<rparr>"

record CollectionsView =
  cv_collections :: "Collection list"
  cv_select :: SelectWidget

definition find_js :: "('a \<Rightarrow> bool) \<Rightarrow> 'a list \<Rightarrow> 'a option" where
  \<comment> \<open>\<^verbatim>\<open>Array.prototype.find\<close>\<close>
  "find_js p xs = List.find p xs"

definition getSelectedCollection :: "CollectionsView \<Rightarrow> Collection option" where
  "getSelectedCollection v =
     (case getSelectedOption (cv_select v) of
        None \<Rightarrow> None
      | Some opt \<Rightarrow>
          if so_value opt = ''__all__'' then None
          else find_js (\<lambda>c. col_name c = so_value opt) (cv_collections v))"

definition collectionOption :: "Collection \<Rightarrow> SelectOption" where
  "collectionOption c =
     \<lparr>so_name = col_name c @ '' ('' @ String_int (col_files c) @ '')'',
      so_description = ''Updated: '' @ col_updated c,
      so_value = col_name c\<rparr>"

definition collections_update :: "CollectionsView \<Rightarrow> Collection list \<Rightarrow> CollectionsView" where
  \<comment> \<open>the options are replaced; the widget keeps its index\<close>
  "collections_update v cols =
     v\<lparr>cv_collections := cols,
       cv_select := (cv_select v)\<lparr>sel_options :=
         \<lparr>so_name = ''All ('' @ String_int (totalFiles cols) @ '')'',
          so_description = showNat (length cols) @ '' collections'',
          so_value = ''__all__''\<rparr> # map collectionOption cols\<rparr>\<rparr>"


subsection \<open>views/search.ts\<close>

text \<open>
  The status of the index that the embedding check of \<^verbatim>\<open>performSearch\<close> reads:
  \<^verbatim>\<open>parseStatus\<close> of mcp-client.ts, without the list of collections, which no caller
  in the program reads.
\<close>

record StatusResult =
  st_totalDocuments :: int
  st_needsEmbedding :: int
  st_hasVectorIndex :: bool

definition numberAfter :: "string \<Rightarrow> string \<Rightarrow> int" where
  \<comment> \<open>\<^verbatim>\<open>parseInt(output.match(/Label:\s+(\d+)/)?.[1] ?? "0", 10)\<close>\<close>
  "numberAfter label out =
     parseInt10 (case findFirst (labelled label wsDigits) out of Some ds \<Rightarrow> ds | None \<Rightarrow> ''0'')"

definition parseStatus :: "string \<Rightarrow> StatusResult" where
  "parseStatus out =
     \<lparr>st_totalDocuments = numberAfter ''Total:'' out,
      st_needsEmbedding = numberAfter ''Pending:'' out,
      st_hasVectorIndex = (numberAfter ''Vectors:'' out > 0)\<rparr>"

definition status :: "(string list \<Rightarrow> ProcResult) \<Rightarrow> jsError + StatusResult" where
  "status qmd =
     (case run_mcp [''status''] (qmd [''status'']) of
        Inl e \<Rightarrow> Inl e
      | Inr out \<Rightarrow> Inr (parseStatus out))"

datatype SearchMode = ModeSearch | ModeVsearch | ModeQuery

definition SEARCH_MODES :: "(SearchMode \<times> string) list" where
  "SEARCH_MODES = [(ModeSearch, ''Search''), (ModeVsearch, ''Vector''), (ModeQuery, ''Query'')]"

record 's SearchView =
  sv_input :: string
  sv_results :: "'s SearchResult list"
  sv_options :: "SelectOption list"
  sv_label :: StyledText
  sv_statusText :: StyledText
  sv_modeIndex :: nat
  sv_selectedCollection :: "string option"

definition search_mode :: "'s SearchView \<Rightarrow> SearchMode" where
  "search_mode v = fst (SEARCH_MODES ! sv_modeIndex v)"

definition search_modeLabel :: "'s SearchView \<Rightarrow> string" where
  "search_modeLabel v = snd (SEARCH_MODES ! sv_modeIndex v)"

definition search_scopeLabel :: "'s SearchView \<Rightarrow> string" where
  "search_scopeLabel v = (case sv_selectedCollection v of Some c \<Rightarrow> c | None \<Rightarrow> ''All'')"

definition makeLabelContent :: "'s SearchView \<Rightarrow> StyledText" where
  "makeLabelContent v =
     [bold (fg accentColour (search_modeLabel v)), lit '' '',
      fg mutedColour (''['' @ search_scopeLabel v @ '']''), bold (fg accentColour '':'')]"

definition search_cycleMode :: "'s SearchView \<Rightarrow> 's SearchView" where
  "search_cycleMode v =
     (let v1 = v\<lparr>sv_modeIndex := (sv_modeIndex v + 1) mod length SEARCH_MODES\<rparr>
      in v1\<lparr>sv_label := makeLabelContent v1\<rparr>)"

definition search_setCollection :: "'s SearchView \<Rightarrow> string option \<Rightarrow> 's SearchView" where
  "search_setCollection v name =
     (let v1 = v\<lparr>sv_selectedCollection := name\<rparr>
      in v1\<lparr>sv_label := makeLabelContent v1\<rparr>)"

definition resultOption :: "('s \<Rightarrow> string) \<Rightarrow> 's SearchResult \<Rightarrow> SelectOption" where
  \<comment> \<open>\<open>percent\<close> is \<^verbatim>\<open>String(Math.round(score * 100))\<close>\<close>
  "resultOption percent r =
     \<lparr>so_name = sr_title r,
      so_description = percent (sr_score r) @ ''% | '' @ sr_file r,
      so_value = sr_file r\<rparr>"

text \<open>
  \<^verbatim>\<open>performSearch\<close>. The embedding check, with its call of \<^verbatim>\<open>status\<close>, comes before
  the \<^verbatim>\<open>try\<close> block; the search itself is inside it. The result is the view, or the
  error that leaves the method.
\<close>

definition searchByMode ::
  "(string list \<Rightarrow> ProcResult) \<Rightarrow> (string \<Rightarrow> jsError + 's SearchResult list) \<Rightarrow>
   SearchMode \<Rightarrow> string \<Rightarrow> SearchOpts \<Rightarrow> jsError + 's SearchResult list" where
  \<comment> \<open>the \<^verbatim>\<open>switch\<close> on the mode\<close>
  "searchByMode qmd jsonParse m query opts =
     (case m of
        ModeSearch \<Rightarrow> search qmd jsonParse query opts
      | ModeVsearch \<Rightarrow> vectorSearch qmd jsonParse query opts
      | ModeQuery \<Rightarrow> deepSearch qmd jsonParse query opts)"

definition embeddingsMissing :: "StatusResult \<Rightarrow> bool" where
  \<comment> \<open>\<^verbatim>\<open>status.needsEmbedding > 0 && !status.hasVectorIndex\<close>\<close>
  "embeddingsMissing st \<longleftrightarrow> st_needsEmbedding st > 0 \<and> \<not> st_hasVectorIndex st"

definition searching ::
  "(string list \<Rightarrow> ProcResult) \<Rightarrow> (string \<Rightarrow> jsError + 's SearchResult list) \<Rightarrow> ('s \<Rightarrow> string) \<Rightarrow>
   's SearchView \<Rightarrow> string \<Rightarrow> 's SearchView" where
  \<comment> \<open>\<^verbatim>\<open>performSearch\<close> from the status message on, with its \<^verbatim>\<open>try\<close> block\<close>
  "searching qmd jsonParse percent v query =
     (let statusMsg = (if search_mode v = ModeQuery then ''Querying (LLM)...'' else ''Searching...'');
          v1 = v\<lparr>sv_statusText := [fg mutedColour statusMsg], sv_results := [], sv_options := []\<rparr>;
          opts = \<lparr>opt_limit = None, opt_collection = sv_selectedCollection v\<rparr>
      in case searchByMode qmd jsonParse (search_mode v) query opts of
           Inl err \<Rightarrow> v1\<lparr>sv_statusText := [fg errorColour (''Error: '' @ errString err)]\<rparr>
         | Inr results \<Rightarrow>
             if results = []
             then v1\<lparr>sv_statusText := [fg warnColour ''No results found.'']\<rparr>
             else v1\<lparr>sv_results := results,
                     sv_statusText := [fg okColour (showNat (length results) @ '' results'')],
                     sv_options := map (resultOption percent) results\<rparr>)"

definition performSearch ::
  "(string list \<Rightarrow> ProcResult) \<Rightarrow> (string \<Rightarrow> jsError + 's SearchResult list) \<Rightarrow> ('s \<Rightarrow> string) \<Rightarrow>
   's SearchView \<Rightarrow> string \<Rightarrow> jsError + 's SearchView" where
  "performSearch qmd jsonParse percent v query =
     (if trim query = [] then Inr v
      else if search_mode v = ModeVsearch \<or> search_mode v = ModeQuery
      then (case status qmd of
              Inl err \<Rightarrow> Inl err
            | Inr st \<Rightarrow>
                if embeddingsMissing st
                then Inr (v\<lparr>sv_statusText :=
                              [fg warnColour (''No embeddings yet. Run '' @ [CHR 0x27] @ ''qmd embed''
                                              @ [CHR 0x27] @ '' first.'')]\<rparr>)
                else Inr (searching qmd jsonParse percent v query))
      else Inr (searching qmd jsonParse percent v query))"

definition search_clear :: "'s SearchView \<Rightarrow> 's SearchView" where
  "search_clear v = v\<lparr>sv_input := [], sv_results := [], sv_options := [], sv_statusText := []\<rparr>"


subsection \<open>views/document.ts\<close>

record DocumentView =
  doc_currentFile :: "string option"
  doc_currentTitle :: "string option"
  doc_currentContent :: "string option"
  doc_headerText :: StyledText
  doc_contentMarkdown :: string
  doc_scrollTop :: nat

definition docHeader :: "string \<Rightarrow> string \<Rightarrow> StyledText" where
  "docHeader title file = [bold (fg accentColour title), lit '' '', fg mutedColour (''('' @ file @ '')'')]"

definition document_load ::
  "(string list \<Rightarrow> ProcResult) \<Rightarrow> (string \<Rightarrow> (string \<times> jsval) list option) \<Rightarrow>
   DocumentView \<Rightarrow> string \<Rightarrow> string \<Rightarrow> jsError + DocumentView" where
  "document_load qmd yamlParse v file title =
     (let v1 = v\<lparr>doc_currentFile := Some file, doc_currentTitle := Some title,
                  doc_currentContent := None, doc_headerText := docHeader title file,
                  doc_contentMarkdown := ''*Loading...*''\<rparr>
      in case getDocument qmd file of
           Inl err \<Rightarrow> Inr (v1\<lparr>doc_contentMarkdown := ''**Error:** '' @ errString err\<rparr>)
         | Inr text \<Rightarrow>
             let v2 = v1\<lparr>doc_currentContent := Some text\<rparr>;
                 v3 = (case matchFrontmatter text of
                         None \<Rightarrow> v2
                       | Some (cap, rest) \<Rightarrow>
                           (case yamlParse cap of
                              None \<Rightarrow> v2
                            | Some fm \<Rightarrow>
                                (case fmTitle fm of
                                   None \<Rightarrow> v2
                                 | Some t \<Rightarrow> v2\<lparr>doc_currentTitle := Some t,
                                                 doc_headerText := docHeader t file\<rparr>)))
             in Inr (v3\<lparr>doc_contentMarkdown := text, doc_scrollTop := 0\<rparr>))"


section \<open>The application (app.ts)\<close>

datatype AppState =
    Collections | Detail | Search | Document
  | AddCollection | RenameCollection | DeleteCollection

datatype FocusArea = Sidebar | Main

record Watcher =
  w_dir :: string
  w_watchedName :: string

datatype Effect =
    WatcherOpened Watcher | WatcherClosed Watcher
  | ServerStarted nat | ServerStopped nat
  | ChromeSpawned nat | RendererDestroyed

text \<open>
  The fields of \<^verbatim>\<open>App\<close>. \<open>app_debounce\<close> is the \<^verbatim>\<open>debounce\<close> variable of the
  watcher callback: the time at which its timeout is due, while that timeout is pending.
  \<open>app_timers\<close> are the due times of all pending timeouts of the event loop that
  increment the version counter (a closed watcher leaves its timeout behind), times in
  milliseconds. \<open>app_effects\<close> records, latest first, what the application did to the
  outside.
\<close>

record 's App =
  app_state :: AppState
  app_previousState :: AppState
  app_focusArea :: FocusArea
  app_title :: string
  app_mainContent :: AppState
  app_focus :: Focus
  app_collections :: "Collection list"
  app_collectionsView :: CollectionsView
  app_detailView :: DetailView
  app_searchView :: "'s SearchView"
  app_documentView :: DocumentView
  app_addView :: AddCollectionView
  app_renameView :: RenameCollectionView
  app_deleteView :: ConfirmDeleteView
  app_previewServer :: "nat option"
  app_previewWatcher :: "Watcher option"
  app_previewVersion :: nat
  app_previewFilePath :: "string option"
  app_previewBaseDir :: "string option"
  app_debounce :: "nat option"
  app_timers :: "nat list"
  app_effects :: "Effect list"

text \<open>What the application calls outside itself; all of it is a parameter.\<close>

record 's Env =
  env_qmd :: "string list \<Rightarrow> ProcResult"
  env_config :: QmdConfig
  env_home :: string
  env_pathJoin :: "string \<Rightarrow> string \<Rightarrow> string"
  env_dirname :: "string \<Rightarrow> string"
  env_basename :: "string \<Rightarrow> string"
  env_jsonParse :: "string \<Rightarrow> jsError + 's SearchResult list"
  env_percent :: "'s \<Rightarrow> string"
  env_yamlParse :: "string \<Rightarrow> (string \<times> jsval) list option"
  env_markedParse :: "string \<Rightarrow> string"
  env_fileText :: "string \<Rightarrow> jsError + string"
  env_fileExists :: "string \<Rightarrow> bool"
  env_decodeURIComponent :: "string \<Rightarrow> jsError + string"
  env_freePort :: nat
  env_watchError :: "jsError option"
  env_spawnError :: "jsError option"

definition truthy :: "string option \<Rightarrow> bool" where
  \<comment> \<open>a string that is neither \<^verbatim>\<open>null\<close> nor empty\<close>
  "truthy s \<longleftrightarrow> (case s of None \<Rightarrow> False | Some x \<Rightarrow> x \<noteq> [])"

definition switchMainView :: "AppState \<Rightarrow> 's App \<Rightarrow> 's App" where
  "switchMainView target app =
     (let app1 = app\<lparr>app_previousState :=
                       (if target \<noteq> app_state app then app_state app else app_previousState app),
                     app_state := target,
                     app_mainContent := (if target = Collections then Detail else target)\<rparr>
      in case target of
           AddCollection \<Rightarrow> app1\<lparr>app_title := ''Add Collection''\<rparr>
         | RenameCollection \<Rightarrow> app1\<lparr>app_title := ''Rename Collection''\<rparr>
         | DeleteCollection \<Rightarrow> app1\<lparr>app_title := ''Delete Collection''\<rparr>
         | _ \<Rightarrow> app1)"

definition showSelected :: "'s App \<Rightarrow> 's App" where
  \<comment> \<open>\<^verbatim>\<open>const col = this.collectionsView.getSelectedCollection(); if (col) this.detailView.show(col)\<close>\<close>
  "showSelected app =
     (case getSelectedCollection (app_collectionsView app) of
        None \<Rightarrow> app
      | Some col \<Rightarrow> app\<lparr>app_detailView := detail_show (app_detailView app) col\<rparr>)"

definition showDetail :: "Collection \<Rightarrow> 's App \<Rightarrow> 's App" where
  "showDetail col app =
     (let app1 = switchMainView Detail app
      in app1\<lparr>app_detailView := detail_show (app_detailView app1) col, app_title := ''Collection''\<rparr>)"

definition enterSearch :: "'s App \<Rightarrow> 's App" where
  "enterSearch app =
     (let app1 = (switchMainView Search app)\<lparr>app_state := Search\<rparr>;
          selectedCol = getSelectedCollection (app_collectionsView app1)
      in app1\<lparr>app_searchView :=
                 search_setCollection (app_searchView app1) (map_option col_name selectedCol),
               app_focus := Some SearchInput,
               app_title := ''Search''\<rparr>)"

definition leaveSearch :: "'s App \<Rightarrow> 's App" where
  "leaveSearch app =
     (let app1 = showSelected (switchMainView Detail (app\<lparr>app_state := Detail\<rparr>))
      in app1\<lparr>app_title := ''Collection'', app_focus := Some CollectionsSelect,
               app_focusArea := Sidebar\<rparr>)"

definition stopPreview :: "'s App \<Rightarrow> 's App" where
  "stopPreview app =
     (case app_previewWatcher app of
        Some w \<Rightarrow> app\<lparr>app_effects := WatcherClosed w # app_effects app, app_previewWatcher := None\<rparr>
      | None \<Rightarrow> app)"

definition cleanup :: "'s App \<Rightarrow> 's App" where
  "cleanup app =
     (let app1 = stopPreview app
      in case app_previewServer app1 of
           Some port \<Rightarrow> app1\<lparr>app_effects := ServerStopped port # app_effects app1,
                              app_previewServer := None\<rparr>
         | None \<Rightarrow> app1)"

definition leaveDocument :: "'s App \<Rightarrow> 's App" where
  "leaveDocument app =
     (let app1 = stopPreview app
      in if app_previousState app1 = Search
         then (switchMainView Search app1)\<lparr>app_state := Search, app_title := ''Search'',
                                            app_focus := Some SearchResults\<rparr>
         else (switchMainView Detail app1)\<lparr>app_state := Detail, app_title := ''Collection'',
                                            app_focus := Some CollectionsSelect,
                                            app_focusArea := Sidebar\<rparr>)"

definition enterAddCollection :: "'s App \<Rightarrow> 's App" where
  "enterAddCollection app =
     (let app1 = switchMainView AddCollection (app\<lparr>app_addView := add_reset (app_addView app)\<rparr>)
      in case add_focusFirst (app_addView app1) of
           (v, f) \<Rightarrow> app1\<lparr>app_addView := v, app_focus := f\<rparr>)"

definition enterRenameCollection :: "'s App \<Rightarrow> 's App" where
  "enterRenameCollection app =
     (case getSelectedCollection (app_collectionsView app) of
        None \<Rightarrow> app
      | Some col \<Rightarrow>
          (switchMainView RenameCollection
             (app\<lparr>app_renameView := rename_show (rename_reset (app_renameView app)) col\<rparr>))
          \<lparr>app_focus := Some RenameInput\<rparr>)"

definition enterDeleteCollection :: "'s App \<Rightarrow> 's App" where
  "enterDeleteCollection app =
     (case getSelectedCollection (app_collectionsView app) of
        None \<Rightarrow> app
      | Some col \<Rightarrow>
          (switchMainView DeleteCollection
             (app\<lparr>app_deleteView := delete_show (app_deleteView app) col\<rparr>))
          \<lparr>app_focus := Some DeleteSelect\<rparr>)"

definition leaveManagement :: "'s App \<Rightarrow> 's App" where
  "leaveManagement app =
     (let app1 = showSelected ((switchMainView Detail app)\<lparr>app_state := Detail\<rparr>)
      in app1\<lparr>app_title := ''Collection'', app_focus := Some CollectionsSelect,
               app_focusArea := Sidebar\<rparr>)"

definition handleTab :: "'s App \<Rightarrow> 's App" where
  "handleTab app =
     (if app_state app = Search
      then (if app_focus app = Some SearchInput then app\<lparr>app_focus := Some SearchResults\<rparr>
            else app\<lparr>app_focus := Some SearchInput\<rparr>)
      else if app_focusArea app = Sidebar
      then (let app1 = app\<lparr>app_focusArea := Main\<rparr>
            in if app_state app1 = Document then app1\<lparr>app_focus := Some DocumentContainer\<rparr> else app1)
      else app\<lparr>app_focusArea := Sidebar, app_focus := Some CollectionsSelect\<rparr>)"

definition handleEscape :: "'s App \<Rightarrow> 's App" where
  "handleEscape app =
     (if app_state app = Document then leaveDocument app
      else if app_state app = Search then leaveSearch app
      else app)"


subsection \<open>Keyboard\<close>

record KeyEvent =
  key_name :: string
  key_ctrl :: bool
  key_meta :: bool

text \<open>
  The \<^verbatim>\<open>keypress\<close> listener. The asynchronous methods it calls without waiting run up
  to their first \<^verbatim>\<open>await\<close>; what is left of them is returned as a task. The result
  is the application, the tasks started, and whether \<^verbatim>\<open>preventDefault\<close> was called.
\<close>

definition openInEditor_start :: "'s App \<Rightarrow> Task list" where
  "openInEditor_start app =
     (if truthy (doc_currentFile (app_documentView app)) then [OpenInEditor] else [])"

definition openPreview_start :: "'s App \<Rightarrow> 's App \<times> Task list" where
  "openPreview_start app =
     (if \<not> truthy (doc_currentFile (app_documentView app))
      then (app\<lparr>app_title := ''Preview: no file''\<rparr>, [])
      else (app, [OpenPreview]))"

definition runEmbed_start :: "'s App \<Rightarrow> 's App" where
  "runEmbed_start app =
     app\<lparr>app_title := ''Embedding...'',
         app_detailView := detail_showStatus (app_detailView app)
                             ''Creating embeddings, this may take a while...'' False\<rparr>"

definition isManagement :: "AppState \<Rightarrow> bool" where
  "isManagement s \<longleftrightarrow> s = AddCollection \<or> s = RenameCollection \<or> s = DeleteCollection"

definition keypress :: "KeyEvent \<Rightarrow> 's App \<Rightarrow> 's App \<times> Task list \<times> bool" where
  "keypress key app =
     (if app_state app = Search \<and> key_name key = ''t'' \<and> key_ctrl key
      then (app\<lparr>app_searchView := search_cycleMode (app_searchView app)\<rparr>, [], True)
      else if app_state app = Search \<and> app_focus app = Some SearchInput
      then (if key_name key = ''escape'' then (leaveSearch app, [], True)
            else if key_name key = ''tab'' then (app\<lparr>app_focus := Some SearchResults\<rparr>, [], True)
            else (app, [], False))
      else if isManagement (app_state app)
      then (if key_name key = ''escape''
            then (if app_state app = AddCollection \<and> av_completionVisible (app_addView app)
                  then (case add_handleEscape (app_addView app) (app_focus app) of
                          (v, f, handled) \<Rightarrow> (app\<lparr>app_addView := v, app_focus := f\<rparr>, [], True))
                  else (leaveManagement app, [], True))
            else if key_name key = ''tab'' \<and> app_state app = AddCollection
            then (case add_handleTab (app_addView app) (app_focus app) of
                    (v, f, tasks) \<Rightarrow> (app\<lparr>app_addView := v, app_focus := f\<rparr>, tasks, True))
            else (app, [], False))
      else if app_state app = Document \<and> key_name key = ''e''
      then (app, openInEditor_start app, True)
      else if app_state app = Document \<and> key_name key = ''p''
      then (case openPreview_start (app\<lparr>app_title := ''Preview...''\<rparr>) of
              (app1, tasks) \<Rightarrow> (app1, tasks, True))
      else if key_name key = ''q'' \<and> \<not> key_ctrl key \<and> \<not> key_meta key
      then (let app1 = cleanup app
            in (app1\<lparr>app_effects := RendererDestroyed # app_effects app1\<rparr>, [], True))
      else if key_name key = ''escape'' then (handleEscape app, [], True)
      else if key_name key = ''tab'' then (handleTab app, [], True)
      else if key_name key = ''/'' \<or> key_name key = ''s'' then (enterSearch app, [], True)
      else if app_focusArea app = Sidebar \<and> key_name key = ''a'' then (enterAddCollection app, [], True)
      else if app_focusArea app = Sidebar \<and> key_name key = ''d'' then (enterDeleteCollection app, [], True)
      else if app_focusArea app = Sidebar \<and> key_name key = ''r'' then (enterRenameCollection app, [], True)
      else if app_focusArea app = Sidebar \<and> key_name key = ''e'' then (runEmbed_start app, [RunEmbed], True)
      else (app, [], False))"


subsection \<open>Live preview\<close>

definition DEBOUNCE_MS :: nat where
  "DEBOUNCE_MS = 100"

datatype ResponseBody = TextBody string | FileBody string

record Response =
  rs_status :: nat
  rs_body :: ResponseBody
  rs_headers :: "(string \<times> string) list"

definition ensurePreviewServer :: "'s Env \<Rightarrow> 's App \<Rightarrow> 's App \<times> nat" where
  "ensurePreviewServer env app =
     (case app_previewServer app of
        Some port \<Rightarrow> (app, port)
      | None \<Rightarrow>
          (app\<lparr>app_previewServer := Some (env_freePort env),
               app_effects := ServerStarted (env_freePort env) # app_effects app\<rparr>,
           env_freePort env))"

text \<open>
  \<^verbatim>\<open>openPreview\<close> after its \<^verbatim>\<open>await\<close>: \<open>resolved\<close> is what
  \<^verbatim>\<open>resolveQmdUri\<close> gave, a path, \<^verbatim>\<open>null\<close>, or an error. Starting the watcher or
  the browser may throw; the \<^verbatim>\<open>catch\<close> block then sets the title, and what was done
  before stays done.
\<close>

definition openPreview_resume :: "'s Env \<Rightarrow> (jsError + string option) \<Rightarrow> 's App \<Rightarrow> 's App" where
  "openPreview_resume env resolved app =
     (case resolved of
        Inl err \<Rightarrow> app\<lparr>app_title := ''Preview error: '' @ errString err\<rparr>
      | Inr r \<Rightarrow>
          if \<not> truthy r then app\<lparr>app_title := ''Preview: file not found''\<rparr>
          else
            let filePath = the r;
                app1 = stopPreview app;
                app2 = app1\<lparr>app_previewFilePath := Some filePath,
                            app_previewBaseDir := Some (env_dirname env filePath)\<rparr>;
                (app3, port) = ensurePreviewServer env app2
            in case env_watchError env of
                 Some err \<Rightarrow> app3\<lparr>app_title := ''Preview error: '' @ errString err\<rparr>
               | None \<Rightarrow>
                   let w = \<lparr>w_dir = env_dirname env filePath, w_watchedName = env_basename env filePath\<rparr>;
                       app4 = app3\<lparr>app_previewWatcher := Some w, app_debounce := None,
                                   app_effects := WatcherOpened w # app_effects app3\<rparr>
                   in case env_spawnError env of
                        Some err \<Rightarrow> app4\<lparr>app_title := ''Preview error: '' @ errString err\<rparr>
                      | None \<Rightarrow>
                          app4\<lparr>app_effects := ChromeSpawned port # app_effects app4,
                               app_title := (case doc_currentTitle (app_documentView app4) of
                                               Some t \<Rightarrow> t | None \<Rightarrow> ''Preview'')\<rparr>)"

text \<open>
  The callback of \<^verbatim>\<open>watch\<close>, called at time \<open>now\<close> with the file name of the event
  (\<^verbatim>\<open>null\<close> when the platform gives none): an event for another file returns at once;
  otherwise the pending timeout of the callback, if any, is cleared and a new one is set.
\<close>

definition watchCallback :: "Watcher \<Rightarrow> nat \<Rightarrow> string option \<Rightarrow> 's App \<Rightarrow> 's App" where
  "watchCallback w now filename app =
     (if truthy filename \<and> filename \<noteq> Some (w_watchedName w) then app
      else
        let cleared = (case app_debounce app of
                         Some d \<Rightarrow> remove1 d (app_timers app)
                       | None \<Rightarrow> app_timers app)
        in app\<lparr>app_timers := (now + DEBOUNCE_MS) # cleared,
               app_debounce := Some (now + DEBOUNCE_MS)\<rparr>)"

text \<open>
  The event loop at time \<open>now\<close>: every timeout that is due runs, and each one increments
  the version counter. A file-system event is delivered after the timeouts due at its time,
  to the callback of the watcher that is open.
\<close>

definition fireTimers :: "nat \<Rightarrow> 's App \<Rightarrow> 's App" where
  "fireTimers now app =
     app\<lparr>app_previewVersion := app_previewVersion app + length (filter (\<lambda>d. d \<le> now) (app_timers app)),
         app_timers := filter (\<lambda>d. \<not> d \<le> now) (app_timers app),
         app_debounce := (case app_debounce app of
                            Some d \<Rightarrow> if d \<le> now then None else Some d
                          | None \<Rightarrow> None)\<rparr>"

definition deliver :: "'s App \<Rightarrow> nat \<times> string option \<Rightarrow> 's App" where
  "deliver app ev =
     (let app1 = fireTimers (fst ev) app
      in case app_previewWatcher app1 of
           None \<Rightarrow> app1
         | Some w \<Rightarrow> watchCallback w (fst ev) (snd ev) app1)"

definition runEvents :: "'s App \<Rightarrow> (nat \<times> string option) list \<Rightarrow> 's App" where
  "runEvents app evs = foldl deliver app evs"

fun burst :: "(nat \<times> string option) list \<Rightarrow> bool" where
  \<comment> \<open>each event comes less than the debounce time after the one before\<close>
  "burst [] = True"
| "burst [e] = True"
| "burst (e1 # e2 # es) = (fst e1 \<le> fst e2 \<and> fst e2 < fst e1 + DEBOUNCE_MS \<and> burst (e2 # es))"

text \<open>
  No timeout is due at time \<open>t\<close>: none is pending, or the only one pending is that of
  the watcher callback and is due later.
\<close>

definition quiet :: "nat \<Rightarrow> 's App \<Rightarrow> bool" where
  "quiet t app \<longleftrightarrow>
     (app_timers app = [] \<and> app_debounce app = None)
     \<or> (\<exists>d. app_timers app = [d] \<and> app_debounce app = Some d \<and> t < d)"

text \<open>
  The \<^verbatim>\<open>fetch\<close> handler of the preview server, on the path of the request URL. An error
  of \<^verbatim>\<open>decodeURIComponent\<close> leaves the handler.
\<close>

definition notFound :: Response where
  "notFound = \<lparr>rs_status = 404, rs_body = TextBody ''Not found'', rs_headers = []\<rparr>"

definition fetch :: "'s Env \<Rightarrow> 's App \<Rightarrow> string \<Rightarrow> jsError + Response" where
  "fetch env self pathname =
     (if pathname = ''/version''
      then Inr \<lparr>rs_status = 200, rs_body = TextBody (showNat (app_previewVersion self)),
                rs_headers = [(''Cache-Control'', ''no-cache'')]\<rparr>
      else if pathname = ''/''
      then (if \<not> truthy (app_previewFilePath self)
            then Inr \<lparr>rs_status = 404, rs_body = TextBody ''No file selected'', rs_headers = []\<rparr>
            else (case env_fileText env (the (app_previewFilePath self)) of
                    Inl err \<Rightarrow>
                      Inr \<lparr>rs_status = 500, rs_body = TextBody (''Error: '' @ errString err),
                           rs_headers = []\<rparr>
                  | Inr content \<Rightarrow>
                      Inr \<lparr>rs_status = 200,
                           rs_body = TextBody (buildPreviewHtml (env_yamlParse env) (env_markedParse env)
                                                 content (the (app_previewFilePath self))),
                           rs_headers = [(''Content-Type'', ''text/html; charset=utf-8'')]\<rparr>))
      else if truthy (app_previewBaseDir self)
      then (case env_decodeURIComponent env pathname of
              Inl err \<Rightarrow> Inl err
            | Inr reqPath \<Rightarrow>
                let filePath = env_pathJoin env (the (app_previewBaseDir self)) reqPath
                in if env_fileExists env filePath
                   then Inr \<lparr>rs_status = 200, rs_body = FileBody filePath, rs_headers = []\<rparr>
                   else Inr notFound)
      else Inr notFound)"


subsection \<open>Collection management and document callbacks\<close>

definition expandHome :: "'s Env \<Rightarrow> string \<Rightarrow> string" where
  "expandHome env p =
     (if startsWith p ''~/'' \<or> p = ''~'' then env_pathJoin env (env_home env) (drop 1 p) else p)"

definition addCollection :: "'s Env \<Rightarrow> string \<Rightarrow> string \<Rightarrow> string option \<Rightarrow> jsError + unit" where
  "addCollection env path name msk =
     (let resolved = expandHome env path;
          args = [''collection'', ''add'', resolved, ''--name'', name]
                 @ (if truthy msk then [''--mask'', the msk] else [])
      in map_sum id (\<lambda>_. ()) (run_cli (env_qmd env args)))"

definition removeCollection :: "'s Env \<Rightarrow> string \<Rightarrow> jsError + unit" where
  "removeCollection env name =
     map_sum id (\<lambda>_. ()) (run_cli (env_qmd env [''collection'', ''remove'', name]))"

definition renameCollection :: "'s Env \<Rightarrow> string \<Rightarrow> string \<Rightarrow> jsError + unit" where
  "renameCollection env oldName newName =
     map_sum id (\<lambda>_. ()) (run_cli (env_qmd env [''collection'', ''rename'', oldName, newName]))"

definition embed :: "'s Env \<Rightarrow> jsError + unit" where
  "embed env = map_sum id (\<lambda>_. ()) (run_cli (env_qmd env [''embed'']))"

definition refreshCollections :: "'s Env \<Rightarrow> 's App \<Rightarrow> jsError + 's App" where
  "refreshCollections env app =
     (case listCollections (env_qmd env) (env_config env) of
        Inl e \<Rightarrow> Inl e
      | Inr cols \<Rightarrow>
          Inr (app\<lparr>app_collections := cols,
                   app_collectionsView := collections_update (app_collectionsView app) cols\<rparr>))"

text \<open>
  The three callbacks that the constructor of \<^verbatim>\<open>App\<close> gives to the management views.
  Each is one \<^verbatim>\<open>try\<close> block; the result is the application, or the error that leaves
  the callback.
\<close>

definition maskOf :: "string \<Rightarrow> string option" where
  \<comment> \<open>\<^verbatim>\<open>pattern !== "**/*.md" ? pattern : undefined\<close>\<close>
  "maskOf pattern = (if pattern \<noteq> ''**/*.md'' then Some pattern else None)"

definition addOnComplete :: "'s Env \<Rightarrow> string \<Rightarrow> string \<Rightarrow> string \<Rightarrow> 's App \<Rightarrow> jsError + 's App" where
  "addOnComplete env path name pattern app =
     (let app1 = app\<lparr>app_addView := add_showStatus (app_addView app) ''Indexing...'' False\<rparr>
      in case (case addCollection env path name (maskOf pattern) of
                 Inl e \<Rightarrow> Inl e
               | Inr u \<Rightarrow>
                   (case refreshCollections env app1 of
                      Inl e \<Rightarrow> Inl e
                    | Inr app2 \<Rightarrow> Inr (leaveManagement app2))) of
           Inl err \<Rightarrow>
             Inr (app1\<lparr>app_addView :=
                        add_showStatus (app_addView app1) (''Error: '' @ errString err) True\<rparr>)
         | Inr app3 \<Rightarrow> Inr app3)"

definition renameOnComplete :: "'s Env \<Rightarrow> string \<Rightarrow> string \<Rightarrow> 's App \<Rightarrow> jsError + 's App" where
  "renameOnComplete env oldName newName app =
     (let app1 = app\<lparr>app_renameView := rename_showStatus (app_renameView app) ''Renaming...'' False\<rparr>
      in case (case renameCollection env oldName newName of
                 Inl e \<Rightarrow> Inl e
               | Inr u \<Rightarrow>
                   (case refreshCollections env app1 of
                      Inl e \<Rightarrow> Inl e
                    | Inr app2 \<Rightarrow> Inr (leaveManagement app2))) of
           Inl err \<Rightarrow>
             Inr (app1\<lparr>app_renameView :=
                        rename_showStatus (app_renameView app1) (''Error: '' @ errString err) True\<rparr>)
         | Inr app3 \<Rightarrow> Inr app3)"

definition deleteOnConfirm :: "'s Env \<Rightarrow> string \<Rightarrow> 's App \<Rightarrow> jsError + 's App" where
  \<comment> \<open>the \<^verbatim>\<open>catch\<close> block is empty: ``Stay in delete view on error''\<close>
  "deleteOnConfirm env name app =
     (case (case removeCollection env name of
              Inl e \<Rightarrow> Inl e
            | Inr u \<Rightarrow>
                (case refreshCollections env app of
                   Inl e \<Rightarrow> Inl e
                 | Inr app2 \<Rightarrow> Inr (leaveManagement app2))) of
        Inl err \<Rightarrow> Inr app
      | Inr app3 \<Rightarrow> Inr app3)"

definition searchOnEnter :: "'s Env \<Rightarrow> string \<Rightarrow> 's App \<Rightarrow> jsError + 's App" where
  \<comment> \<open>the ENTER listener of the search input\<close>
  "searchOnEnter env v app =
     (case performSearch (env_qmd env) (env_jsonParse env) (env_percent env) (app_searchView app) v of
        Inl e \<Rightarrow> Inl e
      | Inr sv \<Rightarrow> Inr (app\<lparr>app_searchView := sv\<rparr>))"

definition showDocument :: "'s Env \<Rightarrow> string \<Rightarrow> string \<Rightarrow> 's App \<Rightarrow> jsError + 's App" where
  "showDocument env file title app =
     (let app1 = (switchMainView Document app)
                   \<lparr>app_state := Document, app_title := title, app_focus := Some DocumentContainer\<rparr>
      in case document_load (env_qmd env) (env_yamlParse env) (app_documentView app1) file title of
           Inl e \<Rightarrow> Inl e
         | Inr dv \<Rightarrow>
             let app2 = app1\<lparr>app_documentView := dv\<rparr>;
                 fmTitle = doc_currentTitle dv
             in Inr (if truthy fmTitle \<and> fmTitle \<noteq> Some title
                     then app2\<lparr>app_title := the fmTitle\<rparr> else app2))"

definition runEmbed_finish :: "'s Env \<Rightarrow> string \<Rightarrow> 's App \<Rightarrow> 's App" where
  \<comment> \<open>\<^verbatim>\<open>runEmbed\<close> after its \<^verbatim>\<open>await\<close>; \<open>prevTitle\<close> is the title it saved\<close>
  "runEmbed_finish env prevTitle app =
     (case embed env of
        Inr u \<Rightarrow> app\<lparr>app_detailView := detail_showStatus (app_detailView app) ''Embeddings created.'' False,
                      app_title := prevTitle\<rparr>
      | Inl err \<Rightarrow> app\<lparr>app_detailView :=
                           detail_showStatus (app_detailView app) (''Error: '' @ errString err) True,
                        app_title := prevTitle\<rparr>)"

text \<open>The texts on the screen, and whether one of them tells of an error.\<close>

definition screenTexts :: "'s App \<Rightarrow> string list" where
  "screenTexts app =
     [app_title app,
      styledString (dv_titleText (app_detailView app)),
      styledString (dv_patternText (app_detailView app)),
      styledString (dv_filesText (app_detailView app)),
      styledString (dv_updatedText (app_detailView app)),
      styledString (dv_statusText (app_detailView app)),
      styledString (sv_label (app_searchView app)),
      styledString (sv_statusText (app_searchView app)),
      styledString (doc_headerText (app_documentView app)),
      doc_contentMarkdown (app_documentView app),
      styledString (av_statusText (app_addView app)),
      styledString (rv_currentNameText (app_renameView app)),
      styledString (rv_statusText (app_renameView app)),
      styledString (cd_messageText (app_deleteView app))]
     @ map so_name (sel_options (cv_select (app_collectionsView app)))
     @ map so_description (sel_options (cv_select (app_collectionsView app)))
     @ map so_name (sv_options (app_searchView app))
     @ map so_description (sv_options (app_searchView app))"

definition failureShown :: "'s App \<Rightarrow> jsError \<Rightarrow> bool" where
  "failureShown app err \<longleftrightarrow> (\<exists>t \<in> set (screenTexts app). contains t (errString err))"


subsection \<open>A sample state\<close>

definition sampleEnv :: "nat Env" where
  "sampleEnv =
     \<lparr>env_qmd = sampleQmd,
      env_config = sampleConfig,
      env_home = ''/home/u'',
      env_pathJoin = (\<lambda>a b. a @ b),
      env_dirname = (\<lambda>p. ''/home/u/docs''),
      env_basename = lastSegment,
      env_jsonParse = (\<lambda>s. Inl (SyntaxError ''Unexpected token'')),
      env_percent = showNat,
      env_yamlParse = (\<lambda>s. None),
      env_markedParse = (\<lambda>s. s),
      env_fileText = (\<lambda>p. Inr ''# Hello''),
      env_fileExists = (\<lambda>p. p = ''/home/u/docs/pic.png''),
      env_decodeURIComponent = (\<lambda>s. Inr s),
      env_freePort = 40000,
      env_watchError = None,
      env_spawnError = None\<rparr>"

definition sampleCollection :: Collection where
  "sampleCollection =
     \<lparr>col_name = ''docs'', col_uri = ''qmd://docs/'', col_path = ''/home/u/docs'',
      col_pattern = ''**/*.md'', col_files = 12, col_updated = ''2 days ago''\<rparr>"

definition sampleApp :: "nat App" where
  "sampleApp =
     \<lparr>app_state = Collections,
      app_previousState = Detail,
      app_focusArea = Sidebar,
      app_title = ''All Collections'',
      app_mainContent = Detail,
      app_focus = Some CollectionsSelect,
      app_collections = [sampleCollection],
      app_collectionsView = collections_update \<lparr>cv_collections = [], cv_select = \<lparr>sel_options = [], sel_index = 1\<rparr>\<rparr>
                              [sampleCollection],
      app_detailView = \<lparr>dv_titleText = [], dv_patternText = [], dv_filesText = [], dv_updatedText = [],
                        dv_statusText = []\<rparr>,
      app_searchView = \<lparr>sv_input = [], sv_results = [], sv_options = [], sv_label = [],
                        sv_statusText = [], sv_modeIndex = 0, sv_selectedCollection = None\<rparr>,
      app_documentView = \<lparr>doc_currentFile = None, doc_currentTitle = None, doc_currentContent = None,
                          doc_headerText = [], doc_contentMarkdown = [], doc_scrollTop = 0\<rparr>,
      app_addView = \<lparr>av_pathInput = [], av_nameInput = [], av_patternInput = [], av_statusText = [],
                     av_focusedField = 0, av_completionVisible = False, av_completionOptions = [],
                     av_completionDir = [], av_hasOnComplete = True\<rparr>,
      app_renameView = \<lparr>rv_currentCollection = None, rv_currentNameText = [], rv_newNameInput = [],
                        rv_statusText = [], rv_hasOnComplete = True\<rparr>,
      app_deleteView = \<lparr>cd_currentCollection = None, cd_messageText = []\<rparr>,
      app_previewServer = None,
      app_previewWatcher = None,
      app_previewVersion = 0,
      app_previewFilePath = None,
      app_previewBaseDir = None,
      app_debounce = None,
      app_timers = [],
      app_effects = []\<rparr>"

definition sampleWatcher :: Watcher where
  "sampleWatcher = \<lparr>w_dir = ''/home/u/docs'', w_watchedName = ''a.md''\<rparr>"

definition samplePreview :: "nat App" where
  \<comment> \<open>the document \<^verbatim>\<open>qmd://docs/a.md\<close> is shown and its preview is open\<close>
  "samplePreview =
     sampleApp\<lparr>app_state := Document, app_previousState := Search, app_mainContent := Document,
               app_title := ''a.md'', app_focus := Some DocumentContainer,
               app_documentView := \<lparr>doc_currentFile = Some ''qmd://docs/a.md'', doc_currentTitle = Some ''a.md'',
                   doc_currentContent = Some ''# Hello'', doc_headerText = docHeader ''a.md'' ''qmd://docs/a.md'',
                   doc_contentMarkdown = ''# Hello'', doc_scrollTop = 0\<rparr>,
               app_previewServer := Some 40000,
               app_previewWatcher := Some sampleWatcher,
               app_previewFilePath := Some ''/home/u/docs/a.md'',
               app_previewBaseDir := Some ''/home/u/docs''\<rparr>"


section \<open>Properties of the fuzzy filter\<close>

lemma fuzzyLoop_bound:
  "qi \<le> length q \<Longrightarrow> fuzzyLoop lower q i qi \<le> length q"
proof (induction lower q i qi rule: fuzzyLoop.induct)
  case (1 lower q i qi)
  show ?case
  proof (cases "i < length lower \<and> qi < length q")
    case True
    then have "fuzzyLoop lower q (i + 1) (if lower ! i = q ! qi then qi + 1 else qi) \<le> length q"
      using "1.IH" by auto
    with True show ?thesis by (subst fuzzyLoop.simps) simp
  next
    case False
    with "1.prems" show ?thesis by (subst fuzzyLoop.simps) auto
  qed
qed

lemma fuzzyLoop_subseq:
  "qi \<le> length q \<Longrightarrow> i \<le> length lower \<Longrightarrow>
   fuzzyLoop lower q i qi = length q \<longleftrightarrow> subseq (drop qi q) (drop i lower)"
proof (induction lower q i qi rule: fuzzyLoop.induct)
  case (1 lower q i qi)
  show ?case
  proof (cases "qi < length q")
    case qlt: True
    show ?thesis
    proof (cases "i < length lower")
      case ilt: True
      have dq: "drop qi q = q ! qi # drop (qi + 1) q"
        using qlt by (simp add: Cons_nth_drop_Suc)
      have dl: "drop i lower = lower ! i # drop (i + 1) lower"
        using ilt by (simp add: Cons_nth_drop_Suc)
      have step: "fuzzyLoop lower q i qi =
          fuzzyLoop lower q (i + 1) (if lower ! i = q ! qi then qi + 1 else qi)"
        using qlt ilt by (subst fuzzyLoop.simps) simp
      have ih: "fuzzyLoop lower q (i + 1) (if lower ! i = q ! qi then qi + 1 else qi) = length q
          \<longleftrightarrow> subseq (drop (if lower ! i = q ! qi then qi + 1 else qi) q) (drop (i + 1) lower)"
        using "1.IH" qlt ilt by auto
      show ?thesis
      proof (cases "lower ! i = q ! qi")
        case True
        with step ih dq dl show ?thesis by simp
      next
        case False
        then have "subseq (drop qi q) (drop i lower) \<longleftrightarrow> subseq (drop qi q) (drop (i + 1) lower)"
          using dq dl by (metis subseq_Cons2_iff)
        with step ih False show ?thesis by simp
      qed
    next
      case False
      then have "drop i lower = []" by simp
      moreover have "drop qi q \<noteq> []" using qlt by simp
      moreover have "fuzzyLoop lower q i qi = qi"
        using False by (subst fuzzyLoop.simps) simp
      ultimately show ?thesis using qlt by auto
    qed
  next
    case False
    with "1.prems" have "qi = length q" by simp
    moreover have "fuzzyLoop lower q i qi = qi"
      using False by (subst fuzzyLoop.simps) simp
    ultimately show ?thesis by simp
  qed
qed

lemma trim_blank: "trim s = [] \<longleftrightarrow> (\<forall>c \<in> set s. isWhiteSpace c)"
proof
  assume "trim s = []"
  then have "\<forall>c \<in> set (dropWhile isWhiteSpace s). isWhiteSpace c"
    by (simp add: trim_def dropWhile_eq_Nil_conv)
  moreover have "\<forall>c \<in> set (takeWhile isWhiteSpace s). isWhiteSpace c"
    by (auto dest: set_takeWhileD)
  ultimately show "\<forall>c \<in> set s. isWhiteSpace c"
    by (metis Un_iff set_append takeWhile_dropWhile_id)
next
  assume "\<forall>c \<in> set s. isWhiteSpace c"
  then show "trim s = []"
    by (auto simp: trim_def dest: set_dropWhileD)
qed

text \<open>
  C8. \<^verbatim>\<open>fuzzyMatch(query, text)\<close> is true exactly when the lower-cased query is a
  subsequence (not necessarily contiguous) of the lower-cased text. The empty query matches
  every text, and a filter field that is blank after trimming leaves every file of the
  list among the options, in order.
\<close>

theorem fuzzyMatch_subsequence:
  "(fuzzyMatch query text \<longleftrightarrow> subseq (toLowerCase query) (toLowerCase text))
   \<and> fuzzyMatch [] text
   \<and> (trim (fv_input v) = [] \<longrightarrow> fv_options (applyFilter v) = map fileOption (fv_allFiles v))"
proof -
  have "fuzzyMatch query text \<longleftrightarrow> subseq (toLowerCase query) (toLowerCase text)"
    using fuzzyLoop_subseq [of 0 "toLowerCase query" 0 "toLowerCase text"]
    by (simp add: fuzzyMatch_def Let_def)
  moreover have "fuzzyMatch [] text"
    by (simp add: fuzzyMatch_def toLowerCase_def fuzzyLoop.simps)
  moreover have "trim (fv_input v) = [] \<longrightarrow>
      fv_options (applyFilter v) = map fileOption (fv_allFiles v)"
    by (simp add: applyFilter_def Let_def)
  ultimately show ?thesis by blast
qed

theorem fuzzyMatch_subsequence_witness:
  "fuzzyMatch ''rdm'' ''docs/README.md''
   \<and> \<not> fuzzyMatch ''mdr'' ''docs/README.md''
   \<and> trim (fv_input \<lparr>fv_input = ''  '', fv_allFiles = [\<lparr>fe_size = ''1 KB'', fe_date = ''Sep 24'',
        fe_uri = ''qmd://c/a.md'', fe_path = ''a.md''\<rparr>], fv_statusText = [], fv_options = []\<rparr>) = []
   \<and> fv_options (applyFilter \<lparr>fv_input = ''  '', fv_allFiles = [\<lparr>fe_size = ''1 KB'', fe_date = ''Sep 24'',
        fe_uri = ''qmd://c/a.md'', fe_path = ''a.md''\<rparr>], fv_statusText = [], fv_options = []\<rparr>)
      = [\<lparr>so_name = ''a.md'', so_description = ''1 KB  Sep 24'', so_value = ''qmd://c/a.md''\<rparr>]"
proof -
  let ?v = "\<lparr>fv_input = ''  '', fv_allFiles = [\<lparr>fe_size = ''1 KB'', fe_date = ''Sep 24'',
        fe_uri = ''qmd://c/a.md'', fe_path = ''a.md''\<rparr>], fv_statusText = [], fv_options = []\<rparr>"
  have blank: "trim (fv_input ?v) = []"
    by (simp add: trim_def isWhiteSpace_def)
  have m1: "subseq (toLowerCase ''rdm'') (toLowerCase ''docs/README.md'')"
    by code_simp
  have m2: "\<not> subseq (toLowerCase ''mdr'') (toLowerCase ''docs/README.md'')"
    by code_simp
  from fuzzyMatch_subsequence [of "''rdm''" "''docs/README.md''" ?v] m1
  have a: "fuzzyMatch ''rdm'' ''docs/README.md''" by blast
  from fuzzyMatch_subsequence [of "''mdr''" "''docs/README.md''" ?v] m2
  have b: "\<not> fuzzyMatch ''mdr'' ''docs/README.md''" by blast
  from fuzzyMatch_subsequence [of "[]" "[]" ?v] blank
  have c: "fv_options (applyFilter ?v) = map fileOption (fv_allFiles ?v)" by blast
  from a b blank c show ?thesis by (simp add: fileOption_def)
qed


section \<open>Properties of the preview page\<close>

lemma replaceAll_Cons:
  "replaceAll c r (x # xs) = (if x = c then r else [x]) @ replaceAll c r xs"
  by (simp add: replaceAll_def)

lemma replaceAll_append:
  "replaceAll c r (xs @ ys) = replaceAll c r xs @ replaceAll c r ys"
  by (simp add: replaceAll_def)

lemma replaceAll_Nil: "replaceAll c r [] = []"
  by (simp add: replaceAll_def)

lemma escapeHtml_Nil: "escapeHtml [] = []"
  by (simp add: escapeHtml_def replaceAll_Nil)

lemma escapeHtml_Cons: "escapeHtml (x # xs) = htmlEntity x @ escapeHtml xs"
  by (simp add: escapeHtml_def htmlEntity_def replaceAll_Cons replaceAll_append replaceAll_Nil)

lemma escapeHtml_entities: "escapeHtml s = concat (map htmlEntity s)"
  by (induction s) (simp_all add: escapeHtml_Nil escapeHtml_Cons)

lemma markup_htmlEntity: "filter isMarkupChar (htmlEntity c) = []"
  by (simp add: htmlEntity_def isMarkupChar_def)

lemma markup_escapeHtml: "filter isMarkupChar (escapeHtml s) = []"
  by (induction s) (simp_all add: escapeHtml_Nil escapeHtml_Cons markup_htmlEntity)

lemma filter_join: "filter P (join sep xs) = join (filter P sep) (map (filter P) xs)"
  by (induction sep xs rule: join.induct) simp_all

lemma markup_renderEntry:
  "filter isMarkupChar (renderEntry e) = filter isMarkupChar (renderEntry ([], JString []))"
  by (simp add: renderEntry_def markup_escapeHtml)

lemma markup_frontmatterHtml:
  "filter isMarkupChar (frontmatterHtml entries) =
   filter isMarkupChar (frontmatterHtml (map (\<lambda>e. ([], JString [])) entries))"
proof -
  have eq: "map (filter isMarkupChar \<circ> renderEntry) entries =
        map (filter isMarkupChar \<circ> (renderEntry \<circ> (\<lambda>e. ([], JString [])))) entries"
  proof (rule map_cong)
    show "entries = entries" ..
  next
    fix x
    show "(filter isMarkupChar \<circ> renderEntry) x =
          (filter isMarkupChar \<circ> (renderEntry \<circ> (\<lambda>e. ([], JString [])))) x"
      unfolding o_def by (rule markup_renderEntry)
  qed
  show ?thesis
    by (simp add: frontmatterHtml_def filter_join eq)
qed

lemma markup_pageTemplate:
  "filter isMarkupChar (pageTemplate title fmHtml body) =
   filter isMarkupChar (pageTemplate [] fmHtml body)"
  by (simp only: pageTemplate_def filter_join list.map map_append filter_append markup_escapeHtml)

lemma markup_pageTemplate_fm:
  "filter isMarkupChar fm1 = filter isMarkupChar fm2 \<Longrightarrow>
   filter isMarkupChar (pageTemplate title fm1 body) = filter isMarkupChar (pageTemplate title fm2 body)"
  by (simp only: pageTemplate_def filter_join list.map map_append filter_append)

lemma buildPreviewHtml_template:
  "\<exists>title entries body.
     buildPreviewHtml yamlParse markedParse rawContent filePath =
       pageTemplate title (frontmatterHtml entries) (markedParse body)"
proof (cases "matchFrontmatter rawContent")
  case None
  then have "buildPreviewHtml yamlParse markedParse rawContent filePath =
      pageTemplate (stripMd (lastSegment filePath)) (frontmatterHtml []) (markedParse rawContent)"
    by (simp add: buildPreviewHtml_def frontmatterHtml_def)
  then show ?thesis by blast
next
  case (Some m)
  obtain cap body where m: "m = (cap, body)" by (cases m)
  show ?thesis
  proof (cases "yamlParse cap")
    case None
    with Some m have "buildPreviewHtml yamlParse markedParse rawContent filePath =
        pageTemplate (stripMd (lastSegment filePath)) (frontmatterHtml []) (markedParse body)"
      by (simp add: buildPreviewHtml_def frontmatterHtml_def)
    then show ?thesis by blast
  next
    case (Some fm)
    with \<open>matchFrontmatter rawContent = Some m\<close> m
    have "buildPreviewHtml yamlParse markedParse rawContent filePath =
        pageTemplate (case fmTitle fm of Some t \<Rightarrow> t | None \<Rightarrow> stripMd (lastSegment filePath))
          (frontmatterHtml (filter (\<lambda>e. fst e \<noteq> ''title'') fm)) (markedParse body)"
      by (simp add: buildPreviewHtml_def)
    then show ?thesis by blast
  qed
qed

text \<open>
  C9. \<^verbatim>\<open>escapeHtml(s)\<close> contains no raw \<^verbatim>\<open><\<close>, \<^verbatim>\<open>>\<close> or double quote: the four
  replacements, with \<^verbatim>\<open>&\<close> first, amount to replacing each character by its entity.
  The generated page is the fixed template around the escaped title and the escaped
  front-matter keys and values, which therefore add no markup character: the markup
  characters of the page are those of the page with an empty title and empty keys and values.
\<close>

theorem escapeHtml_no_markup:
  "CHR ''<'' \<notin> set (escapeHtml s) \<and> CHR ''>'' \<notin> set (escapeHtml s) \<and> CHR 0x22 \<notin> set (escapeHtml s)
   \<and> escapeHtml s = concat (map htmlEntity s)
   \<and> (\<exists>title entries body.
        buildPreviewHtml yamlParse markedParse rawContent filePath =
          pageTemplate title (frontmatterHtml entries) (markedParse body))
   \<and> filter isMarkupChar (pageTemplate title (frontmatterHtml entries) body) =
     filter isMarkupChar (pageTemplate [] (frontmatterHtml (map (\<lambda>e. ([], JString [])) entries)) body)"
proof -
  have "\<forall>c \<in> set (escapeHtml s). \<not> isMarkupChar c"
    using markup_escapeHtml [of s] by (simp add: filter_empty_conv)
  then have "CHR ''<'' \<notin> set (escapeHtml s)" "CHR ''>'' \<notin> set (escapeHtml s)"
    "CHR 0x22 \<notin> set (escapeHtml s)"
    by (auto simp: isMarkupChar_def)
  moreover have "filter isMarkupChar (pageTemplate title (frontmatterHtml entries) body) =
     filter isMarkupChar (pageTemplate [] (frontmatterHtml (map (\<lambda>e. ([], JString [])) entries)) body)"
    using markup_pageTemplate [of title "frontmatterHtml entries" body]
      markup_pageTemplate_fm [OF markup_frontmatterHtml [of entries], of "[]" body]
    by simp
  ultimately show ?thesis
    using escapeHtml_entities buildPreviewHtml_template by blast
qed


section \<open>Properties of the subprocess helpers\<close>

lemma contains_mid: "contains (a @ t @ c) t"
proof -
  have "length a \<in> set (upt 0 (Suc (length (a @ t @ c))))" by simp
  moreover have "take (length t) (drop (length a) (a @ t @ c)) = t" by simp
  ultimately show ?thesis unfolding contains_def by blast
qed

lemma contains_self: "contains t t"
  using contains_mid [of "[]" t "[]"] by simp

lemma contains_Nil: "contains s []"
  using contains_mid [of "[]" "[]" s] by simp

lemma contains_suffix: "contains (a @ t) t"
  using contains_mid [of a t "[]"] by simp

lemma run_cli_ok: "exitCode p = 0 \<Longrightarrow> run_cli p = Inr (stdout p)"
  by (simp add: run_cli_def)

lemma run_cli_fail:
  "exitCode p \<noteq> 0 \<Longrightarrow>
   run_cli p = Inl (Error (if trim (stderr p) \<noteq> [] then trim (stderr p)
                           else ''qmd exited with code '' @ String_int (exitCode p)))"
  by (simp add: run_cli_def)

lemma run_mcp_ok: "exitCode p = 0 \<Longrightarrow> run_mcp args p = Inr (stdout p)"
  by (simp add: run_mcp_def)

lemma run_mcp_fail:
  "exitCode p \<noteq> 0 \<Longrightarrow>
   run_mcp args p = Inl (Error (''qmd '' @ join '' '' args @ '' failed ('' @ String_int (exitCode p)
                                @ ''): '' @ stderr p))"
  by (simp add: run_mcp_def)

text \<open>
  C5. Both \<^verbatim>\<open>run\<close> helpers return the standard output unchanged when the exit code
  is 0 and throw exactly when it is not. The error of qmd-cli.ts carries the standard error
  text trimmed of surrounding white space, or the exit code when nothing is left of it
  (in particular when it is empty); the error of mcp-client.ts carries both the exit code
  and the standard error text.
\<close>

theorem run_throws_iff_nonzero:
  "(isl (run_cli p) \<longleftrightarrow> exitCode p \<noteq> 0)
   \<and> (exitCode p = 0 \<longrightarrow> run_cli p = Inr (stdout p))
   \<and> (exitCode p \<noteq> 0 \<longrightarrow>
        (\<exists>msg. run_cli p = Inl (Error msg)
           \<and> contains msg (trim (stderr p))
           \<and> (trim (stderr p) \<noteq> [] \<longrightarrow> msg = trim (stderr p))
           \<and> (trim (stderr p) = [] \<longrightarrow> msg = ''qmd exited with code '' @ String_int (exitCode p))
           \<and> (stderr p = [] \<longrightarrow> contains msg (String_int (exitCode p)))))
   \<and> (isl (run_mcp args p) \<longleftrightarrow> exitCode p \<noteq> 0)
   \<and> (exitCode p = 0 \<longrightarrow> run_mcp args p = Inr (stdout p))
   \<and> (exitCode p \<noteq> 0 \<longrightarrow>
        (\<exists>msg. run_mcp args p = Inl (Error msg)
           \<and> contains msg (stderr p) \<and> contains msg (String_int (exitCode p))))"
proof -
  have a: "isl (run_cli p) \<longleftrightarrow> exitCode p \<noteq> 0"
    by (simp add: run_cli_def Let_def)
  have b: "isl (run_mcp args p) \<longleftrightarrow> exitCode p \<noteq> 0"
    by (simp add: run_mcp_def Let_def)
  have c: "\<exists>msg. run_cli p = Inl (Error msg)
           \<and> contains msg (trim (stderr p))
           \<and> (trim (stderr p) \<noteq> [] \<longrightarrow> msg = trim (stderr p))
           \<and> (trim (stderr p) = [] \<longrightarrow> msg = ''qmd exited with code '' @ String_int (exitCode p))
           \<and> (stderr p = [] \<longrightarrow> contains msg (String_int (exitCode p)))"
    if nz: "exitCode p \<noteq> 0"
  proof (cases "trim (stderr p) = []")
    case True
    have "contains (''qmd exited with code '' @ String_int (exitCode p)) (String_int (exitCode p))"
      by (rule contains_suffix)
    with True run_cli_fail [OF nz] show ?thesis
      by (simp add: contains_Nil)
  next
    case False
    then have "stderr p \<noteq> []" by (auto simp: trim_def)
    with False run_cli_fail [OF nz] show ?thesis
      by (simp add: contains_self)
  qed
  have d: "\<exists>msg. run_mcp args p = Inl (Error msg)
           \<and> contains msg (stderr p) \<and> contains msg (String_int (exitCode p))"
    if nz: "exitCode p \<noteq> 0"
  proof -
    have "contains ((''qmd '' @ join '' '' args @ '' failed ('' @ String_int (exitCode p) @ ''): '')
                    @ stderr p) (stderr p)"
      by (rule contains_suffix)
    moreover have "contains ((''qmd '' @ join '' '' args @ '' failed ('') @ String_int (exitCode p)
                    @ (''): '' @ stderr p)) (String_int (exitCode p))"
      by (rule contains_mid)
    ultimately show ?thesis
      using run_mcp_fail [OF nz, of args] by simp
  qed
  from a b c d run_cli_ok run_mcp_ok show ?thesis by blast
qed

theorem run_throws_iff_nonzero_witness:
  "run_cli \<lparr>stdout = ''ok'', stderr = ''warn'', exitCode = 0\<rparr> = Inr ''ok''
   \<and> run_cli \<lparr>stdout = ''ok'', stderr = ''boom'' @ [CHR 0x0A], exitCode = 1\<rparr> = Inl (Error ''boom'')
   \<and> run_cli \<lparr>stdout = ''ok'', stderr = [CHR 0x0A], exitCode = 2\<rparr>
       = Inl (Error (''qmd exited with code '' @ String_int 2))
   \<and> run_mcp [''get'', ''a.md''] \<lparr>stdout = ''ok'', stderr = ''warn'', exitCode = 0\<rparr> = Inr ''ok''
   \<and> isl (run_mcp [''get'', ''a.md''] \<lparr>stdout = ''ok'', stderr = ''boom'', exitCode = 1\<rparr>)"
proof -
  let ?p0 = "\<lparr>stdout = ''ok'', stderr = ''warn'', exitCode = 0\<rparr>"
  let ?p1 = "\<lparr>stdout = ''ok'', stderr = ''boom'' @ [CHR 0x0A], exitCode = 1\<rparr>"
  let ?p2 = "\<lparr>stdout = ''ok'', stderr = [CHR 0x0A], exitCode = 2\<rparr>"
  let ?p3 = "\<lparr>stdout = ''ok'', stderr = ''boom'', exitCode = 1\<rparr>"
  have t1: "trim (stderr ?p1) = ''boom''" by (simp add: trim_def isWhiteSpace_def)
  have t2: "trim (stderr ?p2) = []" by (simp add: trim_def isWhiteSpace_def)
  from run_throws_iff_nonzero [of ?p0 "[''get'', ''a.md'']"]
  have a: "run_cli ?p0 = Inr ''ok''" "run_mcp [''get'', ''a.md''] ?p0 = Inr ''ok''" by simp_all
  from run_throws_iff_nonzero [of ?p1 "[]"] t1
  have b: "run_cli ?p1 = Inl (Error ''boom'')" by auto
  from run_throws_iff_nonzero [of ?p2 "[]"] t2
  have c: "run_cli ?p2 = Inl (Error (''qmd exited with code '' @ String_int 2))" by auto
  from run_throws_iff_nonzero [of ?p3 "[''get'', ''a.md'']"]
  have d: "isl (run_mcp [''get'', ''a.md''] ?p3)" by simp
  from a b c d show ?thesis by blast
qed

text \<open>
  C10. When the output of the search subprocess, trimmed, is empty or does not start with
  \<^verbatim>\<open>[\<close>, \<^verbatim>\<open>parseSearchOutput\<close> returns the empty list without calling the JSON
  parser, so each of the three search operations yields no result, and no error, on such
  output of a subprocess that exits with code 0.
\<close>

theorem parseSearchOutput_non_json:
  "(trim out = [] \<or> \<not> startsWith (trim out) ''['' \<longrightarrow>
      parseSearchOutput jsonParse out = Inr [])
   \<and> (exitCode (qmd (searchArgs ''search'' query opts)) = 0
      \<and> (trim (stdout (qmd (searchArgs ''search'' query opts))) = []
          \<or> \<not> startsWith (trim (stdout (qmd (searchArgs ''search'' query opts)))) ''['') \<longrightarrow>
      search qmd jsonParse query opts = Inr [])
   \<and> (exitCode (qmd (searchArgs ''vsearch'' query opts)) = 0
      \<and> (trim (stdout (qmd (searchArgs ''vsearch'' query opts))) = []
          \<or> \<not> startsWith (trim (stdout (qmd (searchArgs ''vsearch'' query opts)))) ''['') \<longrightarrow>
      vectorSearch qmd jsonParse query opts = Inr [])
   \<and> (exitCode (qmd (searchArgs ''query'' query opts)) = 0
      \<and> (trim (stdout (qmd (searchArgs ''query'' query opts))) = []
          \<or> \<not> startsWith (trim (stdout (qmd (searchArgs ''query'' query opts)))) ''['') \<longrightarrow>
      deepSearch qmd jsonParse query opts = Inr [])"
proof -
  have p: "parseSearchOutput jsonParse out = Inr []"
    if "trim out = [] \<or> \<not> startsWith (trim out) ''[''" for out
    using that by (auto simp: parseSearchOutput_def Let_def)
  have s: "searchWith cmd qmd jsonParse query opts = Inr []"
    if "exitCode (qmd (searchArgs cmd query opts)) = 0"
      and "trim (stdout (qmd (searchArgs cmd query opts))) = []
          \<or> \<not> startsWith (trim (stdout (qmd (searchArgs cmd query opts)))) ''[''" for cmd
    using that p [of "stdout (qmd (searchArgs cmd query opts))"]
    by (simp add: searchWith_def Let_def run_mcp_ok)
  show ?thesis
    using p [of out] s [of "''search''"] s [of "''vsearch''"] s [of "''query''"]
    unfolding search_def vectorSearch_def deepSearch_def by blast
qed

theorem parseSearchOutput_non_json_witness:
  "parseSearchOutput (\<lambda>s. Inl (SyntaxError ''Unexpected token'')) ''No results found.'' = (Inr [] :: jsError + unit SearchResult list)
   \<and> search (\<lambda>args. \<lparr>stdout = '' No results found.'' @ [CHR 0x0A], stderr = [], exitCode = 0\<rparr>)
        (\<lambda>s. Inl (SyntaxError ''Unexpected token'')) ''cats'' \<lparr>opt_limit = None, opt_collection = Some ''docs''\<rparr>
      = (Inr [] :: jsError + unit SearchResult list)
   \<and> vectorSearch (\<lambda>args. \<lparr>stdout = '' No results found.'' @ [CHR 0x0A], stderr = [], exitCode = 0\<rparr>)
        (\<lambda>s. Inl (SyntaxError ''Unexpected token'')) ''cats'' \<lparr>opt_limit = None, opt_collection = Some ''docs''\<rparr>
      = (Inr [] :: jsError + unit SearchResult list)
   \<and> deepSearch (\<lambda>args. \<lparr>stdout = '' No results found.'' @ [CHR 0x0A], stderr = [], exitCode = 0\<rparr>)
        (\<lambda>s. Inl (SyntaxError ''Unexpected token'')) ''cats'' \<lparr>opt_limit = None, opt_collection = Some ''docs''\<rparr>
      = (Inr [] :: jsError + unit SearchResult list)"
proof -
  let ?jp = "(\<lambda>s. Inl (SyntaxError ''Unexpected token'')) :: string \<Rightarrow> jsError + unit SearchResult list"
  let ?qmd = "\<lambda>args :: string list. \<lparr>stdout = '' No results found.'' @ [CHR 0x0A], stderr = [], exitCode = 0\<rparr>"
  let ?opts = "\<lparr>opt_limit = None, opt_collection = Some ''docs''\<rparr>"
  have t1: "trim ''No results found.'' = ''No results found.''"
    by (simp add: trim_def isWhiteSpace_def)
  have t2: "trim ('' No results found.'' @ [CHR 0x0A]) = ''No results found.''"
    by (simp add: trim_def isWhiteSpace_def)
  have n: "\<not> startsWith ''No results found.'' ''[''"
    by (simp add: startsWith_def)
  from parseSearchOutput_non_json [of "''No results found.''" ?jp ?qmd "''cats''" ?opts] t1 t2 n
  show ?thesis by simp
qed


section \<open>Properties of the collection list parser\<close>

lemma splitAcc_nonempty: "splitAcc acc s \<noteq> []"
  by (induction acc s rule: splitAcc.induct) auto

lemma join_Cons: "ys \<noteq> [] \<Longrightarrow> join sep (x # ys) = x @ sep @ join sep ys"
  by (cases ys) simp_all

lemma join_splitAcc: "join [CHR 0x0A] (splitAcc acc s) = rev acc @ s"
  by (induction acc s rule: splitAcc.induct) (auto simp: join_Cons splitAcc_nonempty)

lemma splitAcc_hd: "\<exists>t. hd (splitAcc acc s) = rev acc @ t"
  by (induction acc s rule: splitAcc.induct) auto

lemma splitAcc_start:
  "\<not> isWhiteSpace d \<Longrightarrow> splitAcc [] (d # cs) = splitAcc [d] cs"
  by (cases cs) (auto simp: isWhiteSpace_def)

lemma splitAcc_tl:
  "\<forall>b \<in> set (tl (splitAcc acc s)). b \<noteq> [] \<and> \<not> isWhiteSpace (hd b)"
proof (induction acc s rule: splitAcc.induct)
  case (3 acc c d cs)
  show ?case
  proof (cases "c = CHR 0x0A \<and> \<not> isWhiteSpace d")
    case True
    then have nd: "\<not> isWhiteSpace d" by simp
    obtain t where t: "hd (splitAcc [d] cs) = rev [d] @ t"
      using splitAcc_hd by blast
    have ne: "splitAcc [d] cs \<noteq> []" by (rule splitAcc_nonempty)
    have eq: "splitAcc [] (d # cs) = splitAcc [d] cs" using nd by (rule splitAcc_start)
    have "set (splitAcc [d] cs) = insert (hd (splitAcc [d] cs)) (set (tl (splitAcc [d] cs)))"
      using ne by (cases "splitAcc [d] cs") auto
    moreover have "\<forall>b \<in> set (tl (splitAcc [] (d # cs))). b \<noteq> [] \<and> \<not> isWhiteSpace (hd b)"
      using 3 True by simp
    ultimately have "\<forall>b \<in> set (splitAcc [d] cs). b \<noteq> [] \<and> \<not> isWhiteSpace (hd b)"
      using t nd eq by auto
    with True eq show ?thesis by simp
  next
    case False
    with 3 show ?thesis by auto
  qed
qed simp_all

lemma cutFree_snoc2:
  "cutFree (xs @ [c, d]) \<longleftrightarrow> cutFree (xs @ [c]) \<and> \<not> (c = CHR 0x0A \<and> \<not> isWhiteSpace d)"
  by (induction xs rule: cutFree.induct) auto

lemma cutFree_snoc1: "cutFree (xs @ [c]) \<Longrightarrow> cutFree xs"
  by (induction xs rule: cutFree.induct) auto

lemma splitAcc_cutFree:
  "cutFree (rev acc @ take 1 s) \<Longrightarrow> \<forall>b \<in> set (splitAcc acc s). cutFree b"
proof (induction acc s rule: splitAcc.induct)
  case (1 acc) then show ?case by simp
next
  case (2 acc c) then show ?case by simp
next
  case (3 acc c d cs)
  show ?case
  proof (cases "c = CHR 0x0A \<and> \<not> isWhiteSpace d")
    case True
    have "cutFree (rev acc @ [c])" using 3(3) by simp
    then have "cutFree (rev acc)" by (rule cutFree_snoc1)
    moreover have "\<forall>b \<in> set (splitAcc [] (d # cs)). cutFree b"
      using 3(1) [OF True] by simp
    ultimately show ?thesis using True by simp
  next
    case False
    have h: "cutFree (rev (c # acc) @ take 1 (d # cs))"
      using 3(3) False cutFree_snoc2 [of "rev acc" c d] by simp
    have eq: "splitAcc acc (c # d # cs) = splitAcc (c # acc) (d # cs)"
      using False by auto
    show ?thesis unfolding eq by (rule 3(2) [OF False h])
  qed
qed

lemma blocksLoop_describes:
  "\<exists>cols. blocksLoop (Config (Some table)) acc blocks = Inr (acc @ cols)
     \<and> list_all2 (describes table) (filter (\<lambda>b. headerMatch b \<noteq> None) blocks) cols"
proof (induction blocks arbitrary: acc)
  case Nil then show ?case by simp
next
  case (Cons b bs)
  show ?case
  proof (cases "headerMatch b")
    case None
    with Cons [of acc] show ?thesis by simp
  next
    case (Some m)
    obtain name cap where m: "m = (name, cap)" by (cases m)
    let ?c = "\<lparr>col_name = name,
                col_uri = ''qmd://'' @ cap @ ''/'',
                col_path = (case table name of
                              Some cc \<Rightarrow> (case cc_path cc of Some p \<Rightarrow> p | None \<Rightarrow> [])
                            | None \<Rightarrow> []),
                col_pattern = (case patternMatch b of Some p \<Rightarrow> trim p | None \<Rightarrow> ''**/*.md''),
                col_files = parseInt10 (case filesMatch b of Some ds \<Rightarrow> ds | None \<Rightarrow> ''0''),
                col_updated = (case updatedMatch b of Some u \<Rightarrow> trim u | None \<Rightarrow> ''unknown'')\<rparr>"
    obtain cols where cols: "blocksLoop (Config (Some table)) (acc @ [?c]) bs = Inr ((acc @ [?c]) @ cols)"
      "list_all2 (describes table) (filter (\<lambda>b. headerMatch b \<noteq> None) bs) cols"
      using Cons [of "acc @ [?c]"] by blast
    have z: "parseInt10 ''0'' = 0" by (simp add: parseInt10_def digitVal_def)
    have d: "describes table b ?c"
      using Some m z by (simp add: describes_def parseInt10_def split: option.splits)
    have "blocksLoop (Config (Some table)) acc (b # bs) = Inr (acc @ (?c # cols))"
      using Some m cols(1) by (simp add: collectionsEntry_def)
    moreover have "list_all2 (describes table) (filter (\<lambda>b. headerMatch b \<noteq> None) (b # bs)) (?c # cols)"
      using Some d cols(2) by simp
    ultimately show ?thesis by blast
  qed
qed

lemma blocksLoop_no_table:
  assumes "config = NullConfig \<or> config = Config None"
  shows "blocksLoop config acc blocks =
           (if list_ex (\<lambda>b. headerMatch b \<noteq> None) blocks
            then Inl (if config = NullConfig then nullAccess else undefinedAccess)
            else Inr acc)"
proof (induction blocks arbitrary: acc)
  case Nil then show ?case by simp
next
  case (Cons b bs)
  show ?case
  proof (cases "headerMatch b")
    case None
    with Cons [of acc] show ?thesis by simp
  next
    case (Some m)
    obtain name cap where m: "m = (name, cap)" by (cases m)
    show ?thesis
      using assms Some m by (auto simp: collectionsEntry_def)
  qed
qed

lemma startsWith_append: "startsWith s p \<longleftrightarrow> (\<exists>t. s = p @ t)"
proof
  assume "startsWith s p"
  then have "s = p @ drop (length p) s"
    using append_take_drop_id [of "length p" s] by (simp add: startsWith_def)
  then show "\<exists>t. s = p @ t" ..
next
  assume "\<exists>t. s = p @ t"
  then show "startsWith s p" by (auto simp: startsWith_def)
qed

lemma closeParen_iff: "closeParen r \<longleftrightarrow> (\<exists>rest. r = '')'' @ rest \<or> r = ''/)'' @ rest)"
  unfolding closeParen_def startsWith_append by blast

lemma lazyUri_sound:
  "lazyUri acc r = Some cap \<Longrightarrow>
   \<exists>mid rest. cap = rev acc @ mid \<and> (\<forall>x \<in> set mid. \<not> isWhiteSpace x)
     \<and> (r = mid @ '')'' @ rest \<or> r = mid @ ''/)'' @ rest)
     \<and> (\<forall>i < length mid. \<not> closeParen (drop i r))"
proof (induction r arbitrary: acc)
  case Nil
  then show ?case by (simp add: closeParen_iff split: if_splits)
next
  case (Cons c cs)
  show ?case
  proof (cases "closeParen (c # cs)")
    case True
    with Cons.prems have cap: "cap = rev acc" by simp
    from True obtain rest where "c # cs = '')'' @ rest \<or> c # cs = ''/)'' @ rest"
      unfolding closeParen_iff by blast
    with cap show ?thesis
      by (intro exI [of _ "[]"] exI [of _ rest]) simp
  next
    case False
    with Cons.prems have nws: "\<not> isWhiteSpace c" and rec: "lazyUri (c # acc) cs = Some cap"
      by (auto split: if_splits)
    from Cons.IH [OF rec] obtain mid rest where
      m: "cap = rev (c # acc) @ mid" "\<forall>x \<in> set mid. \<not> isWhiteSpace x"
         "cs = mid @ '')'' @ rest \<or> cs = mid @ ''/)'' @ rest"
         "\<forall>i < length mid. \<not> closeParen (drop i cs)"
      by blast
    have "\<forall>i < length (c # mid). \<not> closeParen (drop i (c # cs))"
    proof (intro allI impI)
      fix i assume "i < length (c # mid)"
      then show "\<not> closeParen (drop i (c # cs))"
        using False m(4) by (cases i) auto
    qed
    with m nws show ?thesis
      by (intro exI [of _ "c # mid"] exI [of _ rest]) auto
  qed
qed

lemma closeParen_intro: "closeParen ('')'' @ rest)" "closeParen (''/)'' @ rest)"
  unfolding closeParen_iff by blast+

lemma lazyUri_complete:
  "\<forall>x \<in> set mid. \<not> isWhiteSpace x \<Longrightarrow> r = mid @ '')'' @ rest \<or> r = mid @ ''/)'' @ rest \<Longrightarrow>
   lazyUri acc r \<noteq> None"
proof (induction mid arbitrary: acc r)
  case Nil
  then have "closeParen r" using closeParen_intro by auto
  then show ?case by (cases r) auto
next
  case (Cons c mid)
  then obtain cs where r: "r = c # cs" and cs: "cs = mid @ '')'' @ rest \<or> cs = mid @ ''/)'' @ rest"
    by auto
  from Cons.prems have nws: "\<not> isWhiteSpace c" by simp
  have "lazyUri (c # acc) cs \<noteq> None"
    using Cons.IH [OF _ cs] Cons.prems(1) by simp
  with r nws show ?case by auto
qed

lemma headerMatch_unfold:
  "headerMatch b =
     (if takeWhile (\<lambda>c. \<not> isWhiteSpace c) b = []
         \<or> takeWhile isWhiteSpace (dropWhile (\<lambda>c. \<not> isWhiteSpace c) b) = []
         \<or> \<not> startsWith (dropWhile isWhiteSpace (dropWhile (\<lambda>c. \<not> isWhiteSpace c) b)) ''(qmd://''
      then None
      else (case drop 7 (dropWhile isWhiteSpace (dropWhile (\<lambda>c. \<not> isWhiteSpace c) b)) of
              [] \<Rightarrow> None
            | c # cs \<Rightarrow>
                if isWhiteSpace c then None
                else (case lazyUri [c] cs of
                        None \<Rightarrow> None
                      | Some cap \<Rightarrow> Some (takeWhile (\<lambda>c. \<not> isWhiteSpace c) b, cap))))"
  unfolding headerMatch_def Let_def ..

lemma headerMatch_shape:
  assumes "headerMatch b = Some (name, cap)"
  shows "name \<noteq> [] \<and> (\<forall>x \<in> set name. \<not> isWhiteSpace x)
     \<and> cap \<noteq> [] \<and> (\<forall>x \<in> set cap. \<not> isWhiteSpace x)
     \<and> (\<exists>ws rest. ws \<noteq> [] \<and> (\<forall>x \<in> set ws. isWhiteSpace x)
          \<and> (b = name @ ws @ ''(qmd://'' @ cap @ '')'' @ rest
              \<or> b = name @ ws @ ''(qmd://'' @ cap @ ''/)'' @ rest))"
proof -
  define nm where "nm = takeWhile (\<lambda>c. \<not> isWhiteSpace c) b"
  define r1 where "r1 = dropWhile (\<lambda>c. \<not> isWhiteSpace c) b"
  define ws where "ws = takeWhile isWhiteSpace r1"
  define r2 where "r2 = dropWhile isWhiteSpace r1"
  have hm: "headerMatch b =
     (if nm = [] \<or> ws = [] \<or> \<not> startsWith r2 ''(qmd://'' then None
      else (case drop 7 r2 of
              [] \<Rightarrow> None
            | c # cs \<Rightarrow>
                if isWhiteSpace c then None
                else (case lazyUri [c] cs of None \<Rightarrow> None | Some cap \<Rightarrow> Some (nm, cap))))"
    unfolding nm_def r1_def ws_def r2_def by (rule headerMatch_unfold)
  have c1: "nm \<noteq> []" and c2: "ws \<noteq> []" and c3: "startsWith r2 ''(qmd://''"
    using assms unfolding hm by (auto split: if_splits)
  then have hm2: "(case drop 7 r2 of
              [] \<Rightarrow> None
            | c # cs \<Rightarrow>
                if isWhiteSpace c then None
                else (case lazyUri [c] cs of None \<Rightarrow> None | Some cap \<Rightarrow> Some (nm, cap)))
          = Some (name, cap)"
    using assms unfolding hm by simp
  obtain c cs where d7: "drop 7 r2 = c # cs"
    using hm2 by (cases "drop 7 r2") simp_all
  have nws: "\<not> isWhiteSpace c" and l0: "(case lazyUri [c] cs of None \<Rightarrow> None | Some cap \<Rightarrow> Some (nm, cap)) = Some (name, cap)"
    using hm2 unfolding d7 by (simp_all split: if_splits)
  have lz: "lazyUri [c] cs = Some cap" and name: "name = nm"
    using l0 by (cases "lazyUri [c] cs"; simp)+
  from c3 obtain r3 where r3: "r2 = ''(qmd://'' @ r3"
    using startsWith_append by blast
  then have r3c: "r3 = c # cs" using d7 by simp
  from lazyUri_sound [OF lz] obtain mid rest where
    m: "cap = rev [c] @ mid" "\<forall>x \<in> set mid. \<not> isWhiteSpace x"
       "cs = mid @ '')'' @ rest \<or> cs = mid @ ''/)'' @ rest"
    by blast
  have b: "b = nm @ ws @ r2"
    unfolding nm_def ws_def r2_def r1_def by simp
  have "r3 = cap @ '')'' @ rest \<or> r3 = cap @ ''/)'' @ rest"
    using r3c m(1) m(3) by auto
  then have "b = name @ ws @ ''(qmd://'' @ cap @ '')'' @ rest
          \<or> b = name @ ws @ ''(qmd://'' @ cap @ ''/)'' @ rest"
    using b r3 name by auto
  moreover have "\<forall>x \<in> set ws. isWhiteSpace x"
    unfolding ws_def by (auto dest: set_takeWhileD)
  moreover have "\<forall>x \<in> set name. \<not> isWhiteSpace x"
    unfolding name nm_def by (auto dest: set_takeWhileD)
  moreover have "cap \<noteq> []" "\<forall>x \<in> set cap. \<not> isWhiteSpace x" using m nws by auto
  ultimately show ?thesis using c1 c2 name by blast
qed

lemma headerMatch_complete:
  assumes "name \<noteq> []" "\<forall>x \<in> set name. \<not> isWhiteSpace x"
    and "ws \<noteq> []" "\<forall>x \<in> set ws. isWhiteSpace x"
    and "cap \<noteq> []" "\<forall>x \<in> set cap. \<not> isWhiteSpace x"
    and "b = name @ ws @ ''(qmd://'' @ cap @ '')'' @ rest
         \<or> b = name @ ws @ ''(qmd://'' @ cap @ ''/)'' @ rest"
  shows "headerMatch b \<noteq> None"
proof -
  obtain tail where tail: "b = name @ ws @ ''(qmd://'' @ cap @ tail"
    "tail = '')'' @ rest \<or> tail = ''/)'' @ rest"
    using assms(7) by auto
  define r2 where "r2 = ''(qmd://'' @ cap @ tail"
  obtain w ws' where w: "ws = w # ws'" using assms(3) by (cases ws) auto
  then have ww: "isWhiteSpace w" using assms(4) by simp
  have bb: "b = name @ w # (ws' @ r2)" unfolding tail(1) w r2_def by simp
  have tw: "takeWhile (\<lambda>c. \<not> isWhiteSpace c) b = name"
    unfolding bb using assms(2) ww by (subst takeWhile_append2) simp_all
  have dw: "dropWhile (\<lambda>c. \<not> isWhiteSpace c) b = ws @ r2"
    unfolding bb using assms(2) ww w by (subst dropWhile_append2) simp_all
  have np: "\<not> isWhiteSpace (CHR ''('')" by (simp add: isWhiteSpace_def)
  have r2c: "r2 = CHR ''('' # (''qmd://'' @ cap @ tail)" unfolding r2_def by simp
  have tw2: "takeWhile isWhiteSpace (ws @ r2) = ws"
    using assms(4) np unfolding r2c by (subst takeWhile_append2) simp_all
  have dw2: "dropWhile isWhiteSpace (ws @ r2) = r2"
    using assms(4) np unfolding r2c by (subst dropWhile_append2) simp_all
  have sw: "startsWith r2 ''(qmd://''"
    unfolding startsWith_append r2_def by blast
  have d7: "drop 7 r2 = cap @ tail" unfolding r2_def by simp
  obtain c mid where cap: "cap = c # mid" using assms(5) by (cases cap) auto
  have nws: "\<not> isWhiteSpace c" using assms(6) cap by simp
  have lz: "lazyUri [c] (mid @ tail) \<noteq> None"
    using lazyUri_complete [of mid "mid @ tail" rest "[c]"] assms(6) tail(2) cap by auto
  then obtain cp where cp: "lazyUri [c] (mid @ tail) = Some cp" by blast
  have "headerMatch b = Some (name, cp)"
    unfolding headerMatch_unfold tw dw tw2 dw2 d7 cap
    using assms(1,3) sw nws cp by simp
  then show ?thesis by simp
qed

text \<open>
  For a configuration with a \<^verbatim>\<open>collections\<close> table: when the
  \<^verbatim>\<open>qmd collection list\<close> subprocess exits with code 0, \<^verbatim>\<open>listCollections\<close> cuts its
  output at the line feeds that are followed by a character other than white space (the
  blocks joined by line feeds give the output back, every block after the first starts
  with a character other than white space, and no block contains a further cutting point)
  and returns, in order, exactly one record for each block whose header matches. A header
  matches exactly when the block starts with a name without white space, white space, and
  a parenthesised \<^verbatim>\<open>qmd://\<close> URI without white space, with or without a final slash.
  When the subprocess fails, its error is passed on.
\<close>

lemma listCollections_table:
  "(exitCode (qmd [''collection'', ''list'']) = 0 \<longrightarrow>
      (\<exists>cols. listCollections qmd (Config (Some table)) = Inr cols
         \<and> list_all2 (describes table)
               (filter (\<lambda>b. headerMatch b \<noteq> None)
                 (splitBlocks (stdout (qmd [''collection'', ''list'']))))
               cols))
   \<and> (exitCode (qmd [''collection'', ''list'']) \<noteq> 0 \<longrightarrow> isl (listCollections qmd (Config (Some table))))
   \<and> join [CHR 0x0A] (splitBlocks out) = out
   \<and> (\<forall>b \<in> set (tl (splitBlocks out)). b \<noteq> [] \<and> \<not> isWhiteSpace (hd b))
   \<and> (\<forall>b \<in> set (splitBlocks out). cutFree b)
   \<and> (headerMatch block \<noteq> None \<longleftrightarrow>
        (\<exists>name ws cap rest.
           name \<noteq> [] \<and> (\<forall>x \<in> set name. \<not> isWhiteSpace x)
           \<and> ws \<noteq> [] \<and> (\<forall>x \<in> set ws. isWhiteSpace x)
           \<and> cap \<noteq> [] \<and> (\<forall>x \<in> set cap. \<not> isWhiteSpace x)
           \<and> (block = name @ ws @ ''(qmd://'' @ cap @ '')'' @ rest
                \<or> block = name @ ws @ ''(qmd://'' @ cap @ ''/)'' @ rest)))"
proof -
  let ?p = "qmd [''collection'', ''list'']"
  have a: "\<exists>cols. listCollections qmd (Config (Some table)) = Inr cols
         \<and> list_all2 (describes table)
               (filter (\<lambda>b. headerMatch b \<noteq> None) (splitBlocks (stdout ?p))) cols"
    if z: "exitCode ?p = 0"
  proof -
    obtain cols where c: "blocksLoop (Config (Some table)) [] (splitBlocks (stdout ?p)) = Inr ([] @ cols)"
      "list_all2 (describes table)
         (filter (\<lambda>b. headerMatch b \<noteq> None) (splitBlocks (stdout ?p))) cols"
      using blocksLoop_describes by blast
    have "listCollections qmd (Config (Some table)) = Inr cols"
      using c(1) run_cli_ok [OF z] by (simp add: listCollections_def parseCollections_def)
    with c(2) show ?thesis by blast
  qed
  have b: "isl (listCollections qmd (Config (Some table)))" if nz: "exitCode ?p \<noteq> 0"
    using run_cli_fail [OF nz] by (simp add: listCollections_def)
  have c: "join [CHR 0x0A] (splitBlocks out) = out"
    by (simp add: splitBlocks_def join_splitAcc)
  have d: "\<forall>b \<in> set (tl (splitBlocks out)). b \<noteq> [] \<and> \<not> isWhiteSpace (hd b)"
    unfolding splitBlocks_def by (rule splitAcc_tl)
  have "cutFree (rev [] @ take 1 out)" by (cases out) simp_all
  then have e: "\<forall>b \<in> set (splitBlocks out). cutFree b"
    unfolding splitBlocks_def by (rule splitAcc_cutFree)
  have f: "headerMatch block \<noteq> None \<longleftrightarrow>
        (\<exists>name ws cap rest.
           name \<noteq> [] \<and> (\<forall>x \<in> set name. \<not> isWhiteSpace x)
           \<and> ws \<noteq> [] \<and> (\<forall>x \<in> set ws. isWhiteSpace x)
           \<and> cap \<noteq> [] \<and> (\<forall>x \<in> set cap. \<not> isWhiteSpace x)
           \<and> (block = name @ ws @ ''(qmd://'' @ cap @ '')'' @ rest
                \<or> block = name @ ws @ ''(qmd://'' @ cap @ ''/)'' @ rest))"
  proof
    assume "headerMatch block \<noteq> None"
    then obtain name cap where "headerMatch block = Some (name, cap)" by auto
    from headerMatch_shape [OF this] show "\<exists>name ws cap rest.
           name \<noteq> [] \<and> (\<forall>x \<in> set name. \<not> isWhiteSpace x)
           \<and> ws \<noteq> [] \<and> (\<forall>x \<in> set ws. isWhiteSpace x)
           \<and> cap \<noteq> [] \<and> (\<forall>x \<in> set cap. \<not> isWhiteSpace x)
           \<and> (block = name @ ws @ ''(qmd://'' @ cap @ '')'' @ rest
                \<or> block = name @ ws @ ''(qmd://'' @ cap @ ''/)'' @ rest)"
      by blast
  next
    assume "\<exists>name ws cap rest.
           name \<noteq> [] \<and> (\<forall>x \<in> set name. \<not> isWhiteSpace x)
           \<and> ws \<noteq> [] \<and> (\<forall>x \<in> set ws. isWhiteSpace x)
           \<and> cap \<noteq> [] \<and> (\<forall>x \<in> set cap. \<not> isWhiteSpace x)
           \<and> (block = name @ ws @ ''(qmd://'' @ cap @ '')'' @ rest
                \<or> block = name @ ws @ ''(qmd://'' @ cap @ ''/)'' @ rest)"
    then show "headerMatch block \<noteq> None"
      using headerMatch_complete by blast
  qed
  from a b c d e f show ?thesis by blast
qed

lemma listCollections_table_sample:
  "exitCode (sampleQmd [''collection'', ''list'']) = 0
   \<and> listCollections sampleQmd sampleConfig =
       Inr [\<lparr>col_name = ''docs'', col_uri = ''qmd://docs/'', col_path = ''/home/u/docs'',
              col_pattern = ''**/*.md'', col_files = 12, col_updated = ''2 days ago''\<rparr>,
            \<lparr>col_name = ''notes'', col_uri = ''qmd://notes/'', col_path = [],
              col_pattern = ''**/*.md'', col_files = 0, col_updated = ''unknown''\<rparr>]
   \<and> list_all2 (describes sampleTable)
        (filter (\<lambda>b. headerMatch b \<noteq> None) (splitBlocks sampleListOutput))
        [\<lparr>col_name = ''docs'', col_uri = ''qmd://docs/'', col_path = ''/home/u/docs'',
              col_pattern = ''**/*.md'', col_files = 12, col_updated = ''2 days ago''\<rparr>,
            \<lparr>col_name = ''notes'', col_uri = ''qmd://notes/'', col_path = [],
              col_pattern = ''**/*.md'', col_files = 0, col_updated = ''unknown''\<rparr>]
   \<and> length (splitBlocks sampleListOutput) = 3
   \<and> join [CHR 0x0A] (splitBlocks sampleListOutput) = sampleListOutput
   \<and> map (take 1) (tl (splitBlocks sampleListOutput)) = [''d'', ''n'']
   \<and> headerMatch ''notes (qmd://notes)'' \<noteq> None
   \<and> headerMatch ''Collections (2):'' = None
   \<and> exitCode (sampleQmd [''collection'', ''remove'', ''docs'']) \<noteq> 0
   \<and> isl (listCollections (\<lambda>args. sampleQmd [''collection'', ''remove'', ''docs'']) sampleConfig)"
proof -
  let ?bad = "\<lambda>args :: string list. sampleQmd [''collection'', ''remove'', ''docs'']"
  have z: "exitCode (sampleQmd [''collection'', ''list'']) = 0"
    by (simp add: sampleQmd_def)
  have o: "stdout (sampleQmd [''collection'', ''list'']) = sampleListOutput"
    by (simp add: sampleQmd_def)
  have nz: "exitCode (sampleQmd [''collection'', ''remove'', ''docs'']) \<noteq> 0"
    by (simp add: sampleQmd_def)
  have v: "listCollections sampleQmd sampleConfig =
       Inr [\<lparr>col_name = ''docs'', col_uri = ''qmd://docs/'', col_path = ''/home/u/docs'',
              col_pattern = ''**/*.md'', col_files = 12, col_updated = ''2 days ago''\<rparr>,
            \<lparr>col_name = ''notes'', col_uri = ''qmd://notes/'', col_path = [],
              col_pattern = ''**/*.md'', col_files = 0, col_updated = ''unknown''\<rparr>]"
    by code_simp
  have len: "length (splitBlocks sampleListOutput) = 3"
    by code_simp
  have h0: "headerMatch ''Collections (2):'' = None"
    by code_simp
  have shape: "\<exists>name ws cap rest.
           name \<noteq> [] \<and> (\<forall>x \<in> set name. \<not> isWhiteSpace x)
           \<and> ws \<noteq> [] \<and> (\<forall>x \<in> set ws. isWhiteSpace x)
           \<and> cap \<noteq> [] \<and> (\<forall>x \<in> set cap. \<not> isWhiteSpace x)
           \<and> (''notes (qmd://notes)'' = name @ ws @ ''(qmd://'' @ cap @ '')'' @ rest
                \<or> ''notes (qmd://notes)'' = name @ ws @ ''(qmd://'' @ cap @ ''/)'' @ rest)"
    by (intro exI [of _ "''notes''"] exI [of _ "'' ''"] exI [of _ "[]"])
       (simp add: isWhiteSpace_def)
  note th = listCollections_table [of sampleQmd sampleTable sampleListOutput "''notes (qmd://notes)''"]
  note tb = listCollections_table [of ?bad sampleTable "[]" "[]"]
  have a: "list_all2 (describes sampleTable)
        (filter (\<lambda>b. headerMatch b \<noteq> None) (splitBlocks sampleListOutput))
        [\<lparr>col_name = ''docs'', col_uri = ''qmd://docs/'', col_path = ''/home/u/docs'',
              col_pattern = ''**/*.md'', col_files = 12, col_updated = ''2 days ago''\<rparr>,
            \<lparr>col_name = ''notes'', col_uri = ''qmd://notes/'', col_path = [],
              col_pattern = ''**/*.md'', col_files = 0, col_updated = ''unknown''\<rparr>]"
    using th z o v unfolding sampleConfig_def by auto
  have b: "join [CHR 0x0A] (splitBlocks sampleListOutput) = sampleListOutput"
    using th by blast
  have c: "map (take 1) (tl (splitBlocks sampleListOutput)) = [''d'', ''n'']"
    by code_simp
  have d: "headerMatch ''notes (qmd://notes)'' \<noteq> None"
    using th shape by blast
  have e: "isl (listCollections ?bad sampleConfig)"
    unfolding sampleConfig_def using tb nz by blast
  from z v a len b c d h0 nz e show ?thesis by blast
qed

lemma matchers_sample:
  "patternMatch (''site (qmd://site/)'' @ [CHR 0x0A] @ ''  Pattern:   docs/*.txt '' @ [CHR 0x0A]
                 @ ''  Files: 7 of 9'' @ [CHR 0x0A] @ ''  Updated:'' @ [CHR 0x09] @ ''now'')
     = Some ''docs/*.txt ''
   \<and> filesMatch (''site (qmd://site/)'' @ [CHR 0x0A] @ ''  Pattern:   docs/*.txt '' @ [CHR 0x0A]
                 @ ''  Files: 7 of 9'' @ [CHR 0x0A] @ ''  Updated:'' @ [CHR 0x09] @ ''now'')
     = Some ''7''
   \<and> updatedMatch (''site (qmd://site/)'' @ [CHR 0x0A] @ ''  Pattern:   docs/*.txt '' @ [CHR 0x0A]
                 @ ''  Files: 7 of 9'' @ [CHR 0x0A] @ ''  Updated:'' @ [CHR 0x09] @ ''now'')
     = Some ''now''
   \<and> patternMatch ''Pattern:x'' = None
   \<and> filesMatch ''Files: many'' = None
   \<and> headerMatch ''site  (qmd://a/b/) x'' = Some (''site'', ''a/b'')
   \<and> blocksLoop sampleConfig []
        [''site (qmd://site/)'' @ [CHR 0x0A] @ ''  Pattern:   docs/*.txt '' @ [CHR 0x0A]
         @ ''  Files: 7 of 9'' @ [CHR 0x0A] @ ''  Updated:'' @ [CHR 0x09] @ ''now'']
     = Inr [\<lparr>col_name = ''site'', col_uri = ''qmd://site/'', col_path = [],
              col_pattern = ''docs/*.txt'', col_files = 7, col_updated = ''now''\<rparr>]"
  by code_simp

text \<open>
  C6 says that \<^verbatim>\<open>listCollections\<close> produces one record for each block whose header
  matches, with the empty string as the path when the configuration file has none. The
  code does so when the configuration file is missing (\<^verbatim>\<open>loadQmdConfig\<close> falls back to an
  empty table, and both sample collections are returned, with empty paths), but not when
  the file is there and empty, or has no \<^verbatim>\<open>collections\<close> table: the document is taken as
  the configuration unchecked, the subprocess exits with code 0 and prints two blocks with
  a header, and \<^verbatim>\<open>listCollections\<close> throws a \<^verbatim>\<open>TypeError\<close> at
  \<^verbatim>\<open>config.collections[name]\<close> instead of returning a record.
\<close>

theorem listCollections_empty_config:
  "exitCode (sampleQmd [''collection'', ''list'']) = 0
   \<and> map headerMatch (splitBlocks (stdout (sampleQmd [''collection'', ''list'']))) =
       [None, Some (''docs'', ''docs''), Some (''notes'', ''notes'')]
   \<and> loadQmdConfig emptyFile sampleYamlParse sampleConfigPath = NullConfig
   \<and> listCollections sampleQmd (loadQmdConfig emptyFile sampleYamlParse sampleConfigPath)
       = Inl nullAccess
   \<and> loadQmdConfig otherFile sampleYamlParse sampleConfigPath = Config None
   \<and> listCollections sampleQmd (loadQmdConfig otherFile sampleYamlParse sampleConfigPath)
       = Inl undefinedAccess
   \<and> loadQmdConfig missingFile sampleYamlParse sampleConfigPath = Config (Some Map.empty)
   \<and> listCollections sampleQmd (loadQmdConfig missingFile sampleYamlParse sampleConfigPath)
       = Inr [\<lparr>col_name = ''docs'', col_uri = ''qmd://docs/'', col_path = [],
                col_pattern = ''**/*.md'', col_files = 12, col_updated = ''2 days ago''\<rparr>,
              \<lparr>col_name = ''notes'', col_uri = ''qmd://notes/'', col_path = [],
                col_pattern = ''**/*.md'', col_files = 0, col_updated = ''unknown''\<rparr>]"
proof -
  have a: "exitCode (sampleQmd [''collection'', ''list'']) = 0"
    by (simp add: sampleQmd_def)
  have b: "map headerMatch (splitBlocks (stdout (sampleQmd [''collection'', ''list'']))) =
       [None, Some (''docs'', ''docs''), Some (''notes'', ''notes'')]"
    by code_simp
  have c: "loadQmdConfig emptyFile sampleYamlParse sampleConfigPath = NullConfig"
    by (simp add: loadQmdConfig_def emptyFile_def sampleYamlParse_def)
  have d: "listCollections sampleQmd NullConfig = Inl nullAccess"
    by code_simp
  have e: "loadQmdConfig otherFile sampleYamlParse sampleConfigPath = Config None"
    by (simp add: loadQmdConfig_def otherFile_def sampleYamlParse_def)
  have f: "listCollections sampleQmd (Config None) = Inl undefinedAccess"
    by code_simp
  have g: "loadQmdConfig missingFile sampleYamlParse sampleConfigPath = Config (Some Map.empty)"
    by (simp add: loadQmdConfig_def missingFile_def defaultConfig_def)
  have h: "listCollections sampleQmd (Config (Some Map.empty))
       = Inr [\<lparr>col_name = ''docs'', col_uri = ''qmd://docs/'', col_path = [],
                col_pattern = ''**/*.md'', col_files = 12, col_updated = ''2 days ago''\<rparr>,
              \<lparr>col_name = ''notes'', col_uri = ''qmd://notes/'', col_path = [],
                col_pattern = ''**/*.md'', col_files = 0, col_updated = ''unknown''\<rparr>]"
    by code_simp
  show ?thesis
    unfolding c e g using a b d f h by simp
qed


section \<open>Properties of the management forms\<close>

text \<open>
  C4. Submitting the add-collection form with a path or a name that is empty after trimming
  does not call \<^verbatim>\<open>onComplete\<close> and shows an error status; submitting the
  rename-collection form with a new name that is empty after trimming does not call
  \<^verbatim>\<open>onComplete\<close> (and shows an error status). A call of either callback carries the
  trimmed fields, which are then not empty.
\<close>

theorem submit_rejects_empty:
  "(trim (av_pathInput a) = [] \<or> trim (av_nameInput a) = [] \<longrightarrow>
      snd (snd (add_submit a focus)) = None
      \<and> av_statusText (fst (add_submit a focus)) =
          [fg errorColour (if trim (av_pathInput a) = [] then ''Path is required.'' else ''Name is required.'')])
   \<and> (trim (rv_newNameInput r) = [] \<longrightarrow>
      snd (rename_submit r) = None
      \<and> rv_statusText (fst (rename_submit r)) = [fg errorColour ''Name is required.''])
   \<and> (\<forall>path name pattern. snd (snd (add_submit a focus)) = Some (path, name, pattern) \<longrightarrow>
        path = trim (av_pathInput a) \<and> path \<noteq> [] \<and> name = trim (av_nameInput a) \<and> name \<noteq> []
        \<and> pattern \<noteq> [])
   \<and> (\<forall>oldName newName. snd (rename_submit r) = Some (oldName, newName) \<longrightarrow>
        newName = trim (rv_newNameInput r) \<and> newName \<noteq> [])"
  by (auto simp: add_submit_def rename_submit_def Let_def split: if_splits option.splits)

theorem submit_rejects_empty_witness:
  "snd (snd (add_submit \<lparr>av_pathInput = ''  '', av_nameInput = ''docs'', av_patternInput = [],
         av_statusText = [], av_focusedField = 0, av_completionVisible = False,
         av_completionOptions = [], av_completionDir = [], av_hasOnComplete = True\<rparr> (Some AddNameInput))) = None
   \<and> snd (rename_submit \<lparr>rv_currentCollection = None, rv_currentNameText = [],
         rv_newNameInput = '' '', rv_statusText = [], rv_hasOnComplete = True\<rparr>) = None
   \<and> snd (snd (add_submit \<lparr>av_pathInput = '' ~/notes'', av_nameInput = ''notes '', av_patternInput = [],
         av_statusText = [], av_focusedField = 0, av_completionVisible = False,
         av_completionOptions = [], av_completionDir = [], av_hasOnComplete = True\<rparr> (Some AddNameInput)))
       = Some (''~/notes'', ''notes'', ''**/*.md'')
   \<and> snd (rename_submit \<lparr>rv_currentCollection = Some sampleCollection, rv_currentNameText = [],
         rv_newNameInput = '' papers '', rv_statusText = [], rv_hasOnComplete = True\<rparr>)
       = Some (''docs'', ''papers'')"
proof -
  let ?a = "\<lparr>av_pathInput = ''  '', av_nameInput = ''docs'', av_patternInput = [],
         av_statusText = [], av_focusedField = 0, av_completionVisible = False,
         av_completionOptions = [], av_completionDir = [], av_hasOnComplete = True\<rparr>"
  let ?r = "\<lparr>rv_currentCollection = None, rv_currentNameText = [],
         rv_newNameInput = '' '', rv_statusText = [], rv_hasOnComplete = True\<rparr>"
  let ?b = "\<lparr>av_pathInput = '' ~/notes'', av_nameInput = ''notes '', av_patternInput = [],
         av_statusText = [], av_focusedField = 0, av_completionVisible = False,
         av_completionOptions = [], av_completionDir = [], av_hasOnComplete = True\<rparr>"
  let ?q = "\<lparr>rv_currentCollection = Some sampleCollection, rv_currentNameText = [],
         rv_newNameInput = '' papers '', rv_statusText = [], rv_hasOnComplete = True\<rparr>"
  have e1: "trim (av_pathInput ?a) = []" by (simp add: trim_def isWhiteSpace_def)
  have e2: "trim (rv_newNameInput ?r) = []" by (simp add: trim_def isWhiteSpace_def)
  have e3: "snd (snd (add_submit ?b (Some AddNameInput))) = Some (''~/notes'', ''notes'', ''**/*.md'')"
    by (simp add: add_submit_def trim_def isWhiteSpace_def Let_def)
  from submit_rejects_empty [of ?a "Some AddNameInput" ?r] e1 e2
  have "snd (snd (add_submit ?a (Some AddNameInput))) = None" "snd (rename_submit ?r) = None" by blast+
  moreover from submit_rejects_empty [of ?b "Some AddNameInput" ?r] e3
  have "''~/notes'' = trim (av_pathInput ?b)" by blast
  moreover have e4: "snd (rename_submit ?q) = Some (''docs'', ''papers'')"
    by (simp add: rename_submit_def trim_def isWhiteSpace_def Let_def sampleCollection_def)
  moreover from submit_rejects_empty [of ?b "Some AddNameInput" ?q] e4
  have "''papers'' = trim (rv_newNameInput ?q)" by blast
  ultimately show ?thesis using e3 by blast
qed


section \<open>Properties of the preview server\<close>

lemma fetch_version:
  "fetch env self ''/version'' =
     Inr \<lparr>rs_status = 200, rs_body = TextBody (showNat (app_previewVersion self)),
          rs_headers = [(''Cache-Control'', ''no-cache'')]\<rparr>"
  by (simp add: fetch_def)

lemma fetch_root:
  "\<exists>r. fetch env self ''/'' = Inr r
     \<and> (rs_status r = 200 \<or> rs_status r = 404 \<or> rs_status r = 500)
     \<and> (\<not> truthy (app_previewFilePath self) \<longrightarrow>
          r = \<lparr>rs_status = 404, rs_body = TextBody ''No file selected'', rs_headers = []\<rparr>)
     \<and> (\<forall>content. truthy (app_previewFilePath self)
            \<and> env_fileText env (the (app_previewFilePath self)) = Inr content \<longrightarrow>
          r = \<lparr>rs_status = 200,
               rs_body = TextBody (buildPreviewHtml (env_yamlParse env) (env_markedParse env)
                                     content (the (app_previewFilePath self))),
               rs_headers = [(''Content-Type'', ''text/html; charset=utf-8'')]\<rparr>)
     \<and> (\<forall>err. truthy (app_previewFilePath self)
            \<and> env_fileText env (the (app_previewFilePath self)) = Inl err \<longrightarrow>
          r = \<lparr>rs_status = 500, rs_body = TextBody (''Error: '' @ errString err),
               rs_headers = []\<rparr>)"
proof (cases "truthy (app_previewFilePath self)")
  case False
  then show ?thesis by (simp add: fetch_def)
next
  case True
  show ?thesis
  proof (cases "env_fileText env (the (app_previewFilePath self))")
    case (Inl err)
    with True show ?thesis by (simp add: fetch_def)
  next
    case (Inr content)
    with True show ?thesis by (simp add: fetch_def)
  qed
qed

lemma fetch_other:
  assumes "pathname \<noteq> ''/version''" "pathname \<noteq> ''/''"
  shows "fetch env self pathname =
     (if truthy (app_previewBaseDir self)
      then (case env_decodeURIComponent env pathname of
              Inl err \<Rightarrow> Inl err
            | Inr reqPath \<Rightarrow>
                if env_fileExists env (env_pathJoin env (the (app_previewBaseDir self)) reqPath)
                then Inr \<lparr>rs_status = 200,
                          rs_body = FileBody (env_pathJoin env (the (app_previewBaseDir self)) reqPath),
                          rs_headers = []\<rparr>
                else Inr notFound)
      else Inr notFound)"
  using assms by (simp add: fetch_def Let_def split: sum.splits)

text \<open>
  C3, as the code has it. The handler answers \<^verbatim>\<open>/version\<close> with the counter and
  \<^verbatim>\<open>/\<close> with the rendered document: 404 \<^verbatim>\<open>No file selected\<close> when no file is selected,
  500 with the text of the error when the file cannot be read, 200 with the page otherwise.
  For any other path there are four cases. Without a preview directory the answer is
  not-found. With one, the path is decoded and joined to the directory: when the decoding
  fails, the handler throws that error and gives no response of its own; when the joined
  path names an existing file, the answer is that file; otherwise it is not-found. Every
  response that is returned for another path is thus a file or not-found.
\<close>

theorem fetch_routes:
  "fetch env self ''/version'' =
     Inr \<lparr>rs_status = 200, rs_body = TextBody (showNat (app_previewVersion self)),
          rs_headers = [(''Cache-Control'', ''no-cache'')]\<rparr>
   \<and> (\<exists>r. fetch env self ''/'' = Inr r
        \<and> (rs_status r = 200 \<or> rs_status r = 404 \<or> rs_status r = 500)
        \<and> (\<not> truthy (app_previewFilePath self) \<longrightarrow>
             r = \<lparr>rs_status = 404, rs_body = TextBody ''No file selected'', rs_headers = []\<rparr>)
        \<and> (\<forall>content. truthy (app_previewFilePath self)
               \<and> env_fileText env (the (app_previewFilePath self)) = Inr content \<longrightarrow>
             r = \<lparr>rs_status = 200,
                  rs_body = TextBody (buildPreviewHtml (env_yamlParse env) (env_markedParse env)
                                        content (the (app_previewFilePath self))),
                  rs_headers = [(''Content-Type'', ''text/html; charset=utf-8'')]\<rparr>)
        \<and> (\<forall>err. truthy (app_previewFilePath self)
               \<and> env_fileText env (the (app_previewFilePath self)) = Inl err \<longrightarrow>
             r = \<lparr>rs_status = 500, rs_body = TextBody (''Error: '' @ errString err),
                  rs_headers = []\<rparr>))
   \<and> (pathname \<noteq> ''/version'' \<and> pathname \<noteq> ''/'' \<longrightarrow>
        (\<not> truthy (app_previewBaseDir self) \<longrightarrow> fetch env self pathname = Inr notFound)
        \<and> (\<forall>reqPath. truthy (app_previewBaseDir self)
               \<and> env_decodeURIComponent env pathname = Inr reqPath \<longrightarrow>
             fetch env self pathname =
               (if env_fileExists env (env_pathJoin env (the (app_previewBaseDir self)) reqPath)
                then Inr \<lparr>rs_status = 200,
                          rs_body = FileBody (env_pathJoin env (the (app_previewBaseDir self)) reqPath),
                          rs_headers = []\<rparr>
                else Inr notFound))
        \<and> (\<forall>err. truthy (app_previewBaseDir self)
               \<and> env_decodeURIComponent env pathname = Inl err \<longrightarrow>
             fetch env self pathname = Inl err)
        \<and> (\<forall>r. fetch env self pathname = Inr r \<longrightarrow>
             r = notFound
             \<or> (\<exists>reqPath. env_decodeURIComponent env pathname = Inr reqPath
                   \<and> truthy (app_previewBaseDir self)
                   \<and> env_fileExists env (env_pathJoin env (the (app_previewBaseDir self)) reqPath)
                   \<and> r = \<lparr>rs_status = 200,
                           rs_body = FileBody (env_pathJoin env (the (app_previewBaseDir self)) reqPath),
                           rs_headers = []\<rparr>)))"
proof -
  have "(\<not> truthy (app_previewBaseDir self) \<longrightarrow> fetch env self pathname = Inr notFound)
        \<and> (\<forall>reqPath. truthy (app_previewBaseDir self)
               \<and> env_decodeURIComponent env pathname = Inr reqPath \<longrightarrow>
             fetch env self pathname =
               (if env_fileExists env (env_pathJoin env (the (app_previewBaseDir self)) reqPath)
                then Inr \<lparr>rs_status = 200,
                          rs_body = FileBody (env_pathJoin env (the (app_previewBaseDir self)) reqPath),
                          rs_headers = []\<rparr>
                else Inr notFound))
        \<and> (\<forall>err. truthy (app_previewBaseDir self)
               \<and> env_decodeURIComponent env pathname = Inl err \<longrightarrow>
             fetch env self pathname = Inl err)
        \<and> (\<forall>r. fetch env self pathname = Inr r \<longrightarrow>
             r = notFound
             \<or> (\<exists>reqPath. env_decodeURIComponent env pathname = Inr reqPath
                   \<and> truthy (app_previewBaseDir self)
                   \<and> env_fileExists env (env_pathJoin env (the (app_previewBaseDir self)) reqPath)
                   \<and> r = \<lparr>rs_status = 200,
                           rs_body = FileBody (env_pathJoin env (the (app_previewBaseDir self)) reqPath),
                           rs_headers = []\<rparr>))"
    if "pathname \<noteq> ''/version''" "pathname \<noteq> ''/''"
    using fetch_other [OF that, of env self]
    by (cases "env_decodeURIComponent env pathname") (auto split: if_splits)
  then show ?thesis
    using fetch_version [of env self] fetch_root [of env self] by blast
qed

theorem fetch_routes_witness:
  "fetch sampleEnv samplePreview ''/missing.png'' = Inr notFound
   \<and> fetch sampleEnv sampleApp ''/pic.png'' = Inr notFound
   \<and> fetch sampleEnv samplePreview ''/version'' =
       Inr \<lparr>rs_status = 200, rs_body = TextBody (showNat 0),
            rs_headers = [(''Cache-Control'', ''no-cache'')]\<rparr>
   \<and> fetch sampleEnv sampleApp ''/'' =
       Inr \<lparr>rs_status = 404, rs_body = TextBody ''No file selected'', rs_headers = []\<rparr>
   \<and> fetch sampleEnv samplePreview ''/'' =
       Inr \<lparr>rs_status = 200,
            rs_body = TextBody (buildPreviewHtml (\<lambda>s. None) (\<lambda>s. s) ''# Hello'' ''/home/u/docs/a.md''),
            rs_headers = [(''Content-Type'', ''text/html; charset=utf-8'')]\<rparr>
   \<and> fetch (sampleEnv\<lparr>env_fileText := (\<lambda>p. Inl (Error ''ENOENT''))\<rparr>) samplePreview ''/'' =
       Inr \<lparr>rs_status = 500, rs_body = TextBody ''Error: Error: ENOENT'', rs_headers = []\<rparr>
   \<and> fetch (sampleEnv\<lparr>env_decodeURIComponent := (\<lambda>s. Inl (URIError ''URI malformed''))\<rparr>)
         samplePreview ''/%'' = Inl (URIError ''URI malformed'')"
proof -
  let ?gone = "sampleEnv\<lparr>env_fileText := (\<lambda>p. Inl (Error ''ENOENT''))\<rparr>"
  let ?bad = "sampleEnv\<lparr>env_decodeURIComponent := (\<lambda>s. Inl (URIError ''URI malformed''))\<rparr>"
  have t: "truthy (app_previewBaseDir samplePreview)" "\<not> truthy (app_previewBaseDir sampleApp)"
    "truthy (app_previewFilePath samplePreview)" "\<not> truthy (app_previewFilePath sampleApp)"
    by (simp_all add: truthy_def samplePreview_def sampleApp_def)
  have d: "env_decodeURIComponent sampleEnv ''/missing.png'' = Inr ''/missing.png''"
    "env_decodeURIComponent ?bad ''/%'' = Inl (URIError ''URI malformed'')"
    by (simp_all add: sampleEnv_def)
  have e: "\<not> env_fileExists sampleEnv
             (env_pathJoin sampleEnv (the (app_previewBaseDir samplePreview)) ''/missing.png'')"
    by (simp add: sampleEnv_def samplePreview_def sampleApp_def)
  have v: "app_previewVersion samplePreview = 0"
    by (simp add: samplePreview_def sampleApp_def)
  have f: "env_fileText sampleEnv (the (app_previewFilePath samplePreview)) = Inr ''# Hello''"
    "the (app_previewFilePath samplePreview) = ''/home/u/docs/a.md''"
    "env_yamlParse sampleEnv = (\<lambda>s. None)" "env_markedParse sampleEnv = (\<lambda>s. s)"
    by (simp_all add: sampleEnv_def samplePreview_def sampleApp_def)
  have n: "''/missing.png'' \<noteq> ''/version''" "''/missing.png'' \<noteq> ''/''"
    "''/pic.png'' \<noteq> ''/version''" "''/pic.png'' \<noteq> ''/''"
    "''/%'' \<noteq> ''/version''" "''/%'' \<noteq> ''/''" by simp_all
  from fetch_routes [of sampleEnv samplePreview "''/missing.png''"] t d e n
  have a: "fetch sampleEnv samplePreview ''/missing.png'' = Inr notFound" by simp
  from fetch_routes [of sampleEnv sampleApp "''/pic.png''"] t n
  have b: "fetch sampleEnv sampleApp ''/pic.png'' = Inr notFound" by simp
  from fetch_routes [of sampleEnv samplePreview "[]"] v
  have c: "fetch sampleEnv samplePreview ''/version'' =
       Inr \<lparr>rs_status = 200, rs_body = TextBody (showNat 0),
            rs_headers = [(''Cache-Control'', ''no-cache'')]\<rparr>" by simp
  from fetch_routes [of sampleEnv sampleApp "[]"] t
  have g: "fetch sampleEnv sampleApp ''/'' =
       Inr \<lparr>rs_status = 404, rs_body = TextBody ''No file selected'', rs_headers = []\<rparr>"
    by auto
  from fetch_routes [of sampleEnv samplePreview "[]"] t f
  have h: "fetch sampleEnv samplePreview ''/'' =
       Inr \<lparr>rs_status = 200,
            rs_body = TextBody (buildPreviewHtml (\<lambda>s. None) (\<lambda>s. s) ''# Hello'' ''/home/u/docs/a.md''),
            rs_headers = [(''Content-Type'', ''text/html; charset=utf-8'')]\<rparr>"
    by auto
  from fetch_routes [of ?bad samplePreview "''/%''"] t d n
  have k: "fetch ?bad samplePreview ''/%'' = Inl (URIError ''URI malformed'')" by simp
  have f5: "env_fileText ?gone (the (app_previewFilePath samplePreview)) = Inl (Error ''ENOENT'')"
    by simp
  from fetch_routes [of ?gone samplePreview "[]"] t f5
  have l: "fetch ?gone samplePreview ''/'' =
       Inr \<lparr>rs_status = 500, rs_body = TextBody ''Error: Error: ENOENT'', rs_headers = []\<rparr>"
    by (auto simp: errString_def)
  from a b c g h k l show ?thesis by blast
qed

text \<open>
  The claim as stated fails: with a preview open, a request for \<^verbatim>\<open>/pic.png\<close> is
  answered with the file \<^verbatim>\<open>pic.png\<close> of the document's directory, not with not-found.
\<close>

theorem fetch_other_path_counterexample:
  "fetch sampleEnv samplePreview ''/pic.png'' =
     Inr \<lparr>rs_status = 200, rs_body = FileBody ''/home/u/docs/pic.png'', rs_headers = []\<rparr>
   \<and> fetch sampleEnv samplePreview ''/pic.png'' \<noteq> Inr notFound"
  by (simp add: fetch_def sampleEnv_def samplePreview_def sampleApp_def truthy_def notFound_def)


section \<open>Properties of the watcher and its debounce timer\<close>

lemma watchCallback_other:
  "truthy filename \<Longrightarrow> filename \<noteq> Some (w_watchedName w) \<Longrightarrow> watchCallback w now filename app = app"
  by (simp add: watchCallback_def)

lemma watchCallback_matching:
  "filename = Some (w_watchedName w) \<or> \<not> truthy filename \<Longrightarrow>
   watchCallback w now filename app =
     app\<lparr>app_timers := (now + DEBOUNCE_MS) #
            (case app_debounce app of Some d \<Rightarrow> remove1 d (app_timers app) | None \<Rightarrow> app_timers app),
         app_debounce := Some (now + DEBOUNCE_MS)\<rparr>"
  by (auto simp: watchCallback_def Let_def)

lemma fireTimers_mono: "app_previewVersion app \<le> app_previewVersion (fireTimers now app)"
  by (simp add: fireTimers_def)

lemma watchCallback_version:
  "app_previewVersion (watchCallback w now filename app) = app_previewVersion app"
  by (simp add: watchCallback_def Let_def)

lemma deliver_mono: "app_previewVersion app \<le> app_previewVersion (deliver app ev)"
  using fireTimers_mono [of app "fst ev"]
  by (simp add: deliver_def Let_def watchCallback_version split: option.splits)

lemma runEvents_mono: "app_previewVersion app \<le> app_previewVersion (runEvents app evs)"
proof (induction evs arbitrary: app)
  case Nil
  then show ?case by (simp add: runEvents_def)
next
  case (Cons e es)
  have "app_previewVersion app \<le> app_previewVersion (deliver app e)" by (rule deliver_mono)
  also have "\<dots> \<le> app_previewVersion (runEvents (deliver app e) es)" by (rule Cons.IH)
  finally show ?case by (simp add: runEvents_def)
qed

lemma fireTimers_quiet:
  "quiet t app \<Longrightarrow> fireTimers t app = app"
  by (auto simp: quiet_def fireTimers_def)

lemma deliver_quiet:
  assumes "app_previewWatcher app = Some w" "quiet (fst e) app"
    and "snd e = Some (w_watchedName w) \<or> \<not> truthy (snd e)"
  shows "app_previewWatcher (deliver app e) = Some w
     \<and> app_timers (deliver app e) = [fst e + DEBOUNCE_MS]
     \<and> app_debounce (deliver app e) = Some (fst e + DEBOUNCE_MS)
     \<and> app_previewVersion (deliver app e) = app_previewVersion app"
proof -
  have "deliver app e = watchCallback w (fst e) (snd e) app"
    using assms(1) fireTimers_quiet [OF assms(2)] by (simp add: deliver_def Let_def)
  then show ?thesis
    using assms watchCallback_matching [OF assms(3), of "fst e" app]
    by (auto simp: quiet_def)
qed

lemma runEvents_burst:
  assumes "app_previewWatcher app = Some w" "quiet (fst e) app" "burst (e # es)"
    and "\<forall>x \<in> set (e # es). snd x = Some (w_watchedName w) \<or> \<not> truthy (snd x)"
  shows "app_timers (runEvents app (e # es)) = [fst (last (e # es)) + DEBOUNCE_MS]
     \<and> app_debounce (runEvents app (e # es)) = Some (fst (last (e # es)) + DEBOUNCE_MS)
     \<and> app_previewVersion (runEvents app (e # es)) = app_previewVersion app"
  using assms
proof (induction es arbitrary: e app)
  case Nil
  then show ?case using deliver_quiet [of app w e] by (simp add: runEvents_def)
next
  case (Cons e2 es)
  have m: "snd e = Some (w_watchedName w) \<or> \<not> truthy (snd e)" using Cons.prems(4) by simp
  note d = deliver_quiet [OF Cons.prems(1) Cons.prems(2) m]
  have q: "quiet (fst e2) (deliver app e)"
    using d Cons.prems(3) by (simp add: quiet_def)
  have b: "burst (e2 # es)" using Cons.prems(3) by simp
  have a: "\<forall>x \<in> set (e2 # es). snd x = Some (w_watchedName w) \<or> \<not> truthy (snd x)"
    using Cons.prems(4) by simp
  from Cons.IH [OF _ q b a] d
  have "app_timers (runEvents (deliver app e) (e2 # es)) = [fst (last (e2 # es)) + DEBOUNCE_MS]
     \<and> app_debounce (runEvents (deliver app e) (e2 # es)) = Some (fst (last (e2 # es)) + DEBOUNCE_MS)
     \<and> app_previewVersion (runEvents (deliver app e) (e2 # es)) = app_previewVersion app"
    by simp
  then show ?case by (simp add: runEvents_def)
qed

lemma fireTimers_due:
  "app_timers app = [d] \<Longrightarrow> d \<le> T \<Longrightarrow>
   app_previewVersion (fireTimers T app) = app_previewVersion app + 1 \<and> app_timers (fireTimers T app) = []"
  by (simp add: fireTimers_def)

text \<open>
  C1, as the code has it. While a preview is open, an event whose file name is a non-empty
  string other than the base name of the watched file changes nothing. An event with that
  name, with no name (\<^verbatim>\<open>null\<close>) or with the empty name clears the pending timeout and
  sets a new one: a burst of such events, each less than 100 ms after the one before, leaves
  the version counter as it is while it lasts and increments it exactly once, 100 ms after
  its last event. The counter never decreases, and \<^verbatim>\<open>/version\<close> returns its current
  value.
\<close>

theorem debounce_increments_once:
  "(truthy filename \<and> filename \<noteq> Some (w_watchedName w) \<longrightarrow>
      watchCallback w now filename app = app)
   \<and> (app_previewWatcher app = Some w \<and> truthy filename \<and> filename \<noteq> Some (w_watchedName w) \<longrightarrow>
      deliver app (now, filename) = fireTimers now app)
   \<and> (app_previewWatcher app = Some w \<and> app_timers app = [] \<and> app_debounce app = None
      \<and> evs \<noteq> [] \<and> burst evs
      \<and> (\<forall>e \<in> set evs. snd e = Some (w_watchedName w) \<or> \<not> truthy (snd e)) \<longrightarrow>
        app_previewVersion (runEvents app evs) = app_previewVersion app
        \<and> (\<forall>T. fst (last evs) + DEBOUNCE_MS \<le> T \<longrightarrow>
              app_previewVersion (fireTimers T (runEvents app evs)) = app_previewVersion app + 1
              \<and> app_timers (fireTimers T (runEvents app evs)) = []))
   \<and> app_previewVersion app \<le> app_previewVersion (runEvents app evs')
   \<and> app_previewVersion app \<le> app_previewVersion (fireTimers now app)
   \<and> fetch env app ''/version'' =
       Inr \<lparr>rs_status = 200, rs_body = TextBody (showNat (app_previewVersion app)),
            rs_headers = [(''Cache-Control'', ''no-cache'')]\<rparr>"
proof -
  have a: "watchCallback w now filename app = app"
    if "truthy filename" "filename \<noteq> Some (w_watchedName w)"
    using that by (rule watchCallback_other)
  have b: "deliver app (now, filename) = fireTimers now app"
    if "app_previewWatcher app = Some w" "truthy filename" "filename \<noteq> Some (w_watchedName w)"
  proof -
    have "app_previewWatcher (fireTimers now app) = Some w"
      using that(1) by (simp add: fireTimers_def)
    then show ?thesis
      using watchCallback_other [OF that(2,3), of now "fireTimers now app"]
      by (simp add: deliver_def Let_def)
  qed
  have c: "app_previewVersion (runEvents app evs) = app_previewVersion app
        \<and> (\<forall>T. fst (last evs) + DEBOUNCE_MS \<le> T \<longrightarrow>
              app_previewVersion (fireTimers T (runEvents app evs)) = app_previewVersion app + 1
              \<and> app_timers (fireTimers T (runEvents app evs)) = [])"
    if w: "app_previewWatcher app = Some w" and i: "app_timers app = []" "app_debounce app = None"
      and ne: "evs \<noteq> []" and bu: "burst evs"
      and al: "\<forall>e \<in> set evs. snd e = Some (w_watchedName w) \<or> \<not> truthy (snd e)"
  proof -
    obtain e es where evs: "evs = e # es" using ne by (cases evs) auto
    have q: "quiet (fst e) app" using i by (simp add: quiet_def)
    note r = runEvents_burst [OF w q bu [unfolded evs] al [unfolded evs]]
    show ?thesis
      unfolding evs using r fireTimers_due [of "runEvents app (e # es)" "fst (last (e # es)) + DEBOUNCE_MS"]
      by simp
  qed
  from a b c runEvents_mono [of app evs'] fireTimers_mono [of app now] fetch_version [of env app]
  show ?thesis by blast
qed

theorem debounce_increments_once_witness:
  "app_previewVersion (runEvents samplePreview [(0, Some ''a.md''), (50, Some ''a.md''), (120, None)]) = 0
   \<and> app_previewVersion
        (fireTimers 220 (runEvents samplePreview [(0, Some ''a.md''), (50, Some ''a.md''), (120, None)])) = 1
   \<and> watchCallback sampleWatcher 7 (Some ''b.md'') samplePreview = samplePreview
   \<and> deliver samplePreview (7, Some ''b.md'') = fireTimers 7 samplePreview
   \<and> app_timers (fireTimers 220
        (runEvents samplePreview [(0, Some ''a.md''), (50, Some ''a.md''), (120, None)])) = []"
proof -
  let ?evs = "[(0, Some ''a.md''), (50, Some ''a.md''), (120, None)] :: (nat \<times> string option) list"
  have w: "app_previewWatcher samplePreview = Some sampleWatcher"
    "app_timers samplePreview = []" "app_debounce samplePreview = None"
    "app_previewVersion samplePreview = 0"
    by (simp_all add: samplePreview_def sampleApp_def)
  have n: "w_watchedName sampleWatcher = ''a.md''" by (simp add: sampleWatcher_def)
  have b: "burst ?evs" by (simp add: DEBOUNCE_MS_def)
  have m: "\<forall>e \<in> set ?evs. snd e = Some (w_watchedName sampleWatcher) \<or> \<not> truthy (snd e)"
    by (simp add: n truthy_def)
  have o: "truthy (Some ''b.md'')" "Some ''b.md'' \<noteq> Some (w_watchedName sampleWatcher)"
    by (simp_all add: n truthy_def)
  have l: "fst (last ?evs) + DEBOUNCE_MS \<le> 220" by (simp add: DEBOUNCE_MS_def)
  from debounce_increments_once [of "Some ''b.md''" sampleWatcher 7 samplePreview ?evs "[]" sampleEnv]
    w b m o l
  show ?thesis by simp
qed

text \<open>
  The claim as stated fails: an event with the empty file name, or with no file name, has a
  name that differs from the base name \<^verbatim>\<open>a.md\<close> of the watched file, yet it sets the
  timeout, and the counter is incremented 100 ms later.
\<close>

theorem other_filename_counterexample:
  "Some [] \<noteq> Some (w_watchedName sampleWatcher)
   \<and> app_previewVersion (fireTimers 100 (deliver samplePreview (0, Some []))) =
       app_previewVersion samplePreview + 1
   \<and> None \<noteq> Some (w_watchedName sampleWatcher)
   \<and> app_previewVersion (fireTimers 100 (deliver samplePreview (0, None))) =
       app_previewVersion samplePreview + 1"
  by (simp add: deliver_def fireTimers_def watchCallback_def truthy_def Let_def DEBOUNCE_MS_def
        samplePreview_def sampleApp_def sampleWatcher_def)


section \<open>Properties of quitting and of leaving the document view\<close>

lemma stopPreview_watcher: "app_previewWatcher (stopPreview app) = None"
  by (simp add: stopPreview_def split: option.splits)

lemma stopPreview_noop: "app_previewWatcher app = None \<Longrightarrow> stopPreview app = app"
  by (simp add: stopPreview_def)

lemma stopPreview_closes:
  "app_previewWatcher app = Some w \<Longrightarrow>
   app_effects (stopPreview app) = WatcherClosed w # app_effects app"
  by (simp add: stopPreview_def)

lemma stopPreview_server: "app_previewServer (stopPreview app) = app_previewServer app"
  by (simp add: stopPreview_def split: option.splits)

lemma cleanup_nulls:
  "app_previewWatcher (cleanup app) = None \<and> app_previewServer (cleanup app) = None"
  by (simp add: cleanup_def Let_def stopPreview_watcher split: option.splits)

lemma cleanup_noop:
  "app_previewWatcher app = None \<Longrightarrow> app_previewServer app = None \<Longrightarrow> cleanup app = app"
  by (simp add: cleanup_def stopPreview_noop)

lemma cleanup_effects:
  "app_previewWatcher app = Some w \<Longrightarrow> app_previewServer app = Some port \<Longrightarrow>
   app_effects (cleanup app) = ServerStopped port # WatcherClosed w # app_effects app"
  by (simp add: cleanup_def Let_def stopPreview_def)

lemma keypress_quit:
  assumes "key_name key = ''q''" "\<not> key_ctrl key" "\<not> key_meta key"
    and "\<not> (app_state app = Search \<and> app_focus app = Some SearchInput)"
    and "\<not> isManagement (app_state app)"
  shows "keypress key app =
     ((cleanup app)\<lparr>app_effects := RendererDestroyed # app_effects (cleanup app)\<rparr>, [], True)"
  using assms by (simp add: keypress_def Let_def)

lemma switchMainView_watcher:
  "app_previewWatcher (switchMainView target app) = app_previewWatcher app"
  by (simp add: switchMainView_def Let_def split: AppState.splits)

lemma leaveDocument_stops: "app_previewWatcher (leaveDocument app) = None"
  by (simp add: leaveDocument_def Let_def switchMainView_watcher stopPreview_watcher)

lemma keypress_escape_document:
  "app_state app = Document \<Longrightarrow> key_name key = ''escape'' \<Longrightarrow>
   keypress key app = (leaveDocument app, [], True)"
  by (simp add: keypress_def isManagement_def handleEscape_def)

text \<open>
  On the quit key the watcher is closed and the server stopped, and both fields are
  \<^verbatim>\<open>null\<close> afterwards; with both \<^verbatim>\<open>null\<close> before, nothing is closed. Leaving the
  document view with the escape key stops the watcher.
\<close>

lemma quit_closes_preview:
  assumes "key_name key = ''q''" "\<not> key_ctrl key" "\<not> key_meta key"
    and "\<not> (app_state app = Search \<and> app_focus app = Some SearchInput)"
    and "\<not> isManagement (app_state app)"
  shows "app_previewWatcher (fst (keypress key app)) = None
     \<and> app_previewServer (fst (keypress key app)) = None
     \<and> (\<forall>w. app_previewWatcher app = Some w \<longrightarrow> WatcherClosed w \<in> set (app_effects (fst (keypress key app))))
     \<and> (\<forall>p. app_previewServer app = Some p \<longrightarrow> ServerStopped p \<in> set (app_effects (fst (keypress key app))))
     \<and> (app_previewWatcher app = None \<and> app_previewServer app = None \<longrightarrow>
          app_effects (fst (keypress key app)) = RendererDestroyed # app_effects app)"
proof -
  have k: "fst (keypress key app) =
      (cleanup app)\<lparr>app_effects := RendererDestroyed # app_effects (cleanup app)\<rparr>"
    using keypress_quit [OF assms] by simp
  have "WatcherClosed w \<in> set (app_effects (cleanup app))" if "app_previewWatcher app = Some w" for w
    using that by (simp add: cleanup_def Let_def stopPreview_def split: option.splits)
  moreover have "ServerStopped p \<in> set (app_effects (cleanup app))" if "app_previewServer app = Some p" for p
    using that by (simp add: cleanup_def Let_def stopPreview_def split: option.splits)
  ultimately show ?thesis
    unfolding k using cleanup_nulls [of app] cleanup_noop [of app] by auto
qed

text \<open>
  C7 at the failing input. A document is shown and its preview is open. The search key
  leaves the document view for the search view, and the watcher is neither closed nor
  forgotten: the claim that the watcher is stopped whenever the document view is left
  does not hold of the code, which stops it only on the way through
  \<^verbatim>\<open>leaveDocument\<close>.
\<close>

theorem search_key_keeps_watcher:
  "app_state samplePreview = Document
   \<and> app_previewWatcher samplePreview = Some sampleWatcher
   \<and> app_state (fst (keypress \<lparr>key_name = ''/'', key_ctrl = False, key_meta = False\<rparr> samplePreview)) = Search
   \<and> app_mainContent (fst (keypress \<lparr>key_name = ''/'', key_ctrl = False, key_meta = False\<rparr> samplePreview)) = Search
   \<and> app_previewWatcher (fst (keypress \<lparr>key_name = ''/'', key_ctrl = False, key_meta = False\<rparr> samplePreview))
       = Some sampleWatcher
   \<and> app_effects (fst (keypress \<lparr>key_name = ''/'', key_ctrl = False, key_meta = False\<rparr> samplePreview)) = []"
  by (simp add: keypress_def isManagement_def enterSearch_def switchMainView_def Let_def
        samplePreview_def sampleApp_def)


section \<open>Properties of the error handling of the callbacks\<close>

lemma failureShownI:
  "t \<in> set (screenTexts app) \<Longrightarrow> contains t (errString err) \<Longrightarrow> failureShown app err"
  unfolding failureShown_def by blast

lemma styledString_status:
  "styledString (statusContent message err) = message"
  by (simp add: styledString_def statusContent_def fg_def)

lemma refreshCollections_error:
  "listCollections (env_qmd env) (env_config env) = Inl err \<Longrightarrow> refreshCollections env app = Inl err"
  by (simp add: refreshCollections_def)

lemma addOnComplete_isr: "\<exists>app'. addOnComplete env path name pattern app = Inr app'"
  by (simp add: addOnComplete_def Let_def split: sum.splits)

lemma addOnComplete_error:
  assumes "addCollection env path name (maskOf pattern) = Inl err
     \<or> (addCollection env path name (maskOf pattern) = Inr ()
        \<and> listCollections (env_qmd env) (env_config env) = Inl err)"
  shows "addOnComplete env path name pattern app =
     Inr (app\<lparr>app_addView := add_showStatus (app_addView app) (''Error: '' @ errString err) True\<rparr>)"
  using assms
  by (auto simp: addOnComplete_def Let_def refreshCollections_error add_showStatus_def)

lemma add_error_shown:
  "failureShown (app\<lparr>app_addView := add_showStatus (app_addView app) (''Error: '' @ errString err) True\<rparr>) err"
proof (rule failureShownI)
  show "''Error: '' @ errString err \<in> set (screenTexts
        (app\<lparr>app_addView := add_showStatus (app_addView app) (''Error: '' @ errString err) True\<rparr>))"
    by (simp add: screenTexts_def add_showStatus_def styledString_status)
  show "contains (''Error: '' @ errString err) (errString err)" by (rule contains_suffix)
qed

lemma renameOnComplete_isr: "\<exists>app'. renameOnComplete env oldName newName app = Inr app'"
  by (simp add: renameOnComplete_def Let_def split: sum.splits)

lemma renameOnComplete_error:
  assumes "renameCollection env oldName newName = Inl err
     \<or> (renameCollection env oldName newName = Inr ()
        \<and> listCollections (env_qmd env) (env_config env) = Inl err)"
  shows "renameOnComplete env oldName newName app =
     Inr (app\<lparr>app_renameView := rename_showStatus (app_renameView app) (''Error: '' @ errString err) True\<rparr>)"
  using assms
  by (auto simp: renameOnComplete_def Let_def refreshCollections_error rename_showStatus_def)

lemma rename_error_shown:
  "failureShown (app\<lparr>app_renameView := rename_showStatus (app_renameView app) (''Error: '' @ errString err) True\<rparr>) err"
proof (rule failureShownI)
  show "''Error: '' @ errString err \<in> set (screenTexts
        (app\<lparr>app_renameView := rename_showStatus (app_renameView app) (''Error: '' @ errString err) True\<rparr>))"
    by (simp add: screenTexts_def rename_showStatus_def styledString_status)
  show "contains (''Error: '' @ errString err) (errString err)" by (rule contains_suffix)
qed

lemma deleteOnConfirm_isr: "\<exists>app'. deleteOnConfirm env name app = Inr app'"
  by (simp add: deleteOnConfirm_def split: sum.splits)

lemma deleteOnConfirm_error:
  assumes "removeCollection env name = Inl err
     \<or> (removeCollection env name = Inr ()
        \<and> listCollections (env_qmd env) (env_config env) = Inl err)"
  shows "deleteOnConfirm env name app = Inr app"
  using assms
  by (auto simp: deleteOnConfirm_def refreshCollections_error)

lemma showDocument_isr: "\<exists>app'. showDocument env file title app = Inr app'"
  by (simp add: showDocument_def document_load_def Let_def split: sum.splits)

lemma document_load_error:
  "getDocument qmd file = Inl err \<Longrightarrow>
   \<exists>dv. document_load qmd yamlParse v file title = Inr dv
     \<and> doc_contentMarkdown dv = ''**Error:** '' @ errString err
     \<and> doc_currentTitle dv = Some title"
  by (simp add: document_load_def Let_def)

lemma showDocument_error:
  assumes "getDocument (env_qmd env) file = Inl err"
  shows "\<exists>app'. showDocument env file title app = Inr app'
     \<and> doc_contentMarkdown (app_documentView app') = ''**Error:** '' @ errString err
     \<and> failureShown app' err"
proof -
  let ?app1 = "(switchMainView Document app)
                   \<lparr>app_state := Document, app_title := title, app_focus := Some DocumentContainer\<rparr>"
  obtain dv where dv: "document_load (env_qmd env) (env_yamlParse env) (app_documentView ?app1) file title = Inr dv"
    "doc_contentMarkdown dv = ''**Error:** '' @ errString err" "doc_currentTitle dv = Some title"
    using document_load_error [OF assms] by blast
  have s: "showDocument env file title app = Inr (?app1\<lparr>app_documentView := dv\<rparr>)"
    using dv by (simp add: showDocument_def Let_def)
  have "failureShown (?app1\<lparr>app_documentView := dv\<rparr>) err"
  proof (rule failureShownI)
    show "''**Error:** '' @ errString err \<in> set (screenTexts (?app1\<lparr>app_documentView := dv\<rparr>))"
      using dv(2) by (simp add: screenTexts_def)
    show "contains (''**Error:** '' @ errString err) (errString err)" by (rule contains_suffix)
  qed
  with s dv(2) show ?thesis by simp
qed

lemma searchOnEnter_isr:
  "search_mode (app_searchView app) = ModeSearch \<or> \<not> isl (status (env_qmd env)) \<Longrightarrow>
   \<exists>app'. searchOnEnter env query app = Inr app'"
  by (auto simp: searchOnEnter_def performSearch_def isl_def split: sum.splits)

lemma searching_error:
  "searchByMode qmd jsonParse (search_mode v) query
      \<lparr>opt_limit = None, opt_collection = sv_selectedCollection v\<rparr> = Inl err \<Longrightarrow>
   sv_statusText (searching qmd jsonParse percent v query) = [fg errorColour (''Error: '' @ errString err)]"
  by (simp add: searching_def Let_def)

lemma searchOnEnter_error:
  assumes "trim query \<noteq> []"
    and "search_mode (app_searchView app) = ModeSearch
         \<or> (\<exists>st. status (env_qmd env) = Inr st \<and> \<not> embeddingsMissing st)"
    and "searchByMode (env_qmd env) (env_jsonParse env) (search_mode (app_searchView app)) query
           \<lparr>opt_limit = None, opt_collection = sv_selectedCollection (app_searchView app)\<rparr> = Inl err"
  shows "\<exists>app'. searchOnEnter env query app = Inr app'
     \<and> sv_statusText (app_searchView app') = [fg errorColour (''Error: '' @ errString err)]
     \<and> failureShown app' err"
proof -
  let ?sv = "searching (env_qmd env) (env_jsonParse env) (env_percent env) (app_searchView app) query"
  have p: "performSearch (env_qmd env) (env_jsonParse env) (env_percent env) (app_searchView app) query
             = Inr ?sv"
    using assms(1,2) by (auto simp: performSearch_def)
  have st: "sv_statusText ?sv = [fg errorColour (''Error: '' @ errString err)]"
    using searching_error [OF assms(3)] .
  have "failureShown (app\<lparr>app_searchView := ?sv\<rparr>) err"
  proof (rule failureShownI)
    show "''Error: '' @ errString err \<in> set (screenTexts (app\<lparr>app_searchView := ?sv\<rparr>))"
      using st by (simp add: screenTexts_def styledString_def fg_def)
    show "contains (''Error: '' @ errString err) (errString err)" by (rule contains_suffix)
  qed
  with p st show ?thesis by (simp add: searchOnEnter_def)
qed

text \<open>
  C2, as the code has it. The callbacks for adding, renaming and deleting a collection and
  the loading of a document never let an error out. When the subprocess (or the refresh of
  the collection list after it) fails, adding and renaming show \<^verbatim>\<open>Error: ...\<close> with the
  error in their status line, and loading a document shows it in the document panel.
  Deleting catches the error and changes nothing: no message is shown. A search whose
  subprocess fails shows the error in its status line; this covers the search itself, in
  every mode, not the embedding check that the vector and query modes make before it.
\<close>

theorem callbacks_catch_errors:
  "(\<exists>app'. addOnComplete env path name pattern app = Inr app')
   \<and> (addCollection env path name (maskOf pattern) = Inl err
        \<or> (addCollection env path name (maskOf pattern) = Inr ()
           \<and> listCollections (env_qmd env) (env_config env) = Inl err) \<longrightarrow>
      (\<exists>app'. addOnComplete env path name pattern app = Inr app'
         \<and> av_statusText (app_addView app') = [fg errorColour (''Error: '' @ errString err)]
         \<and> failureShown app' err))
   \<and> (\<exists>app'. renameOnComplete env oldName newName app = Inr app')
   \<and> (renameCollection env oldName newName = Inl err
        \<or> (renameCollection env oldName newName = Inr ()
           \<and> listCollections (env_qmd env) (env_config env) = Inl err) \<longrightarrow>
      (\<exists>app'. renameOnComplete env oldName newName app = Inr app'
         \<and> rv_statusText (app_renameView app') = [fg errorColour (''Error: '' @ errString err)]
         \<and> failureShown app' err))
   \<and> (\<exists>app'. deleteOnConfirm env name app = Inr app')
   \<and> (removeCollection env name = Inl err
        \<or> (removeCollection env name = Inr ()
           \<and> listCollections (env_qmd env) (env_config env) = Inl err) \<longrightarrow>
      deleteOnConfirm env name app = Inr app)
   \<and> (\<exists>app'. showDocument env docFile title app = Inr app')
   \<and> (getDocument (env_qmd env) docFile = Inl err \<longrightarrow>
      (\<exists>app'. showDocument env docFile title app = Inr app'
         \<and> doc_contentMarkdown (app_documentView app') = ''**Error:** '' @ errString err
         \<and> failureShown app' err))
   \<and> (search_mode (app_searchView app) = ModeSearch \<or> \<not> isl (status (env_qmd env)) \<longrightarrow>
      (\<exists>app'. searchOnEnter env query app = Inr app'))
   \<and> (trim query \<noteq> []
      \<and> (search_mode (app_searchView app) = ModeSearch
         \<or> (\<exists>st. status (env_qmd env) = Inr st \<and> \<not> embeddingsMissing st))
      \<and> searchByMode (env_qmd env) (env_jsonParse env) (search_mode (app_searchView app)) query
           \<lparr>opt_limit = None, opt_collection = sv_selectedCollection (app_searchView app)\<rparr> = Inl err \<longrightarrow>
      (\<exists>app'. searchOnEnter env query app = Inr app'
         \<and> sv_statusText (app_searchView app') = [fg errorColour (''Error: '' @ errString err)]
         \<and> failureShown app' err))"
proof -
  have a: "\<exists>app'. addOnComplete env path name pattern app = Inr app'
         \<and> av_statusText (app_addView app') = [fg errorColour (''Error: '' @ errString err)]
         \<and> failureShown app' err"
    if "addCollection env path name (maskOf pattern) = Inl err
        \<or> (addCollection env path name (maskOf pattern) = Inr ()
           \<and> listCollections (env_qmd env) (env_config env) = Inl err)"
    using addOnComplete_error [OF that, of app] add_error_shown [of app err]
    by (simp add: add_showStatus_def statusContent_def)
  have r: "\<exists>app'. renameOnComplete env oldName newName app = Inr app'
         \<and> rv_statusText (app_renameView app') = [fg errorColour (''Error: '' @ errString err)]
         \<and> failureShown app' err"
    if "renameCollection env oldName newName = Inl err
        \<or> (renameCollection env oldName newName = Inr ()
           \<and> listCollections (env_qmd env) (env_config env) = Inl err)"
    using renameOnComplete_error [OF that, of app] rename_error_shown [of app err]
    by (simp add: rename_showStatus_def statusContent_def)
  have d: "deleteOnConfirm env name app = Inr app"
    if "removeCollection env name = Inl err
        \<or> (removeCollection env name = Inr ()
           \<and> listCollections (env_qmd env) (env_config env) = Inl err)"
    using that by (rule deleteOnConfirm_error)
  have l: "\<exists>app'. showDocument env docFile title app = Inr app'
         \<and> doc_contentMarkdown (app_documentView app') = ''**Error:** '' @ errString err
         \<and> failureShown app' err"
    if "getDocument (env_qmd env) docFile = Inl err"
    using that by (rule showDocument_error)
  have s: "\<exists>app'. searchOnEnter env query app = Inr app'
         \<and> sv_statusText (app_searchView app') = [fg errorColour (''Error: '' @ errString err)]
         \<and> failureShown app' err"
    if "trim query \<noteq> []"
      "search_mode (app_searchView app) = ModeSearch
         \<or> (\<exists>st. status (env_qmd env) = Inr st \<and> \<not> embeddingsMissing st)"
      "searchByMode (env_qmd env) (env_jsonParse env) (search_mode (app_searchView app)) query
           \<lparr>opt_limit = None, opt_collection = sv_selectedCollection (app_searchView app)\<rparr> = Inl err"
    using that by (rule searchOnEnter_error)
  have si: "\<exists>app'. searchOnEnter env query app = Inr app'"
    if "search_mode (app_searchView app) = ModeSearch \<or> \<not> isl (status (env_qmd env))"
    using that by (rule searchOnEnter_isr)
  show ?thesis
    apply (intro conjI impI)
             apply (rule addOnComplete_isr)
            apply (erule a)
           apply (rule renameOnComplete_isr)
          apply (erule r)
         apply (rule deleteOnConfirm_isr)
        apply (erule d)
       apply (rule showDocument_isr)
      apply (erule l)
     apply (erule si)
    apply (elim conjE)
    apply (rule s; assumption)
    done
qed

theorem callbacks_catch_errors_witness:
  "addCollection sampleEnv ''~/notes'' ''notes'' (maskOf ''**/*.md'') = Inl (Error ''boom'')
   \<and> (\<exists>app'. addOnComplete sampleEnv ''~/notes'' ''notes'' ''**/*.md'' sampleApp = Inr app'
        \<and> av_statusText (app_addView app') = [fg errorColour ''Error: Error: boom''])
   \<and> removeCollection sampleEnv ''docs'' = Inl (Error ''boom'')
   \<and> deleteOnConfirm sampleEnv ''docs'' sampleApp = Inr sampleApp
   \<and> getDocument (env_qmd sampleEnv) ''qmd://docs/a.md''
       = Inl (Error (''qmd get qmd://docs/a.md failed ('' @ String_int 1 @ ''): boom'' @ [CHR 0x0A]))
   \<and> (\<exists>app'. showDocument sampleEnv ''qmd://docs/a.md'' ''a.md'' sampleApp = Inr app'
        \<and> doc_contentMarkdown (app_documentView app') =
            ''**Error:** Error: qmd get qmd://docs/a.md failed ('' @ String_int 1 @ ''): boom'' @ [CHR 0x0A])
   \<and> renameCollection sampleEnv ''docs'' ''papers'' = Inl (Error ''boom'')
   \<and> (\<exists>app'. renameOnComplete sampleEnv ''docs'' ''papers'' sampleApp = Inr app'
        \<and> rv_statusText (app_renameView app') = [fg errorColour ''Error: Error: boom''])
   \<and> (\<exists>err app'.
        searchByMode (env_qmd sampleEnv) (env_jsonParse sampleEnv) (search_mode (app_searchView sampleApp))
          ''cats'' \<lparr>opt_limit = None, opt_collection = sv_selectedCollection (app_searchView sampleApp)\<rparr>
          = Inl err
        \<and> searchOnEnter sampleEnv ''cats'' sampleApp = Inr app'
        \<and> sv_statusText (app_searchView app') = [fg errorColour (''Error: '' @ errString err)])"
proof -
  have t: "trim (''boom'' @ [CHR 0x0A]) = ''boom''" by (simp add: trim_def isWhiteSpace_def)
  have r: "removeCollection sampleEnv ''docs'' = Inl (Error ''boom'')"
    using t by (simp add: removeCollection_def sampleEnv_def sampleQmd_def run_cli_def)
  have a: "addCollection sampleEnv ''~/notes'' ''notes'' (maskOf ''**/*.md'') = Inl (Error ''boom'')"
    using t by (simp add: addCollection_def maskOf_def truthy_def expandHome_def startsWith_def
        sampleEnv_def sampleQmd_def run_cli_def)
  have g: "getDocument (env_qmd sampleEnv) ''qmd://docs/a.md''
       = Inl (Error (''qmd get qmd://docs/a.md failed ('' @ String_int 1 @ ''): boom'' @ [CHR 0x0A]))"
    by (simp add: getDocument_def sampleEnv_def sampleQmd_def run_mcp_def)
  note th = callbacks_catch_errors [where env = sampleEnv and path = "''~/notes''" and pattern = "''**/*.md''"
      and app = sampleApp and oldName = "[]" and newName = "[]" and docFile = "''qmd://docs/a.md''"
      and title = "''a.md''" and query = "[]"]
  have "\<exists>app'. addOnComplete sampleEnv ''~/notes'' ''notes'' ''**/*.md'' sampleApp = Inr app'
        \<and> av_statusText (app_addView app') = [fg errorColour (''Error: '' @ errString (Error ''boom''))]
        \<and> failureShown app' (Error ''boom'')"
    using th [where name = "''notes''" and err = "Error ''boom''"] a by blast
  then have 1: "\<exists>app'. addOnComplete sampleEnv ''~/notes'' ''notes'' ''**/*.md'' sampleApp = Inr app'
        \<and> av_statusText (app_addView app') = [fg errorColour ''Error: Error: boom'']"
    by (auto simp: errString_def)
  have 2: "deleteOnConfirm sampleEnv ''docs'' sampleApp = Inr sampleApp"
    using th [where name = "''docs''" and err = "Error ''boom''"] r by blast
  have "\<exists>app'. showDocument sampleEnv ''qmd://docs/a.md'' ''a.md'' sampleApp = Inr app'
        \<and> doc_contentMarkdown (app_documentView app') = ''**Error:** '' @ errString
              (Error (''qmd get qmd://docs/a.md failed ('' @ String_int 1 @ ''): boom'' @ [CHR 0x0A]))
        \<and> failureShown app'
              (Error (''qmd get qmd://docs/a.md failed ('' @ String_int 1 @ ''): boom'' @ [CHR 0x0A]))"
    using th [where name = "[]"
        and err = "Error (''qmd get qmd://docs/a.md failed ('' @ String_int 1 @ ''): boom'' @ [CHR 0x0A])"] g
    by blast
  then have 3: "\<exists>app'. showDocument sampleEnv ''qmd://docs/a.md'' ''a.md'' sampleApp = Inr app'
        \<and> doc_contentMarkdown (app_documentView app') =
            ''**Error:** Error: qmd get qmd://docs/a.md failed ('' @ String_int 1 @ ''): boom'' @ [CHR 0x0A]"
    by (auto simp: errString_def)
  have rn: "renameCollection sampleEnv ''docs'' ''papers'' = Inl (Error ''boom'')"
    using t by (simp add: renameCollection_def sampleEnv_def sampleQmd_def run_cli_def)
  have "\<exists>app'. renameOnComplete sampleEnv ''docs'' ''papers'' sampleApp = Inr app'
        \<and> rv_statusText (app_renameView app') = [fg errorColour (''Error: '' @ errString (Error ''boom''))]
        \<and> failureShown app' (Error ''boom'')"
    using callbacks_catch_errors [where env = sampleEnv and app = sampleApp and oldName = "''docs''"
        and newName = "''papers''" and err = "Error ''boom''"] rn by blast
  then have 4: "\<exists>app'. renameOnComplete sampleEnv ''docs'' ''papers'' sampleApp = Inr app'
        \<and> rv_statusText (app_renameView app') = [fg errorColour ''Error: Error: boom'']"
    by (auto simp: errString_def)
  have md: "search_mode (app_searchView sampleApp) = ModeSearch"
    by (simp add: search_mode_def SEARCH_MODES_def sampleApp_def)
  have tq: "trim ''cats'' \<noteq> []" by (simp add: trim_def isWhiteSpace_def)
  obtain err where se: "searchByMode (env_qmd sampleEnv) (env_jsonParse sampleEnv)
          (search_mode (app_searchView sampleApp)) ''cats''
          \<lparr>opt_limit = None, opt_collection = sv_selectedCollection (app_searchView sampleApp)\<rparr> = Inl err"
    unfolding md
    by (simp add: searchByMode_def search_def searchWith_def searchArgs_def run_mcp_def Let_def
        sampleEnv_def sampleQmd_def sampleApp_def)
  have 5: "\<exists>app'. searchOnEnter sampleEnv ''cats'' sampleApp = Inr app'
        \<and> sv_statusText (app_searchView app') = [fg errorColour (''Error: '' @ errString err)]
        \<and> failureShown app' err"
    using callbacks_catch_errors [where env = sampleEnv and app = sampleApp and query = "''cats''"
        and err = err] md tq se by blast
  from a r g 1 2 3 rn 4 5 se show ?thesis by blast
qed

text \<open>
  The claim as stated fails for deleting: when \<^verbatim>\<open>qmd collection remove\<close> fails, the
  callback returns with the application as it was, and no text on the screen tells of the
  error.
\<close>

theorem delete_failure_counterexample:
  "removeCollection sampleEnv ''docs'' = Inl (Error ''boom'')
   \<and> deleteOnConfirm sampleEnv ''docs'' (enterDeleteCollection sampleApp)
       = Inr (enterDeleteCollection sampleApp)
   \<and> \<not> failureShown (enterDeleteCollection sampleApp) (Error ''boom'')"
proof -
  have t: "trim (''boom'' @ [CHR 0x0A]) = ''boom''" by (simp add: trim_def isWhiteSpace_def)
  have r: "removeCollection sampleEnv ''docs'' = Inl (Error ''boom'')"
    using t by (simp add: removeCollection_def sampleEnv_def sampleQmd_def run_cli_def)
  have d: "deleteOnConfirm sampleEnv ''docs'' (enterDeleteCollection sampleApp)
       = Inr (enterDeleteCollection sampleApp)"
    using r by (simp add: deleteOnConfirm_def)
  have n: "\<not> failureShown (enterDeleteCollection sampleApp) (Error ''boom'')"
    by code_simp
  from r d n show ?thesis by blast
qed


end
